theory Spec2Isabelle
  imports Main "HOL-Library.Word"
begin

unbundle bit_operations_syntax

section \<open>The channel and the operating system around it\<close>

type_synonym byte = "8 word"

text \<open>
  The frontend talks to the target through two descriptors with the system calls
  \<^verbatim>\<open>read\<close> and \<^verbatim>\<open>write\<close>, and allocates with \<^verbatim>\<open>calloc\<close>.  Their behaviour is
  written as scripts held in the state: each call takes the next event.

  \<^item> \<open>RdErr\<close>: \<^verbatim>\<open>read\<close> returns a negative value.  \<open>RdData bs\<close>: the bytes \<open>bs\<close> are
    available; a \<^verbatim>\<open>read\<close> of \<open>n\<close> bytes returns the first \<open>n\<close> of them and leaves the
    others for the next call (\<open>RdData []\<close> is a call that returns 0).  When the
    script is used up the stream is at its end: every \<^verbatim>\<open>read\<close> returns 0.
  \<^item> \<open>WrErr\<close>: \<^verbatim>\<open>write\<close> returns a negative value.  \<open>WrAccept k\<close>: the call writes
    at most \<open>k\<close> bytes.  When the script is used up every \<^verbatim>\<open>write\<close> takes all it is given.
  \<^item> \<open>allocs\<close>: one boolean for each \<^verbatim>\<open>calloc\<close>, \<open>False\<close> for a call that returns
    \<^verbatim>\<open>NULL\<close>; when the script is used up every allocation succeeds.
\<close>

datatype rd_event = RdErr | RdData "byte list"

datatype wr_event = WrErr | WrAccept nat

text \<open>An entry of the table \<^verbatim>\<open>files\<close>; a pointer is an address, \<open>None\<close> is \<^verbatim>\<open>NULL\<close>.\<close>

record mbedtls_serialize_file_context_t =
  file_ptr :: "nat option"
  inUse :: bool

text \<open>
  The state outside the context: the three scripts, the bytes written so far, the
  globals \<^verbatim>\<open>exitcode\<close> and \<^verbatim>\<open>files\<close>, and the state \<open>host\<close> of the platform's network
  and file system modules.
\<close>

record 'h world =
  rd_in :: "rd_event list"
  wr_ev :: "wr_event list"
  wr_out :: "byte list"
  allocs :: "bool list"
  exitcode :: int
  files :: "mbedtls_serialize_file_context_t list"
  host :: 'h

definition os_read :: "nat \<Rightarrow> 'h world \<Rightarrow> byte list option \<times> 'h world" where
  "os_read n w =
     (case rd_in w of
        [] \<Rightarrow> (Some [], w)
      | RdErr # es \<Rightarrow> (None, w\<lparr>rd_in := es\<rparr>)
      | RdData bs # es \<Rightarrow>
          (Some (take n bs),
           w\<lparr>rd_in := (if drop n bs = [] then es else RdData (drop n bs) # es)\<rparr>))"

section \<open>The constants of \<^verbatim>\<open>mbedtls/serialize.h\<close>\<close>

text \<open>
  The frontend includes \<^verbatim>\<open>mbedtls/serialize.h\<close> for the message types, the function
  codes, the error codes and the limits.  Every definition below takes them as the
  record \<open>c\<close>; the fields carry the names of the macros.
\<close>

record serialize_h =
  MBEDTLS_SERIALIZE_TYPE_PUSH :: byte
  MBEDTLS_SERIALIZE_TYPE_EXECUTE :: byte
  MBEDTLS_SERIALIZE_TYPE_RESULT :: byte
  MBEDTLS_SERIALIZE_MAX_STRING_LENGTH :: nat
  MBEDTLS_ERR_SERIALIZE_BAD_INPUT :: int
  MBEDTLS_ERR_SERIALIZE_BAD_OUTPUT :: int
  MBEDTLS_ERR_SERIALIZE_ALLOC_FAILED :: int
  MBEDTLS_ERR_SERIALIZE_UNSUPPORTED_OUTPUT :: int
  MBEDTLS_ERR_SERIALIZE_SEND :: int
  MBEDTLS_ERR_SERIALIZE_RECEIVE :: int
  MBEDTLS_SERIALIZE_FUNCTION_EXIT :: "32 word"
  MBEDTLS_SERIALIZE_FUNCTION_ECHO :: "32 word"
  MBEDTLS_SERIALIZE_FUNCTION_USLEEP :: "32 word"
  MBEDTLS_SERIALIZE_FUNCTION_SOCKET :: "32 word"
  MBEDTLS_SERIALIZE_FUNCTION_ACCEPT :: "32 word"
  MBEDTLS_SERIALIZE_FUNCTION_SET_BLOCK :: "32 word"
  MBEDTLS_SERIALIZE_FUNCTION_RECV :: "32 word"
  MBEDTLS_SERIALIZE_FUNCTION_SEND :: "32 word"
  MBEDTLS_SERIALIZE_FUNCTION_SHUTDOWN :: "32 word"
  MBEDTLS_SERIALIZE_FUNCTION_FOPEN :: "32 word"
  MBEDTLS_SERIALIZE_FUNCTION_FREAD :: "32 word"
  MBEDTLS_SERIALIZE_FUNCTION_FGETS :: "32 word"
  MBEDTLS_SERIALIZE_FUNCTION_FWRITE :: "32 word"
  MBEDTLS_SERIALIZE_FUNCTION_FCLOSE :: "32 word"
  MBEDTLS_SERIALIZE_FUNCTION_FSEEK :: "32 word"
  MBEDTLS_SERIALIZE_FUNCTION_FTELL :: "32 word"
  MBEDTLS_SERIALIZE_FUNCTION_FERROR :: "32 word"
  MBEDTLS_SERIALIZE_FUNCTION_DOPEN :: "32 word"
  MBEDTLS_SERIALIZE_FUNCTION_DREAD :: "32 word"
  MBEDTLS_SERIALIZE_FUNCTION_DCLOSE :: "32 word"
  MBEDTLS_SERIALIZE_FUNCTION_STAT :: "32 word"
  MBEDTLS_SERIALIZE_SOCKET_DIRECTION_MASK :: "16 word"
  MBEDTLS_SERIALIZE_SOCKET_BIND :: "16 word"
  MBEDTLS_SERIALIZE_BLOCK_BLOCK :: "16 word"
  MBEDTLS_SERIALIZE_BLOCK_NONBLOCK :: "16 word"
  MBEDTLS_SERIALIZE_TIMEOUT_INFINITE :: "32 word"
  MBEDTLS_SERIALIZE_FSEEK_SET :: "32 word"
  MBEDTLS_SERIALIZE_FSEEK_CUR :: "32 word"
  MBEDTLS_SERIALIZE_FSEEK_END :: "32 word"

section \<open>Reading from the channel\<close>

text \<open>
  Where the C code reads through a null pointer or outside an object its behaviour is
  undefined; the model stops there with one of these values.
\<close>

datatype fault = NullDereference | OutOfBounds

text \<open>
  \<^verbatim>\<open>mbedtls_serialize_read\<close> is two loops.  The pointer \<^verbatim>\<open>buffer\<close> is given by \<open>cap\<close>, the
  number of bytes of the object from \<^verbatim>\<open>buffer\<close> on, and by \<open>b0\<close>, the content of
  \<^verbatim>\<open>buffer[0]\<close> at the call.

  The first loop reads one byte at a time into \<^verbatim>\<open>buffer[0]\<close> until \<^verbatim>\<open>token_count\<close>
  reaches 2.  After a \<^verbatim>\<open>read\<close> that has not failed it looks at \<^verbatim>\<open>buffer[0]\<close>: with a
  buffer of no byte that is an access outside the object.  A \<^verbatim>\<open>read\<close> that returns 0
  leaves \<^verbatim>\<open>buffer[0]\<close> as it was, so the loop carries that byte.  The result is \<open>False\<close>
  when \<^verbatim>\<open>read\<close> failed (the function returns \<^verbatim>\<open>MBEDTLS_ERR_SERIALIZE_RECEIVE\<close>) and
  \<open>True\<close> when two consecutive \<open>'{'\<close> have been read.  The debugging output of
  \<^verbatim>\<open>DUMP_CHAR\<close> is left out.  Both loops may run forever, so they are partial
  functions: \<open>None\<close> is a call that does not return.
\<close>

partial_function (option) read_sync ::
  "nat \<Rightarrow> nat \<Rightarrow> byte \<Rightarrow> 'h world \<Rightarrow> (fault + bool \<times> 'h world) option" where
  "read_sync cap token_count b0 w =
     (if token_count < 2 then
        (case os_read 1 w of
           (None, w') \<Rightarrow> Some (Inr (False, w'))
         | (Some bs, w') \<Rightarrow>
             (if cap = 0 then Some (Inl OutOfBounds)
              else
                (let b = (case bs of [] \<Rightarrow> b0 | x # _ \<Rightarrow> x)
                 in if b = 0x7B then read_sync cap (token_count + 1) b w'
                    else read_sync cap 0 b w')))
      else Some (Inr (True, w)))"

text \<open>
  The second loop, \<^verbatim>\<open>do { n = read( fd, buffer, remaining ); ... } while( remaining > 0 )\<close>;
  \<open>acc\<close> is what the loop has stored so far, from the start of the buffer on.  Bytes
  stored beyond the \<open>cap\<close> bytes of the buffer are outside the object.
\<close>

partial_function (option) read_remaining ::
  "serialize_h \<Rightarrow> nat \<Rightarrow> nat \<Rightarrow> byte list \<Rightarrow> 'h world \<Rightarrow>
   (fault + int \<times> byte list \<times> 'h world) option" where
  "read_remaining c cap remaining acc w =
     (case os_read remaining w of
        (None, w') \<Rightarrow> Some (Inr (MBEDTLS_ERR_SERIALIZE_RECEIVE c, acc, w'))
      | (Some bs, w') \<Rightarrow>
          (if cap < length acc + length bs then Some (Inl OutOfBounds)
           else if remaining - length bs > 0
           then read_remaining c cap (remaining - length bs) (acc @ bs) w'
           else Some (Inr (0, acc @ bs, w'))))"

text \<open>
  \<open>mbedtls_serialize_read c cap b0 len w\<close>.  The result is the return value, the bytes
  that the second loop has stored at the start of the buffer, and the state.
\<close>

definition mbedtls_serialize_read ::
  "serialize_h \<Rightarrow> nat \<Rightarrow> byte \<Rightarrow> nat \<Rightarrow> 'h world \<Rightarrow>
   (fault + int \<times> byte list \<times> 'h world) option" where
  "mbedtls_serialize_read c cap b0 len w =
     (case read_sync cap 0 b0 w of
        None \<Rightarrow> None
      | Some (Inl f) \<Rightarrow> Some (Inl f)
      | Some (Inr (False, w')) \<Rightarrow> Some (Inr (MBEDTLS_ERR_SERIALIZE_RECEIVE c, [], w'))
      | Some (Inr (True, w')) \<Rightarrow> read_remaining c cap len [] w')"

section \<open>Items, the context and allocation\<close>

datatype mbedtls_serialize_status_t =
    MBEDTLS_SERIALIZE_STATUS_DEAD
  | MBEDTLS_SERIALIZE_STATUS_OK
  | MBEDTLS_SERIALIZE_STATUS_OUT_OF_MEMORY
  | MBEDTLS_SERIALIZE_STATUS_EXITED

text \<open>The values of the enumeration, as the C code compares them with integers.\<close>

fun status_value :: "mbedtls_serialize_status_t \<Rightarrow> 32 word" where
  "status_value MBEDTLS_SERIALIZE_STATUS_DEAD = 0"
| "status_value MBEDTLS_SERIALIZE_STATUS_OK = 1"
| "status_value MBEDTLS_SERIALIZE_STATUS_OUT_OF_MEMORY = 2"
| "status_value MBEDTLS_SERIALIZE_STATUS_EXITED = 3"

text \<open>
  An item is the field \<^verbatim>\<open>size\<close> and the bytes allocated after the structure, which
  \<^verbatim>\<open>item_buffer\<close> points to.  The field \<^verbatim>\<open>next\<close> is the tail of the list that holds the
  item: the stack is a list, its head the item \<^verbatim>\<open>ctx->stack\<close> points to.
\<close>

record mbedtls_serialize_item_t =
  item_size :: nat
  item_buffer :: "byte list"

text \<open>
  The descriptors \<^verbatim>\<open>read_fd\<close> and \<^verbatim>\<open>write_fd\<close> of the context are the two streams of
  the state \<open>world\<close>.
\<close>

record mbedtls_serialize_context_t =
  stack :: "mbedtls_serialize_item_t list"
  status :: mbedtls_serialize_status_t

definition item_uint16 :: "mbedtls_serialize_item_t \<Rightarrow> fault + 16 word" where
  "item_uint16 item =
     (case item_buffer item of
        b0 # b1 # _ \<Rightarrow> Inr (push_bit 8 (ucast b0) OR ucast b1)
      | _ \<Rightarrow> Inl OutOfBounds)"

definition item_uint32 :: "mbedtls_serialize_item_t \<Rightarrow> fault + 32 word" where
  "item_uint32 item =
     (case item_buffer item of
        b0 # b1 # b2 # b3 # _ \<Rightarrow>
          Inr (push_bit 24 (ucast b0) OR push_bit 16 (ucast b1) OR push_bit 8 (ucast b2) OR ucast b3)
      | _ \<Rightarrow> Inl OutOfBounds)"

text \<open>
  A \<^verbatim>\<open>size_t\<close> has 64 bits, and \<^verbatim>\<open>mbedtls_serialize_item_t\<close> is a pointer and a
  \<^verbatim>\<open>size_t\<close>: sixteen bytes.
\<close>

definition SIZE_MAX :: nat where
  "SIZE_MAX = 2 ^ 64 - 1"

definition sizeof_item :: nat where
  "sizeof_item = 16"

text \<open>\<^verbatim>\<open>mbedtls_calloc\<close>: the next event of \<open>allocs\<close> says whether the call succeeds.\<close>

definition mbedtls_calloc :: "'h world \<Rightarrow> bool \<times> 'h world" where
  "mbedtls_calloc w =
     (case allocs w of
        [] \<Rightarrow> (True, w)
      | ok # rest \<Rightarrow> (ok, w\<lparr>allocs := rest\<rparr>))"

text \<open>
  \<^verbatim>\<open>alloc_item\<close> asks for \<^verbatim>\<open>sizeof( mbedtls_serialize_item_t ) + length\<close> bytes.  When
  the sum does not fit a \<^verbatim>\<open>size_t\<close> it wraps to less than the size of the structure:
  if the allocation succeeds, \<^verbatim>\<open>item->size = length\<close> writes outside the block.
  Otherwise the block holds the structure and \<^verbatim>\<open>length\<close> bytes, which \<^verbatim>\<open>calloc\<close> has
  zeroed.
\<close>

definition alloc_item ::
  "nat \<Rightarrow> 'h world \<Rightarrow> fault + mbedtls_serialize_item_t option \<times> 'h world" where
  "alloc_item len w =
     (case mbedtls_calloc w of
        (False, w') \<Rightarrow> Inr (None, w')
      | (True, w') \<Rightarrow>
          (if SIZE_MAX < sizeof_item + len then Inl OutOfBounds
           else Inr (Some \<lparr>item_size = len, item_buffer = replicate len 0\<rparr>, w')))"

definition set_item_uint16 :: "mbedtls_serialize_item_t \<Rightarrow> 16 word \<Rightarrow> mbedtls_serialize_item_t" where
  "set_item_uint16 item v =
     item\<lparr>item_buffer := (item_buffer item)[0 := ucast (drop_bit 8 v AND 0xff), 1 := ucast (v AND 0xff)]\<rparr>"

definition set_item_uint32 :: "mbedtls_serialize_item_t \<Rightarrow> 32 word \<Rightarrow> mbedtls_serialize_item_t" where
  "set_item_uint32 item v =
     item\<lparr>item_buffer := (item_buffer item)
        [0 := ucast (drop_bit 24 v AND 0xff), 1 := ucast (drop_bit 16 v AND 0xff),
         2 := ucast (drop_bit 8 v AND 0xff), 3 := ucast (v AND 0xff)]\<rparr>"

text \<open>Storing the bytes \<open>d\<close> at the start of a buffer (\<^verbatim>\<open>memcpy\<close>, or a platform function
  that fills the buffer it is given).\<close>

definition store :: "byte list \<Rightarrow> byte list \<Rightarrow> byte list" where
  "store d buf = take (length buf) d @ drop (length d) buf"

text \<open>\<^verbatim>\<open>strlen\<close> of the string at the start of a buffer.\<close>

definition strlen :: "byte list \<Rightarrow> nat" where
  "strlen buf = length (takeWhile (\<lambda>b. b \<noteq> 0) buf)"

section \<open>Writing to the channel\<close>

definition os_write :: "byte list \<Rightarrow> 'h world \<Rightarrow> nat option \<times> 'h world" where
  "os_write buf w =
     (case wr_ev w of
        [] \<Rightarrow> (Some (length buf), w\<lparr>wr_out := wr_out w @ buf\<rparr>)
      | WrErr # es \<Rightarrow> (None, w\<lparr>wr_ev := es\<rparr>)
      | WrAccept k # es \<Rightarrow>
          (Some (min k (length buf)), w\<lparr>wr_ev := es, wr_out := wr_out w @ take k buf\<rparr>))"

text \<open>
  \<^verbatim>\<open>do { result = write( fd, buffer, length ); ... } while( length > 0 )\<close>.  The buffer
  \<open>buf\<close> is the \<^verbatim>\<open>length\<close> bytes at \<^verbatim>\<open>buffer\<close>.
\<close>

function mbedtls_serialize_write :: "serialize_h \<Rightarrow> byte list \<Rightarrow> 'h world \<Rightarrow> int \<times> 'h world" where
  "mbedtls_serialize_write c buf w =
     (case os_write buf w of
        (None, w') \<Rightarrow> (MBEDTLS_ERR_SERIALIZE_SEND c, w')
      | (Some result, w') \<Rightarrow>
          (if length buf - result > 0 then mbedtls_serialize_write c (drop result buf) w'
           else (0, w')))"
  by pat_completeness auto
termination
proof (relation "measure (\<lambda>(c, buf, w). length (wr_ev w))")
  show "wf (measure (\<lambda>(c, buf, w :: 'h world). length (wr_ev w)))" by simp
next
  fix c :: serialize_h and buf :: "byte list" and w w' :: "'h world" and x result
  assume "(x, w') = os_write buf w" "x = Some result" "0 < length buf - result"
  then show "((c, drop result buf, w'), (c, buf, w)) \<in> measure (\<lambda>(c, buf, w). length (wr_ev w))"
    by (auto simp: os_write_def split: list.splits wr_event.splits)
qed

definition mbedtls_serialize_send_result ::
  "serialize_h \<Rightarrow> byte list \<Rightarrow> nat \<Rightarrow> 'h world \<Rightarrow> int \<times> 'h world" where
  "mbedtls_serialize_send_result c buffer len w =
     (if len > MBEDTLS_SERIALIZE_MAX_STRING_LENGTH c
      then (MBEDTLS_ERR_SERIALIZE_UNSUPPORTED_OUTPUT c, w)
      else
        (let header = [MBEDTLS_SERIALIZE_TYPE_RESULT c,
                       of_nat (drop_bit 16 len AND 0xff),
                       of_nat (drop_bit 8 len AND 0xff),
                       of_nat (len AND 0xff)]
         in case mbedtls_serialize_write c header w of
              (ret, w') \<Rightarrow>
                (if ret \<noteq> 0 then (ret, w')
                 else mbedtls_serialize_write c (take len buffer) w')))"

section \<open>The table of files\<close>

definition MBEDTLS_SERIALIZE_MAX_FILES :: nat where
  "MBEDTLS_SERIALIZE_MAX_FILES = 100"

text \<open>
  The table \<^verbatim>\<open>files\<close> is an array of \<^verbatim>\<open>MBEDTLS_SERIALIZE_MAX_FILES\<close> entries: the list
  \<open>files w\<close> has that length.  An \<^verbatim>\<open>int32_t\<close> is an \<open>int\<close>.

  The loop of \<^verbatim>\<open>alloc_file_context\<close>, from index \<open>i\<close> on: the first entry not in use.
\<close>

fun first_free :: "mbedtls_serialize_file_context_t list \<Rightarrow> nat \<Rightarrow> nat option" where
  "first_free [] i = None"
| "first_free (f # fs) i = (if \<not> inUse f then Some i else first_free fs (Suc i))"

definition alloc_file_context :: "'h world \<Rightarrow> int \<times> 'h world" where
  "alloc_file_context w =
     (case first_free (take MBEDTLS_SERIALIZE_MAX_FILES (files w)) 0 of
        None \<Rightarrow> (- 1, w)
      | Some i \<Rightarrow> (int i + 1, w\<lparr>files := (files w)[i := (files w ! i)\<lparr>inUse := True\<rparr>]\<rparr>))"

text \<open>
  \<^verbatim>\<open>free_file_context\<close> and \<^verbatim>\<open>get_file_from_id\<close> decrement the identifier and compare
  it with the size of the table only from above; with an identifier below 1 they
  access \<^verbatim>\<open>files[file_id]\<close> at a negative index.
\<close>

definition free_file_context :: "int \<Rightarrow> 'h world \<Rightarrow> fault + (int \<times> 'h world)" where
  "free_file_context file_id0 w =
     (let file_id = file_id0 - 1
      in if file_id < int MBEDTLS_SERIALIZE_MAX_FILES
         then
           (if file_id < 0 \<or> \<not> nat file_id < length (files w) then Inl OutOfBounds
            else
              (let i = nat file_id;
                   fs = (files w)[i := (files w ! i)\<lparr>inUse := False\<rparr>]
               in if file_ptr (fs ! i) \<noteq> None
                  then Inr (0, w\<lparr>files := fs[i := (fs ! i)\<lparr>file_ptr := None\<rparr>]\<rparr>)
                  else Inr (- 1, w\<lparr>files := fs\<rparr>)))
         else Inr (- 1, w))"

definition get_file_from_id :: "int \<Rightarrow> 'h world \<Rightarrow> fault + nat option" where
  "get_file_from_id file_id0 w =
     (let file_id = file_id0 - 1
      in if file_id < int MBEDTLS_SERIALIZE_MAX_FILES
         then
           (if file_id < 0 \<or> \<not> nat file_id < length (files w) then Inl OutOfBounds
            else if inUse (files w ! nat file_id) then Inr (file_ptr (files w ! nat file_id))
            else Inr None)
         else Inr None)"

section \<open>The platform\<close>

text \<open>
  The network and file system modules (\<^verbatim>\<open>mbedtls/net_sockets.h\<close>, \<^verbatim>\<open>mbedtls/fsio.h\<close>)
  are parameters: a record \<open>p\<close> of functions on the state \<open>'h\<close> of the host.  A
  function that fills a buffer returns the bytes it stored; a function that returns
  a pointer returns an address or \<open>None\<close>.
\<close>

datatype whence_t = SEEK_SET | SEEK_CUR | SEEK_END

record 'h platform =
  mbedtls_net_usleep :: "32 word \<Rightarrow> 'h \<Rightarrow> 'h"
  mbedtls_net_bind :: "byte list \<Rightarrow> byte list \<Rightarrow> 16 word \<Rightarrow> 'h \<Rightarrow> int \<times> int \<times> 'h"
  mbedtls_net_connect :: "byte list \<Rightarrow> byte list \<Rightarrow> 16 word \<Rightarrow> 'h \<Rightarrow> int \<times> int \<times> 'h"
  mbedtls_net_accept :: "int \<Rightarrow> nat \<Rightarrow> 'h \<Rightarrow> int \<times> int \<times> int \<times> byte list \<times> nat \<times> 'h"
  mbedtls_net_set_block :: "int \<Rightarrow> 'h \<Rightarrow> int \<times> 'h"
  mbedtls_net_set_nonblock :: "int \<Rightarrow> 'h \<Rightarrow> int \<times> 'h"
  mbedtls_net_recv :: "int \<Rightarrow> nat \<Rightarrow> 'h \<Rightarrow> int \<times> byte list \<times> 'h"
  mbedtls_net_recv_timeout :: "int \<Rightarrow> nat \<Rightarrow> 32 word \<Rightarrow> 'h \<Rightarrow> int \<times> byte list \<times> 'h"
  mbedtls_net_send :: "int \<Rightarrow> byte list \<Rightarrow> 'h \<Rightarrow> int \<times> 'h"
  mbedtls_net_free :: "int \<Rightarrow> 'h \<Rightarrow> 'h"
  mbedtls_fopen :: "byte list \<Rightarrow> byte list \<Rightarrow> 'h \<Rightarrow> nat option \<times> 'h"
  mbedtls_fread :: "nat \<Rightarrow> nat \<Rightarrow> 'h \<Rightarrow> int \<times> byte list \<times> 'h"
  mbedtls_fgets :: "int \<Rightarrow> nat \<Rightarrow> 'h \<Rightarrow> byte list option \<times> 'h"
  mbedtls_fwrite :: "byte list \<Rightarrow> nat \<Rightarrow> 'h \<Rightarrow> int \<times> 'h"
  mbedtls_fclose :: "nat \<Rightarrow> 'h \<Rightarrow> 'h"
  mbedtls_fseek :: "nat \<Rightarrow> int \<Rightarrow> whence_t \<Rightarrow> 'h \<Rightarrow> int \<times> 'h"
  mbedtls_ftell :: "nat \<Rightarrow> 'h \<Rightarrow> int \<times> 'h"
  mbedtls_ferror :: "nat \<Rightarrow> 'h \<Rightarrow> int \<times> 'h"
  mbedtls_opendir :: "byte list \<Rightarrow> 'h \<Rightarrow> nat option \<times> 'h"
  mbedtls_readdir :: "nat \<Rightarrow> nat \<Rightarrow> 'h \<Rightarrow> int \<times> byte list \<times> 'h"
  mbedtls_closedir :: "nat \<Rightarrow> 'h \<Rightarrow> 'h"
  mbedtls_stat :: "byte list \<Rightarrow> 'h \<Rightarrow> int \<times> 16 word \<times> 'h"

section \<open>The dispatcher\<close>

type_synonym outputs_t = "mbedtls_serialize_item_t option list"

text \<open>
  What the \<^verbatim>\<open>switch\<close> of \<^verbatim>\<open>mbedtls_serialize_perform\<close> leaves at its \<^verbatim>\<open>break\<close>: the
  value of \<^verbatim>\<open>ret\<close>, the array \<^verbatim>\<open>outputs\<close>, the context and the state; or a fault.
\<close>

type_synonym 'h performed =
  "fault + (int \<times> outputs_t \<times> mbedtls_serialize_context_t \<times> 'h world)"

definition fbind :: "fault + 'a \<Rightarrow> ('a \<Rightarrow> fault + 'b) \<Rightarrow> fault + 'b" where
  "fbind m f = (case m of Inl e \<Rightarrow> Inl e | Inr x \<Rightarrow> f x)"

text \<open>
  \<^verbatim>\<open>inputs[i]\<close> where the code dereferences it: the array holds the first \<^verbatim>\<open>arity\<close>
  items of the stack, and null pointers after them.
\<close>

definition input_at :: "mbedtls_serialize_item_t list \<Rightarrow> nat \<Rightarrow> fault + mbedtls_serialize_item_t" where
  "input_at inputs i = (if i < length inputs then Inr (inputs ! i) else Inl NullDereference)"

definition input_uint32 :: "mbedtls_serialize_item_t list \<Rightarrow> nat \<Rightarrow> fault + 32 word" where
  "input_uint32 inputs i = fbind (input_at inputs i) item_uint32"

text \<open>The conversion of an \<^verbatim>\<open>int32_t\<close> to \<^verbatim>\<open>size_t\<close> (64 bits).\<close>

definition size_t_of_int32 :: "int \<Rightarrow> nat" where
  "size_t_of_int32 n = (if n < 0 then nat (2 ^ 64 + n) else nat n)"

text \<open>
  \<^verbatim>\<open>host[inputs[0]->size - 1] == '\0'\<close>.  For an item of size 0 the index wraps to
  \<open>-1\<close>: the byte read is the last byte of the structure before the buffer, a byte
  of the field \<^verbatim>\<open>size\<close>, which is 0.
\<close>

definition nul_terminated :: "mbedtls_serialize_item_t \<Rightarrow> bool" where
  "nul_terminated item =
     (if item_size item = 0 then True
      else item_buffer item ! (item_size item - 1) = 0)"

text \<open>The three macros; \<open>k\<close> is the code after the macro.\<close>

definition CHECK_ARITY ::
  "serialize_h \<Rightarrow> nat \<Rightarrow> nat \<Rightarrow> outputs_t \<Rightarrow> mbedtls_serialize_context_t \<Rightarrow> 'h world \<Rightarrow>
   'h performed \<Rightarrow> 'h performed" where
  "CHECK_ARITY c arity min_arity outputs ctx w k =
     (if arity < min_arity then Inr (MBEDTLS_ERR_SERIALIZE_BAD_INPUT c, outputs, ctx, w) else k)"

definition CHECK_LENGTH ::
  "serialize_h \<Rightarrow> mbedtls_serialize_item_t list \<Rightarrow> nat \<Rightarrow> nat \<Rightarrow> outputs_t \<Rightarrow>
   mbedtls_serialize_context_t \<Rightarrow> 'h world \<Rightarrow> 'h performed \<Rightarrow> 'h performed" where
  "CHECK_LENGTH c inputs i n outputs ctx w k =
     (if item_size (inputs ! i) < n then Inr (MBEDTLS_ERR_SERIALIZE_BAD_INPUT c, outputs, ctx, w)
      else k)"

definition ALLOC_OUTPUT ::
  "serialize_h \<Rightarrow> nat \<Rightarrow> nat \<Rightarrow> outputs_t \<Rightarrow> mbedtls_serialize_context_t \<Rightarrow> 'h world \<Rightarrow>
   (mbedtls_serialize_item_t \<Rightarrow> outputs_t \<Rightarrow> 'h world \<Rightarrow> 'h performed) \<Rightarrow> 'h performed" where
  "ALLOC_OUTPUT c i len outputs ctx w k =
     (case alloc_item len w of
        Inl f \<Rightarrow> Inl f
      | Inr (None, w') \<Rightarrow> Inr (MBEDTLS_ERR_SERIALIZE_ALLOC_FAILED c, outputs[i := None], ctx, w')
      | Inr (Some item, w') \<Rightarrow> k item (outputs[i := Some item]) w')"

subsection \<open>The cases of the switch\<close>

definition op_exit ::
  "serialize_h \<Rightarrow> mbedtls_serialize_item_t list \<Rightarrow> outputs_t \<Rightarrow> mbedtls_serialize_context_t \<Rightarrow>
   'h world \<Rightarrow> 'h performed" where
  "op_exit c inputs outputs ctx w =
     CHECK_ARITY c (length inputs) 1 outputs ctx w
      (CHECK_LENGTH c inputs 0 4 outputs ctx w
        (fbind (item_uint32 (inputs ! 0)) (\<lambda>code.
           Inr (0, outputs, ctx\<lparr>status := MBEDTLS_SERIALIZE_STATUS_EXITED\<rparr>,
                w\<lparr>exitcode := sint code\<rparr>))))"

definition op_echo ::
  "serialize_h \<Rightarrow> mbedtls_serialize_item_t list \<Rightarrow> outputs_t \<Rightarrow> mbedtls_serialize_context_t \<Rightarrow>
   'h world \<Rightarrow> 'h performed" where
  "op_echo c inputs outputs ctx w =
     CHECK_ARITY c (length inputs) 1 outputs ctx w
      (ALLOC_OUTPUT c 0 (item_size (inputs ! 0)) outputs ctx w (\<lambda>out outputs w.
         Inr (0,
              outputs[0 := Some (out\<lparr>item_buffer :=
                 store (take (item_size (inputs ! 0)) (item_buffer (inputs ! 0))) (item_buffer out)\<rparr>)],
              ctx, w)))"

definition op_usleep ::
  "serialize_h \<Rightarrow> 'h platform \<Rightarrow> mbedtls_serialize_item_t list \<Rightarrow> outputs_t \<Rightarrow>
   mbedtls_serialize_context_t \<Rightarrow> 'h world \<Rightarrow> 'h performed" where
  "op_usleep c p inputs outputs ctx w =
     CHECK_ARITY c (length inputs) 1 outputs ctx w
      (CHECK_LENGTH c inputs 0 4 outputs ctx w
        (fbind (item_uint32 (inputs ! 0)) (\<lambda>usec.
           Inr (0, outputs, ctx, w\<lparr>host := mbedtls_net_usleep p usec (host w)\<rparr>))))"

definition op_socket ::
  "serialize_h \<Rightarrow> 'h platform \<Rightarrow> mbedtls_serialize_item_t list \<Rightarrow> outputs_t \<Rightarrow>
   mbedtls_serialize_context_t \<Rightarrow> 'h world \<Rightarrow> 'h performed" where
  "op_socket c p inputs outputs ctx w =
     CHECK_ARITY c (length inputs) 3 outputs ctx w
      (CHECK_LENGTH c inputs 2 2 outputs ctx w
        (if nul_terminated (inputs ! 0) \<and> nul_terminated (inputs ! 1)
         then
           fbind (item_uint16 (inputs ! 2)) (\<lambda>proto.
             let is_bind = (proto AND MBEDTLS_SERIALIZE_SOCKET_DIRECTION_MASK c
                              = MBEDTLS_SERIALIZE_SOCKET_BIND c)
             in ALLOC_OUTPUT c 0 2 outputs ctx w (\<lambda>out outputs w.
                  let proto' = proto AND NOT (MBEDTLS_SERIALIZE_SOCKET_DIRECTION_MASK c)
                  in case (if is_bind
                           then mbedtls_net_bind p (item_buffer (inputs ! 0))
                                  (item_buffer (inputs ! 1)) proto' (host w)
                           else mbedtls_net_connect p (item_buffer (inputs ! 0))
                                  (item_buffer (inputs ! 1)) proto' (host w)) of
                       (ret, fd, h') \<Rightarrow>
                         Inr (ret,
                              (if ret = 0
                               then outputs[0 := Some (set_item_uint16 out (word_of_int fd))]
                               else outputs),
                              ctx, w\<lparr>host := h'\<rparr>)))
         else Inr (MBEDTLS_ERR_SERIALIZE_BAD_INPUT c, outputs, ctx, w)))"

definition op_accept ::
  "serialize_h \<Rightarrow> 'h platform \<Rightarrow> mbedtls_serialize_item_t list \<Rightarrow> outputs_t \<Rightarrow>
   mbedtls_serialize_context_t \<Rightarrow> 'h world \<Rightarrow> 'h performed" where
  "op_accept c p inputs outputs ctx w =
     CHECK_ARITY c (length inputs) 2 outputs ctx w
      (CHECK_LENGTH c inputs 0 2 outputs ctx w
        (CHECK_LENGTH c inputs 1 4 outputs ctx w
          (fbind (item_uint16 (inputs ! 0)) (\<lambda>bind_fd.
           fbind (item_uint32 (inputs ! 1)) (\<lambda>buffer_size.
             ALLOC_OUTPUT c 0 2 outputs ctx w (\<lambda>out0 outputs w.
             ALLOC_OUTPUT c 1 2 outputs ctx w (\<lambda>out1 outputs w.
             ALLOC_OUTPUT c 2 (unat buffer_size) outputs ctx w (\<lambda>out2 outputs w.
               case mbedtls_net_accept p (uint bind_fd) (item_size out2) (host w) of
                 (ret, bind_fd', client_fd, client_ip, ip_len, h') \<Rightarrow>
                   (let out2' = out2\<lparr>item_buffer := store client_ip (item_buffer out2)\<rparr>
                    in Inr (ret,
                            (if ret = 0
                             then outputs[0 := Some (set_item_uint16 out0 (word_of_int bind_fd')),
                                          1 := Some (set_item_uint16 out1 (word_of_int client_fd)),
                                          2 := Some (out2'\<lparr>item_size := ip_len\<rparr>)]
                             else outputs[2 := Some out2']),
                            ctx, w\<lparr>host := h'\<rparr>))))))))))"

definition op_set_block ::
  "serialize_h \<Rightarrow> 'h platform \<Rightarrow> mbedtls_serialize_item_t list \<Rightarrow> outputs_t \<Rightarrow>
   mbedtls_serialize_context_t \<Rightarrow> 'h world \<Rightarrow> 'h performed" where
  "op_set_block c p inputs outputs ctx w =
     CHECK_ARITY c (length inputs) 2 outputs ctx w
      (CHECK_LENGTH c inputs 0 2 outputs ctx w
        (CHECK_LENGTH c inputs 1 2 outputs ctx w
          (fbind (item_uint16 (inputs ! 0)) (\<lambda>fd.
           fbind (item_uint16 (inputs ! 1)) (\<lambda>mode.
             if mode = MBEDTLS_SERIALIZE_BLOCK_BLOCK c
             then (case mbedtls_net_set_block p (uint fd) (host w) of
                     (ret, h') \<Rightarrow> Inr (ret, outputs, ctx, w\<lparr>host := h'\<rparr>))
             else if mode = MBEDTLS_SERIALIZE_BLOCK_NONBLOCK c
             then (case mbedtls_net_set_nonblock p (uint fd) (host w) of
                     (ret, h') \<Rightarrow> Inr (ret, outputs, ctx, w\<lparr>host := h'\<rparr>))
             else Inr (MBEDTLS_ERR_SERIALIZE_BAD_INPUT c, outputs, ctx, w))))))"

definition op_recv ::
  "serialize_h \<Rightarrow> 'h platform \<Rightarrow> mbedtls_serialize_item_t list \<Rightarrow> outputs_t \<Rightarrow>
   mbedtls_serialize_context_t \<Rightarrow> 'h world \<Rightarrow> 'h performed" where
  "op_recv c p inputs outputs ctx w =
     CHECK_ARITY c (length inputs) 3 outputs ctx w
      (CHECK_LENGTH c inputs 0 2 outputs ctx w
        (CHECK_LENGTH c inputs 1 4 outputs ctx w
          (CHECK_LENGTH c inputs 2 4 outputs ctx w
            (fbind (item_uint16 (inputs ! 0)) (\<lambda>fd.
             fbind (item_uint32 (inputs ! 1)) (\<lambda>len.
             fbind (item_uint32 (inputs ! 2)) (\<lambda>timeout.
               ALLOC_OUTPUT c 0 (unat len) outputs ctx w (\<lambda>out outputs w.
                 case (if timeout = MBEDTLS_SERIALIZE_TIMEOUT_INFINITE c
                       then mbedtls_net_recv p (uint fd) (unat len) (host w)
                       else mbedtls_net_recv_timeout p (uint fd) (unat len) timeout (host w)) of
                   (ret, data, h') \<Rightarrow>
                     (let out' = out\<lparr>item_buffer := store data (item_buffer out)\<rparr>
                      in if ret \<ge> 0
                         then Inr (0, outputs[0 := Some (out'\<lparr>item_size := nat ret\<rparr>)], ctx,
                                   w\<lparr>host := h'\<rparr>)
                         else Inr (ret, outputs[0 := Some out'], ctx, w\<lparr>host := h'\<rparr>))))))))))"

definition op_send ::
  "serialize_h \<Rightarrow> 'h platform \<Rightarrow> mbedtls_serialize_item_t list \<Rightarrow> outputs_t \<Rightarrow>
   mbedtls_serialize_context_t \<Rightarrow> 'h world \<Rightarrow> 'h performed" where
  "op_send c p inputs outputs ctx w =
     CHECK_ARITY c (length inputs) 2 outputs ctx w
      (CHECK_LENGTH c inputs 0 2 outputs ctx w
        (fbind (item_uint16 (inputs ! 0)) (\<lambda>fd.
           ALLOC_OUTPUT c 0 4 outputs ctx w (\<lambda>out outputs w.
             case mbedtls_net_send p (uint fd)
                    (take (item_size (inputs ! 1)) (item_buffer (inputs ! 1))) (host w) of
               (ret, h') \<Rightarrow>
                 (if ret \<ge> 0
                  then Inr (0, outputs[0 := Some (set_item_uint32 out (word_of_int ret))], ctx,
                            w\<lparr>host := h'\<rparr>)
                  else Inr (ret, outputs, ctx, w\<lparr>host := h'\<rparr>))))))"

definition op_shutdown ::
  "serialize_h \<Rightarrow> 'h platform \<Rightarrow> mbedtls_serialize_item_t list \<Rightarrow> outputs_t \<Rightarrow>
   mbedtls_serialize_context_t \<Rightarrow> 'h world \<Rightarrow> 'h performed" where
  "op_shutdown c p inputs outputs ctx w =
     CHECK_ARITY c (length inputs) 1 outputs ctx w
      (CHECK_LENGTH c inputs 0 2 outputs ctx w
        (fbind (item_uint16 (inputs ! 0)) (\<lambda>fd.
           Inr (0, outputs, ctx, w\<lparr>host := mbedtls_net_free p (uint fd) (host w)\<rparr>))))"

text \<open>
  The cases for files and directories have no \<^verbatim>\<open>CHECK_ARITY\<close> and no
  \<^verbatim>\<open>CHECK_LENGTH\<close>: they use \<^verbatim>\<open>inputs[i]\<close> as it is.
\<close>

definition op_fopen ::
  "serialize_h \<Rightarrow> 'h platform \<Rightarrow> mbedtls_serialize_item_t list \<Rightarrow> outputs_t \<Rightarrow>
   mbedtls_serialize_context_t \<Rightarrow> 'h world \<Rightarrow> 'h performed" where
  "op_fopen c p inputs outputs ctx w =
     ALLOC_OUTPUT c 0 4 outputs ctx w (\<lambda>out outputs w.
       fbind (input_at inputs 0) (\<lambda>mode.
       fbind (input_at inputs 1) (\<lambda>path.
         case alloc_file_context w of
           (file_id, w) \<Rightarrow>
             (if file_id \<noteq> - 1
              then
                (case mbedtls_fopen p (item_buffer path) (item_buffer mode) (host w) of
                   (Some f, h') \<Rightarrow>
                     Inr (0, outputs[0 := Some (set_item_uint32 out (word_of_int file_id))], ctx,
                          w\<lparr>host := h',
                            files := (files w)[nat (file_id - 1) :=
                               (files w ! nat (file_id - 1))\<lparr>file_ptr := Some f\<rparr>]\<rparr>)
                 | (None, h') \<Rightarrow>
                     fbind (free_file_context file_id (w\<lparr>host := h'\<rparr>)) (\<lambda>(r, w).
                       Inr (MBEDTLS_ERR_SERIALIZE_BAD_OUTPUT c, outputs, ctx, w)))
              else Inr (MBEDTLS_ERR_SERIALIZE_BAD_OUTPUT c, outputs, ctx, w)))))"

definition op_fread ::
  "serialize_h \<Rightarrow> 'h platform \<Rightarrow> mbedtls_serialize_item_t list \<Rightarrow> outputs_t \<Rightarrow>
   mbedtls_serialize_context_t \<Rightarrow> 'h world \<Rightarrow> 'h performed" where
  "op_fread c p inputs outputs ctx w =
     fbind (input_uint32 inputs 0) (\<lambda>size_arg.
     fbind (input_uint32 inputs 1) (\<lambda>file_id.
     fbind (get_file_from_id (sint file_id) w) (\<lambda>file.
       case file of
         None \<Rightarrow> Inr (MBEDTLS_ERR_SERIALIZE_BAD_OUTPUT c, outputs, ctx, w)
       | Some f \<Rightarrow>
           ALLOC_OUTPUT c 0 (size_t_of_int32 (sint size_arg)) outputs ctx w (\<lambda>out outputs w.
             case mbedtls_fread p (size_t_of_int32 (sint size_arg)) f (host w) of
               (ret, data, h') \<Rightarrow>
                 (let out' = out\<lparr>item_buffer := store data (item_buffer out)\<rparr>
                  in if ret \<ge> 0
                     then Inr (0, outputs[0 := Some (out'\<lparr>item_size := nat ret\<rparr>)], ctx,
                               w\<lparr>host := h'\<rparr>)
                     else Inr (ret, outputs[0 := Some out'], ctx, w\<lparr>host := h'\<rparr>))))))"

definition op_fgets ::
  "serialize_h \<Rightarrow> 'h platform \<Rightarrow> mbedtls_serialize_item_t list \<Rightarrow> outputs_t \<Rightarrow>
   mbedtls_serialize_context_t \<Rightarrow> 'h world \<Rightarrow> 'h performed" where
  "op_fgets c p inputs outputs ctx w =
     fbind (input_uint32 inputs 0) (\<lambda>size_arg.
     fbind (input_uint32 inputs 1) (\<lambda>file_id.
     fbind (get_file_from_id (sint file_id) w) (\<lambda>file.
       case file of
         None \<Rightarrow> Inr (MBEDTLS_ERR_SERIALIZE_BAD_OUTPUT c, outputs, ctx, w)
       | Some f \<Rightarrow>
           ALLOC_OUTPUT c 0 (size_t_of_int32 (sint size_arg)) outputs ctx w (\<lambda>out outputs w.
             case mbedtls_fgets p (sint size_arg) f (host w) of
               (Some line, h') \<Rightarrow>
                 (let out' = out\<lparr>item_buffer := store line (item_buffer out)\<rparr>
                  in Inr (0, outputs[0 := Some (out'\<lparr>item_size := strlen (item_buffer out') + 1\<rparr>)],
                          ctx, w\<lparr>host := h'\<rparr>))
             | (None, h') \<Rightarrow>
                 Inr (MBEDTLS_ERR_SERIALIZE_BAD_OUTPUT c, outputs, ctx, w\<lparr>host := h'\<rparr>)))))"

definition op_fwrite ::
  "serialize_h \<Rightarrow> 'h platform \<Rightarrow> mbedtls_serialize_item_t list \<Rightarrow> outputs_t \<Rightarrow>
   mbedtls_serialize_context_t \<Rightarrow> 'h world \<Rightarrow> 'h performed" where
  "op_fwrite c p inputs outputs ctx w =
     ALLOC_OUTPUT c 0 4 outputs ctx w (\<lambda>out outputs w.
       fbind (input_uint32 inputs 1) (\<lambda>file_id.
       fbind (get_file_from_id (sint file_id) w) (\<lambda>file.
         case file of
           None \<Rightarrow> Inr (MBEDTLS_ERR_SERIALIZE_BAD_OUTPUT c, outputs, ctx, w)
         | Some f \<Rightarrow>
             fbind (input_at inputs 0) (\<lambda>data.
               case mbedtls_fwrite p (take (item_size data) (item_buffer data)) f (host w) of
                 (ret, h') \<Rightarrow>
                   (if ret \<ge> 0
                    then Inr (0, outputs[0 := Some (set_item_uint32 out (word_of_int ret))], ctx,
                              w\<lparr>host := h'\<rparr>)
                    else Inr (ret, outputs, ctx, w\<lparr>host := h'\<rparr>))))))"

definition op_fclose ::
  "serialize_h \<Rightarrow> 'h platform \<Rightarrow> mbedtls_serialize_item_t list \<Rightarrow> outputs_t \<Rightarrow>
   mbedtls_serialize_context_t \<Rightarrow> 'h world \<Rightarrow> 'h performed" where
  "op_fclose c p inputs outputs ctx w =
     fbind (input_uint32 inputs 0) (\<lambda>file_id.
     fbind (get_file_from_id (sint file_id) w) (\<lambda>file.
       case file of
         None \<Rightarrow> Inr (MBEDTLS_ERR_SERIALIZE_BAD_OUTPUT c, outputs, ctx, w)
       | Some f \<Rightarrow>
           fbind (free_file_context (sint file_id) (w\<lparr>host := mbedtls_fclose p f (host w)\<rparr>))
             (\<lambda>(ret, w). Inr (ret, outputs, ctx, w))))"

definition op_fseek ::
  "serialize_h \<Rightarrow> 'h platform \<Rightarrow> mbedtls_serialize_item_t list \<Rightarrow> outputs_t \<Rightarrow>
   mbedtls_serialize_context_t \<Rightarrow> 'h world \<Rightarrow> 'h performed" where
  "op_fseek c p inputs outputs ctx w =
     fbind (input_uint32 inputs 0) (\<lambda>offset.
     fbind (input_uint32 inputs 1) (\<lambda>whence.
     fbind (input_uint32 inputs 2) (\<lambda>file_id.
     fbind (get_file_from_id (sint file_id) w) (\<lambda>file.
       case file of
         None \<Rightarrow> Inr (MBEDTLS_ERR_SERIALIZE_BAD_OUTPUT c, outputs, ctx, w)
       | Some f \<Rightarrow>
           (case (if whence = MBEDTLS_SERIALIZE_FSEEK_SET c then Some SEEK_SET
                  else if whence = MBEDTLS_SERIALIZE_FSEEK_CUR c then Some SEEK_CUR
                  else if whence = MBEDTLS_SERIALIZE_FSEEK_END c then Some SEEK_END
                  else None) of
              None \<Rightarrow> Inr (MBEDTLS_ERR_SERIALIZE_BAD_OUTPUT c, outputs, ctx, w)
            | Some wh \<Rightarrow>
                (case mbedtls_fseek p f (sint offset) wh (host w) of
                   (ret, h') \<Rightarrow> Inr (ret, outputs, ctx, w\<lparr>host := h'\<rparr>)))))))"

definition op_ftell ::
  "serialize_h \<Rightarrow> 'h platform \<Rightarrow> mbedtls_serialize_item_t list \<Rightarrow> outputs_t \<Rightarrow>
   mbedtls_serialize_context_t \<Rightarrow> 'h world \<Rightarrow> 'h performed" where
  "op_ftell c p inputs outputs ctx w =
     ALLOC_OUTPUT c 0 4 outputs ctx w (\<lambda>out outputs w.
       fbind (input_uint32 inputs 0) (\<lambda>file_id.
       fbind (get_file_from_id (sint file_id) w) (\<lambda>file.
         case file of
           None \<Rightarrow> Inr (MBEDTLS_ERR_SERIALIZE_BAD_OUTPUT c, outputs, ctx, w)
         | Some f \<Rightarrow>
             (case mbedtls_ftell p f (host w) of
                (ret, h') \<Rightarrow>
                  (if ret \<ge> 0
                   then Inr (0, outputs[0 := Some (set_item_uint32 out (word_of_int ret))], ctx,
                             w\<lparr>host := h'\<rparr>)
                   else Inr (ret, outputs, ctx, w\<lparr>host := h'\<rparr>))))))"

definition op_ferror ::
  "serialize_h \<Rightarrow> 'h platform \<Rightarrow> mbedtls_serialize_item_t list \<Rightarrow> outputs_t \<Rightarrow>
   mbedtls_serialize_context_t \<Rightarrow> 'h world \<Rightarrow> 'h performed" where
  "op_ferror c p inputs outputs ctx w =
     fbind (input_uint32 inputs 0) (\<lambda>file_id.
     fbind (get_file_from_id (sint file_id) w) (\<lambda>file.
       case file of
         None \<Rightarrow> Inr (MBEDTLS_ERR_SERIALIZE_BAD_OUTPUT c, outputs, ctx, w)
       | Some f \<Rightarrow>
           (case mbedtls_ferror p f (host w) of
              (ret, h') \<Rightarrow> Inr (ret, outputs, ctx, w\<lparr>host := h'\<rparr>))))"

definition op_dopen ::
  "serialize_h \<Rightarrow> 'h platform \<Rightarrow> mbedtls_serialize_item_t list \<Rightarrow> outputs_t \<Rightarrow>
   mbedtls_serialize_context_t \<Rightarrow> 'h world \<Rightarrow> 'h performed" where
  "op_dopen c p inputs outputs ctx w =
     ALLOC_OUTPUT c 0 4 outputs ctx w (\<lambda>out outputs w.
       fbind (input_at inputs 0) (\<lambda>path.
         case alloc_file_context w of
           (file_id, w) \<Rightarrow>
             (if file_id \<noteq> - 1
              then
                (case mbedtls_opendir p (item_buffer path) (host w) of
                   (Some dir, h') \<Rightarrow>
                     Inr (0, outputs[0 := Some (set_item_uint32 out (word_of_int file_id))], ctx,
                          w\<lparr>host := h',
                            files := (files w)[nat (file_id - 1) :=
                               (files w ! nat (file_id - 1))\<lparr>file_ptr := Some dir\<rparr>]\<rparr>)
                 | (None, h') \<Rightarrow>
                     fbind (free_file_context file_id (w\<lparr>host := h'\<rparr>)) (\<lambda>(r, w).
                       Inr (MBEDTLS_ERR_SERIALIZE_BAD_OUTPUT c, outputs, ctx, w)))
              else Inr (MBEDTLS_ERR_SERIALIZE_BAD_OUTPUT c, outputs, ctx, w))))"

definition op_dread ::
  "serialize_h \<Rightarrow> 'h platform \<Rightarrow> mbedtls_serialize_item_t list \<Rightarrow> outputs_t \<Rightarrow>
   mbedtls_serialize_context_t \<Rightarrow> 'h world \<Rightarrow> 'h performed" where
  "op_dread c p inputs outputs ctx w =
     fbind (input_uint32 inputs 0) (\<lambda>size_arg.
     fbind (input_uint32 inputs 1) (\<lambda>file_id.
       ALLOC_OUTPUT c 0 (size_t_of_int32 (sint size_arg)) outputs ctx w (\<lambda>out outputs w.
         fbind (get_file_from_id (sint file_id) w) (\<lambda>dir.
           case dir of
             None \<Rightarrow> Inr (MBEDTLS_ERR_SERIALIZE_BAD_OUTPUT c, outputs, ctx, w)
           | Some d \<Rightarrow>
               (case mbedtls_readdir p d (size_t_of_int32 (sint size_arg)) (host w) of
                  (r, name, h') \<Rightarrow>
                    (let out' = out\<lparr>item_buffer := store name (item_buffer out)\<rparr>
                     in if r = 0
                        then Inr (0,
                                  outputs[0 := Some (out'\<lparr>item_size := strlen (item_buffer out') + 1\<rparr>)],
                                  ctx, w\<lparr>host := h'\<rparr>)
                        else Inr (MBEDTLS_ERR_SERIALIZE_BAD_OUTPUT c, outputs[0 := Some out'], ctx,
                                  w\<lparr>host := h'\<rparr>)))))))"

definition op_dclose ::
  "serialize_h \<Rightarrow> 'h platform \<Rightarrow> mbedtls_serialize_item_t list \<Rightarrow> outputs_t \<Rightarrow>
   mbedtls_serialize_context_t \<Rightarrow> 'h world \<Rightarrow> 'h performed" where
  "op_dclose c p inputs outputs ctx w =
     fbind (input_uint32 inputs 0) (\<lambda>file_id.
     fbind (get_file_from_id (sint file_id) w) (\<lambda>dir.
       case dir of
         None \<Rightarrow> Inr (MBEDTLS_ERR_SERIALIZE_BAD_OUTPUT c, outputs, ctx, w)
       | Some d \<Rightarrow>
           fbind (free_file_context (sint file_id) (w\<lparr>host := mbedtls_closedir p d (host w)\<rparr>))
             (\<lambda>(ret, w). Inr (ret, outputs, ctx, w))))"

definition op_stat ::
  "serialize_h \<Rightarrow> 'h platform \<Rightarrow> mbedtls_serialize_item_t list \<Rightarrow> outputs_t \<Rightarrow>
   mbedtls_serialize_context_t \<Rightarrow> 'h world \<Rightarrow> 'h performed" where
  "op_stat c p inputs outputs ctx w =
     ALLOC_OUTPUT c 0 2 outputs ctx w (\<lambda>out outputs w.
       fbind (input_at inputs 0) (\<lambda>path.
         case mbedtls_stat p (item_buffer path) (host w) of
           (r, type, h') \<Rightarrow>
             (if r = 0
              then Inr (0, outputs[0 := Some (set_item_uint16 out type)], ctx, w\<lparr>host := h'\<rparr>)
              else Inr (MBEDTLS_ERR_SERIALIZE_BAD_OUTPUT c, outputs, ctx, w\<lparr>host := h'\<rparr>))))"

subsection \<open>\<^verbatim>\<open>mbedtls_serialize_perform\<close>\<close>

definition perform_switch ::
  "serialize_h \<Rightarrow> 'h platform \<Rightarrow> 32 word \<Rightarrow> mbedtls_serialize_item_t list \<Rightarrow> outputs_t \<Rightarrow>
   mbedtls_serialize_context_t \<Rightarrow> 'h world \<Rightarrow> 'h performed" where
  "perform_switch c p function inputs outputs ctx w =
     (if function = MBEDTLS_SERIALIZE_FUNCTION_EXIT c then op_exit c inputs outputs ctx w
      else if function = MBEDTLS_SERIALIZE_FUNCTION_ECHO c then op_echo c inputs outputs ctx w
      else if function = MBEDTLS_SERIALIZE_FUNCTION_USLEEP c then op_usleep c p inputs outputs ctx w
      else if function = MBEDTLS_SERIALIZE_FUNCTION_SOCKET c then op_socket c p inputs outputs ctx w
      else if function = MBEDTLS_SERIALIZE_FUNCTION_ACCEPT c then op_accept c p inputs outputs ctx w
      else if function = MBEDTLS_SERIALIZE_FUNCTION_SET_BLOCK c then op_set_block c p inputs outputs ctx w
      else if function = MBEDTLS_SERIALIZE_FUNCTION_RECV c then op_recv c p inputs outputs ctx w
      else if function = MBEDTLS_SERIALIZE_FUNCTION_SEND c then op_send c p inputs outputs ctx w
      else if function = MBEDTLS_SERIALIZE_FUNCTION_SHUTDOWN c then op_shutdown c p inputs outputs ctx w
      else if function = MBEDTLS_SERIALIZE_FUNCTION_FOPEN c then op_fopen c p inputs outputs ctx w
      else if function = MBEDTLS_SERIALIZE_FUNCTION_FREAD c then op_fread c p inputs outputs ctx w
      else if function = MBEDTLS_SERIALIZE_FUNCTION_FGETS c then op_fgets c p inputs outputs ctx w
      else if function = MBEDTLS_SERIALIZE_FUNCTION_FWRITE c then op_fwrite c p inputs outputs ctx w
      else if function = MBEDTLS_SERIALIZE_FUNCTION_FCLOSE c then op_fclose c p inputs outputs ctx w
      else if function = MBEDTLS_SERIALIZE_FUNCTION_FSEEK c then op_fseek c p inputs outputs ctx w
      else if function = MBEDTLS_SERIALIZE_FUNCTION_FTELL c then op_ftell c p inputs outputs ctx w
      else if function = MBEDTLS_SERIALIZE_FUNCTION_FERROR c then op_ferror c p inputs outputs ctx w
      else if function = MBEDTLS_SERIALIZE_FUNCTION_DOPEN c then op_dopen c p inputs outputs ctx w
      else if function = MBEDTLS_SERIALIZE_FUNCTION_DREAD c then op_dread c p inputs outputs ctx w
      else if function = MBEDTLS_SERIALIZE_FUNCTION_DCLOSE c then op_dclose c p inputs outputs ctx w
      else if function = MBEDTLS_SERIALIZE_FUNCTION_STAT c then op_stat c p inputs outputs ctx w
      else Inr (MBEDTLS_ERR_SERIALIZE_BAD_INPUT c, outputs, ctx, w))"

text \<open>
  \<^verbatim>\<open>for( i = 0; outputs[i] != NULL; i++ ) { mbedtls_free( outputs[i] ); outputs[i] = NULL; }\<close>
  The loop has no bound: it stops at the first null pointer.  No case fills more
  than three of the sixteen positions.
\<close>

fun free_outputs :: "outputs_t \<Rightarrow> outputs_t" where
  "free_outputs [] = []"
| "free_outputs (None # rest) = None # rest"
| "free_outputs (Some item # rest) = None # free_outputs rest"

text \<open>The loop of \<^verbatim>\<open>mbedtls_serialize_discard_stack\<close> on the list of items.\<close>

fun discard_items :: "mbedtls_serialize_item_t list \<Rightarrow> mbedtls_serialize_item_t list" where
  "discard_items [] = []"
| "discard_items (item # next) = discard_items next"

definition mbedtls_serialize_discard_stack ::
  "mbedtls_serialize_context_t \<Rightarrow> mbedtls_serialize_context_t" where
  "mbedtls_serialize_discard_stack ctx = ctx\<lparr>stack := discard_items (stack ctx)\<rparr>"

text \<open>
  The first loop of the function collects at most \<^verbatim>\<open>( function & 0x0000f0 ) >> 4\<close> items
  from the top of the stack: \<open>arity\<close> is the length of \<open>inputs\<close>.  The result is the
  status returned (\<^verbatim>\<open>ret\<close> as a \<^verbatim>\<open>uint32_t\<close>), the outputs, the context and the state.
\<close>

definition mbedtls_serialize_perform ::
  "serialize_h \<Rightarrow> 'h platform \<Rightarrow> mbedtls_serialize_context_t \<Rightarrow> 32 word \<Rightarrow> outputs_t \<Rightarrow>
   'h world \<Rightarrow> fault + (32 word \<times> outputs_t \<times> mbedtls_serialize_context_t \<times> 'h world)" where
  "mbedtls_serialize_perform c p ctx_p function outputs w =
     (let inputs = take (unat (drop_bit 4 (function AND 0x0000f0))) (stack ctx_p)
      in case perform_switch c p function inputs outputs ctx_p w of
           Inl f \<Rightarrow> Inl f
         | Inr (ret, outputs', ctx', w') \<Rightarrow>
             Inr (word_of_int ret,
                  (if ret \<noteq> 0 then free_outputs outputs' else outputs'),
                  mbedtls_serialize_discard_stack ctx', w'))"

section \<open>Messages\<close>

text \<open>
  The loop that sends \<^verbatim>\<open>outputs[0]\<close>, \<^verbatim>\<open>outputs[1]\<close>, ... up to the first null pointer;
  \<open>ret\<close> is the value of the last call of \<^verbatim>\<open>mbedtls_serialize_send_result\<close>.
\<close>

fun send_outputs ::
  "serialize_h \<Rightarrow> outputs_t \<Rightarrow> int \<Rightarrow> mbedtls_serialize_context_t \<Rightarrow> 'h world \<Rightarrow>
   int \<times> mbedtls_serialize_context_t \<times> 'h world" where
  "send_outputs c [] ret ctx w = (ret, ctx, w)"
| "send_outputs c (None # rest) ret ctx w = (ret, ctx, w)"
| "send_outputs c (Some item # rest) ret ctx w =
     (case mbedtls_serialize_send_result c (item_buffer item) (item_size item) w of
        (ret', w') \<Rightarrow>
          (if ret' \<noteq> 0 then (ret', ctx\<lparr>status := MBEDTLS_SERIALIZE_STATUS_DEAD\<rparr>, w')
           else send_outputs c rest ret' ctx w'))"

text \<open>The status item: four bytes, most significant first.\<close>

definition status_item :: "32 word \<Rightarrow> mbedtls_serialize_item_t" where
  "status_item st =
     \<lparr>item_size = 4,
      item_buffer = [ucast (drop_bit 24 st AND 0xff), ucast (drop_bit 16 st AND 0xff),
                     ucast (drop_bit 8 st AND 0xff), ucast (st AND 0xff)]\<rparr>"

text \<open>\<^verbatim>\<open>header[1] << 16 | header[2] << 8 | header[3]\<close>\<close>

definition header_value :: "byte list \<Rightarrow> 32 word" where
  "header_value header =
     push_bit 16 (ucast (header ! 1)) OR push_bit 8 (ucast (header ! 2)) OR ucast (header ! 3)"

text \<open>
  The case \<^verbatim>\<open>MBEDTLS_SERIALIZE_TYPE_EXECUTE\<close> of \<^verbatim>\<open>mbedtls_serialize_pull\<close>.  The array
  \<^verbatim>\<open>outputs\<close> there has the status item at index 0 and sixteen null pointers after it;
  \<^verbatim>\<open>mbedtls_serialize_perform\<close> gets \<^verbatim>\<open>outputs + 1\<close>.
\<close>

definition pull_execute ::
  "serialize_h \<Rightarrow> 'h platform \<Rightarrow> 32 word \<Rightarrow> mbedtls_serialize_context_t \<Rightarrow> 'h world \<Rightarrow>
   fault + (int \<times> mbedtls_serialize_context_t \<times> 'h world)" where
  "pull_execute c p function ctx w =
     (if status ctx = MBEDTLS_SERIALIZE_STATUS_OUT_OF_MEMORY
      then Inr (send_outputs c
                  (Some (status_item (word_of_int (MBEDTLS_ERR_SERIALIZE_ALLOC_FAILED c)))
                     # replicate 16 None) 0 ctx w)
      else
        (case mbedtls_serialize_perform c p ctx function (replicate 16 None) w of
           Inl f \<Rightarrow> Inl f
         | Inr (st, outputs, ctx', w') \<Rightarrow>
             (if st = status_value MBEDTLS_SERIALIZE_STATUS_EXITED then Inr (sint st, ctx', w')
              else Inr (send_outputs c (Some (status_item st) # outputs) 0 ctx' w'))))"

text \<open>
  The loop that reads and discards the rest of a parameter, at most four bytes at a
  time into \<^verbatim>\<open>header\<close>; \<open>h0\<close> is \<^verbatim>\<open>header[0]\<close>.
\<close>

function pull_drain ::
  "serialize_h \<Rightarrow> byte \<Rightarrow> nat \<Rightarrow> mbedtls_serialize_context_t \<Rightarrow> 'h world \<Rightarrow>
   (fault + int \<times> mbedtls_serialize_context_t \<times> 'h world) option" where
  "pull_drain c h0 len ctx w =
     (if len > 0
      then
        (case mbedtls_serialize_read c 4 h0 (if len > 4 then 4 else len) w of
           None \<Rightarrow> None
         | Some (Inl f) \<Rightarrow> Some (Inl f)
         | Some (Inr (ret, bs, w')) \<Rightarrow>
             (if ret \<noteq> 0 then Some (Inr (ret, ctx\<lparr>status := MBEDTLS_SERIALIZE_STATUS_DEAD\<rparr>, w'))
              else pull_drain c (case bs of [] \<Rightarrow> h0 | b # _ \<Rightarrow> b)
                     (len - (if len > 4 then 4 else len)) ctx w'))
      else Some (Inr (MBEDTLS_ERR_SERIALIZE_ALLOC_FAILED c, ctx, w)))"
  by pat_completeness auto
termination
  by (relation "measure (\<lambda>(c, h0, len, ctx, w). len)") auto

text \<open>
  The case \<^verbatim>\<open>MBEDTLS_SERIALIZE_TYPE_PUSH\<close>.  The parameter is read into the buffer of the
  new item, which has \<^verbatim>\<open>length\<close> bytes, all zero.
\<close>

definition pull_push ::
  "serialize_h \<Rightarrow> byte list \<Rightarrow> mbedtls_serialize_context_t \<Rightarrow> 'h world \<Rightarrow>
   (fault + int \<times> mbedtls_serialize_context_t \<times> 'h world) option" where
  "pull_push c header ctx w =
     (let len = unat (header_value header)
      in case alloc_item len w of
           Inl f \<Rightarrow> Some (Inl f)
         | Inr (None, w1) \<Rightarrow>
             pull_drain c (header ! 0) len
               (ctx\<lparr>status := MBEDTLS_SERIALIZE_STATUS_OUT_OF_MEMORY\<rparr>) w1
         | Inr (Some item, w1) \<Rightarrow>
             (case mbedtls_serialize_read c (length (item_buffer item)) 0 len w1 of
                None \<Rightarrow> None
              | Some (Inl f) \<Rightarrow> Some (Inl f)
              | Some (Inr (ret, data, w2)) \<Rightarrow>
                  (if ret \<noteq> 0
                   then Some (Inr (ret, ctx\<lparr>status := MBEDTLS_SERIALIZE_STATUS_DEAD\<rparr>, w2))
                   else Some (Inr (0, ctx\<lparr>stack := item\<lparr>item_buffer := store data (item_buffer item)\<rparr>
                                                   # stack ctx\<rparr>, w2)))))"

text \<open>
  \<open>mbedtls_serialize_pull c p h0 ctx w\<close>: \<open>h0\<close> is the content of \<^verbatim>\<open>header[0]\<close> at the
  start, which the code does not initialise; \<^verbatim>\<open>header\<close> has four bytes.  \<open>None\<close>: the
  call does not return; \<open>Some (Inl f)\<close>: undefined behaviour;
  \<open>Some (Inr (ret, ctx', w'))\<close>: it returns \<open>ret\<close>.
\<close>

definition mbedtls_serialize_pull ::
  "serialize_h \<Rightarrow> 'h platform \<Rightarrow> byte \<Rightarrow> mbedtls_serialize_context_t \<Rightarrow> 'h world \<Rightarrow>
   (fault + int \<times> mbedtls_serialize_context_t \<times> 'h world) option" where
  "mbedtls_serialize_pull c p h0 ctx w =
     (if status ctx = MBEDTLS_SERIALIZE_STATUS_DEAD
      then Some (Inr (MBEDTLS_ERR_SERIALIZE_RECEIVE c, ctx, w))
      else
        (case mbedtls_serialize_read c 4 h0 4 w of
           None \<Rightarrow> None
         | Some (Inl f) \<Rightarrow> Some (Inl f)
         | Some (Inr (ret, header, w1)) \<Rightarrow>
             (if ret \<noteq> 0 then Some (Inr (ret, ctx\<lparr>status := MBEDTLS_SERIALIZE_STATUS_DEAD\<rparr>, w1))
              else if header ! 0 = MBEDTLS_SERIALIZE_TYPE_PUSH c
              then pull_push c header ctx w1
              else if header ! 0 = MBEDTLS_SERIALIZE_TYPE_EXECUTE c
              then Some (pull_execute c p (header_value header) ctx w1)
              else Some (Inr (MBEDTLS_ERR_SERIALIZE_BAD_INPUT c,
                              ctx\<lparr>status := MBEDTLS_SERIALIZE_STATUS_DEAD\<rparr>, w1)))))"

section \<open>Notions used in the statements\<close>

text \<open>
  A \<^verbatim>\<open>RESULT\<close> frame on the wire: the type byte, the length on three bytes, most
  significant first, and the bytes of the item.
\<close>

definition frame :: "serialize_h \<Rightarrow> mbedtls_serialize_item_t \<Rightarrow> byte list" where
  "frame c item =
     [MBEDTLS_SERIALIZE_TYPE_RESULT c,
      of_nat (drop_bit 16 (item_size item) AND 0xff),
      of_nat (drop_bit 8 (item_size item) AND 0xff),
      of_nat (item_size item AND 0xff)]
     @ take (item_size item) (item_buffer item)"

text \<open>The outputs that the sending loop of \<^verbatim>\<open>mbedtls_serialize_pull\<close> reaches: those
  before the first null pointer.\<close>

definition output_items :: "outputs_t \<Rightarrow> mbedtls_serialize_item_t list" where
  "output_items outputs = map the (takeWhile (\<lambda>out. out \<noteq> None) outputs)"

text \<open>No output after a null pointer.\<close>

definition contiguous :: "outputs_t \<Rightarrow> bool" where
  "contiguous outputs = list_all (\<lambda>out. out = None) (dropWhile (\<lambda>out. out \<noteq> None) outputs)"

text \<open>What is left of the input when \<open>bs\<close> is left of its first event.\<close>

definition rest_in :: "byte list \<Rightarrow> rd_event list \<Rightarrow> rd_event list" where
  "rest_in bs es = (if bs = [] then es else RdData bs # es)"

text \<open>The bytes that a script of input delivers before its first error.\<close>

fun stream_of :: "rd_event list \<Rightarrow> byte list" where
  "stream_of [] = []"
| "stream_of (RdErr # es) = []"
| "stream_of (RdData bs # es) = bs @ stream_of es"

text \<open>
  Bytes in front of a marker: no two consecutive \<open>'{'\<close> among them and no \<open>'{'\<close> at their
  end, so that the two \<open>'{'\<close> that follow are the first two consecutive ones.
\<close>

fun unmarked :: "byte list \<Rightarrow> bool" where
  "unmarked [] = True"
| "unmarked [b] = (b \<noteq> 0x7B)"
| "unmarked (a # b # bs) = (\<not> (a = 0x7B \<and> b = 0x7B) \<and> unmarked (b # bs))"



text \<open>The labels of a \<^verbatim>\<open>switch\<close> are distinct.\<close>

definition function_codes :: "serialize_h \<Rightarrow> 32 word list" where
  "function_codes c =
     [MBEDTLS_SERIALIZE_FUNCTION_EXIT c, MBEDTLS_SERIALIZE_FUNCTION_ECHO c,
      MBEDTLS_SERIALIZE_FUNCTION_USLEEP c, MBEDTLS_SERIALIZE_FUNCTION_SOCKET c,
      MBEDTLS_SERIALIZE_FUNCTION_ACCEPT c, MBEDTLS_SERIALIZE_FUNCTION_SET_BLOCK c,
      MBEDTLS_SERIALIZE_FUNCTION_RECV c, MBEDTLS_SERIALIZE_FUNCTION_SEND c,
      MBEDTLS_SERIALIZE_FUNCTION_SHUTDOWN c, MBEDTLS_SERIALIZE_FUNCTION_FOPEN c,
      MBEDTLS_SERIALIZE_FUNCTION_FREAD c, MBEDTLS_SERIALIZE_FUNCTION_FGETS c,
      MBEDTLS_SERIALIZE_FUNCTION_FWRITE c, MBEDTLS_SERIALIZE_FUNCTION_FCLOSE c,
      MBEDTLS_SERIALIZE_FUNCTION_FSEEK c, MBEDTLS_SERIALIZE_FUNCTION_FTELL c,
      MBEDTLS_SERIALIZE_FUNCTION_FERROR c, MBEDTLS_SERIALIZE_FUNCTION_DOPEN c,
      MBEDTLS_SERIALIZE_FUNCTION_DREAD c, MBEDTLS_SERIALIZE_FUNCTION_DCLOSE c,
      MBEDTLS_SERIALIZE_FUNCTION_STAT c]"

text \<open>The cases of the switch that start with \<^verbatim>\<open>CHECK_ARITY\<close>, with its argument.\<close>

definition checked_arity :: "serialize_h \<Rightarrow> (32 word \<times> nat) list" where
  "checked_arity c =
     [(MBEDTLS_SERIALIZE_FUNCTION_EXIT c, 1), (MBEDTLS_SERIALIZE_FUNCTION_ECHO c, 1),
      (MBEDTLS_SERIALIZE_FUNCTION_USLEEP c, 1), (MBEDTLS_SERIALIZE_FUNCTION_SOCKET c, 3),
      (MBEDTLS_SERIALIZE_FUNCTION_ACCEPT c, 2), (MBEDTLS_SERIALIZE_FUNCTION_SET_BLOCK c, 2),
      (MBEDTLS_SERIALIZE_FUNCTION_RECV c, 3), (MBEDTLS_SERIALIZE_FUNCTION_SEND c, 2),
      (MBEDTLS_SERIALIZE_FUNCTION_SHUTDOWN c, 1)]"

text \<open>The cases for files and directories.\<close>

definition file_functions :: "serialize_h \<Rightarrow> 32 word list" where
  "file_functions c =
     [MBEDTLS_SERIALIZE_FUNCTION_FOPEN c,
      MBEDTLS_SERIALIZE_FUNCTION_FREAD c, MBEDTLS_SERIALIZE_FUNCTION_FGETS c,
      MBEDTLS_SERIALIZE_FUNCTION_FWRITE c, MBEDTLS_SERIALIZE_FUNCTION_FCLOSE c,
      MBEDTLS_SERIALIZE_FUNCTION_FSEEK c, MBEDTLS_SERIALIZE_FUNCTION_FTELL c,
      MBEDTLS_SERIALIZE_FUNCTION_FERROR c, MBEDTLS_SERIALIZE_FUNCTION_DOPEN c,
      MBEDTLS_SERIALIZE_FUNCTION_DREAD c, MBEDTLS_SERIALIZE_FUNCTION_DCLOSE c,
      MBEDTLS_SERIALIZE_FUNCTION_STAT c]"

text \<open>The array of outputs as \<^verbatim>\<open>mbedtls_serialize_pull\<close> passes it: sixteen null pointers.\<close>

definition no_outputs :: outputs_t where
  "no_outputs = [None, None, None, None, None, None, None, None,
                 None, None, None, None, None, None, None, None]"

text \<open>
  What every case of the switch keeps: the outputs are contiguous, and nothing is
  written to the channel.
\<close>

definition op_ok :: "'h world \<Rightarrow> 'h performed \<Rightarrow> bool" where
  "op_ok w r =
     (case r of
        Inl f \<Rightarrow> True
      | Inr (ret, outs, ctx', w') \<Rightarrow>
          contiguous outs \<and> wr_out w' = wr_out w \<and> wr_ev w' = wr_ev w)"

subsection \<open>A sample instance\<close>

text \<open>
  Sample values for the constants, used where a statement is evaluated on a concrete
  input: the types are letters, the error codes are negative, a function code holds
  the number of its inputs in bits 4 to 7.
\<close>

definition sample_h :: serialize_h where
  "sample_h =
     \<lparr>MBEDTLS_SERIALIZE_TYPE_PUSH = 0x70,
      MBEDTLS_SERIALIZE_TYPE_EXECUTE = 0x65,
      MBEDTLS_SERIALIZE_TYPE_RESULT = 0x72,
      MBEDTLS_SERIALIZE_MAX_STRING_LENGTH = 0xffffff,
      MBEDTLS_ERR_SERIALIZE_BAD_INPUT = - 0x41,
      MBEDTLS_ERR_SERIALIZE_BAD_OUTPUT = - 0x42,
      MBEDTLS_ERR_SERIALIZE_ALLOC_FAILED = - 0x43,
      MBEDTLS_ERR_SERIALIZE_UNSUPPORTED_OUTPUT = - 0x44,
      MBEDTLS_ERR_SERIALIZE_SEND = - 0x45,
      MBEDTLS_ERR_SERIALIZE_RECEIVE = - 0x46,
      MBEDTLS_SERIALIZE_FUNCTION_EXIT = 0x000010,
      MBEDTLS_SERIALIZE_FUNCTION_ECHO = 0x000111,
      MBEDTLS_SERIALIZE_FUNCTION_USLEEP = 0x000210,
      MBEDTLS_SERIALIZE_FUNCTION_SOCKET = 0x010031,
      MBEDTLS_SERIALIZE_FUNCTION_ACCEPT = 0x010123,
      MBEDTLS_SERIALIZE_FUNCTION_SET_BLOCK = 0x010220,
      MBEDTLS_SERIALIZE_FUNCTION_RECV = 0x010331,
      MBEDTLS_SERIALIZE_FUNCTION_SEND = 0x010421,
      MBEDTLS_SERIALIZE_FUNCTION_SHUTDOWN = 0x010510,
      MBEDTLS_SERIALIZE_FUNCTION_FOPEN = 0x020021,
      MBEDTLS_SERIALIZE_FUNCTION_FREAD = 0x020121,
      MBEDTLS_SERIALIZE_FUNCTION_FGETS = 0x020221,
      MBEDTLS_SERIALIZE_FUNCTION_FWRITE = 0x020321,
      MBEDTLS_SERIALIZE_FUNCTION_FCLOSE = 0x020410,
      MBEDTLS_SERIALIZE_FUNCTION_FSEEK = 0x020530,
      MBEDTLS_SERIALIZE_FUNCTION_FTELL = 0x020611,
      MBEDTLS_SERIALIZE_FUNCTION_FERROR = 0x020710,
      MBEDTLS_SERIALIZE_FUNCTION_DOPEN = 0x020811,
      MBEDTLS_SERIALIZE_FUNCTION_DREAD = 0x020921,
      MBEDTLS_SERIALIZE_FUNCTION_DCLOSE = 0x020a10,
      MBEDTLS_SERIALIZE_FUNCTION_STAT = 0x020b11,
      MBEDTLS_SERIALIZE_SOCKET_DIRECTION_MASK = 0x0100,
      MBEDTLS_SERIALIZE_SOCKET_BIND = 0x0100,
      MBEDTLS_SERIALIZE_BLOCK_BLOCK = 0,
      MBEDTLS_SERIALIZE_BLOCK_NONBLOCK = 1,
      MBEDTLS_SERIALIZE_TIMEOUT_INFINITE = 0xffffffff,
      MBEDTLS_SERIALIZE_FSEEK_SET = 0,
      MBEDTLS_SERIALIZE_FSEEK_CUR = 1,
      MBEDTLS_SERIALIZE_FSEEK_END = 2\<rparr>"

text \<open>
  A sample host without a state: the network is down, and every file is an endless
  run of zero bytes.
\<close>

definition sample_platform :: "unit platform" where
  "sample_platform =
     \<lparr>mbedtls_net_usleep = (\<lambda>usec h. h),
      mbedtls_net_bind = (\<lambda>host port proto h. (- 1, - 1, h)),
      mbedtls_net_connect = (\<lambda>host port proto h. (- 1, - 1, h)),
      mbedtls_net_accept = (\<lambda>fd len h. (- 1, fd, - 1, [], 0, h)),
      mbedtls_net_set_block = (\<lambda>fd h. (- 1, h)),
      mbedtls_net_set_nonblock = (\<lambda>fd h. (- 1, h)),
      mbedtls_net_recv = (\<lambda>fd len h. (- 1, [], h)),
      mbedtls_net_recv_timeout = (\<lambda>fd len timeout h. (- 1, [], h)),
      mbedtls_net_send = (\<lambda>fd buf h. (- 1, h)),
      mbedtls_net_free = (\<lambda>fd h. h),
      mbedtls_fopen = (\<lambda>path mode h. (Some 1, h)),
      mbedtls_fread = (\<lambda>len f h. (int len, replicate len 0, h)),
      mbedtls_fgets = (\<lambda>len f h. (Some [0], h)),
      mbedtls_fwrite = (\<lambda>buf f h. (int (length buf), h)),
      mbedtls_fclose = (\<lambda>f h. h),
      mbedtls_fseek = (\<lambda>f offset whence h. (0, h)),
      mbedtls_ftell = (\<lambda>f h. (0, h)),
      mbedtls_ferror = (\<lambda>f h. (0, h)),
      mbedtls_opendir = (\<lambda>path h. (None, h)),
      mbedtls_readdir = (\<lambda>d len h. (- 1, [], h)),
      mbedtls_closedir = (\<lambda>d h. h),
      mbedtls_stat = (\<lambda>path h. (- 1, 0, h))\<rparr>"

text \<open>The state at the start: nothing to read, nothing written, no file open.\<close>

definition sample_world :: "unit world" where
  "sample_world =
     \<lparr>rd_in = [], wr_ev = [], wr_out = [], allocs = [], exitcode = 0,
      files = replicate 100 \<lparr>file_ptr = None, inUse = False\<rparr>, host = ()\<rparr>"

definition sample_ctx :: mbedtls_serialize_context_t where
  "sample_ctx = \<lparr>stack = [], status = MBEDTLS_SERIALIZE_STATUS_OK\<rparr>"

text \<open>The equations of the loops are unfolded by hand.\<close>

declare mbedtls_serialize_write.simps [simp del]
declare pull_drain.simps [simp del]
declare send_outputs.simps [simp del]

section \<open>Reading from a stream\<close>

lemma os_read_at_end: "rd_in w = [] \<Longrightarrow> os_read n w = (Some [], w)"
  by (simp add: os_read_def)

lemma os_read_err:
  "rd_in w = RdErr # es \<Longrightarrow> os_read n w = (None, w\<lparr>rd_in := es\<rparr>)"
  by (simp add: os_read_def)

lemma os_read_data:
  "rd_in w = RdData bs # es \<Longrightarrow>
   os_read n w = (Some (take n bs), w\<lparr>rd_in := rest_in (drop n bs) es\<rparr>)"
  by (simp add: os_read_def rest_in_def)

lemma stream_of_rest_in [simp]: "stream_of (rest_in bs es) = bs @ stream_of es"
  by (simp add: rest_in_def)

lemma os_read_byte:
  assumes "RdData [] \<notin> set (rd_in w)" and "stream_of (rd_in w) = x # s"
  shows "\<exists>es'. os_read (Suc 0) w = (Some [x], w\<lparr>rd_in := es'\<rparr>) \<and> stream_of es' = s
           \<and> RdData [] \<notin> set es' \<and> (RdErr \<notin> set (rd_in w) \<longrightarrow> RdErr \<notin> set es')"
proof (cases "rd_in w")
  case Nil
  with assms(2) show ?thesis by simp
next
  case (Cons e es)
  show ?thesis
  proof (cases e)
    case RdErr
    with Cons assms(2) show ?thesis by simp
  next
    case (RdData bs)
    with Cons assms(1) have "bs \<noteq> []" by auto
    with Cons RdData assms(2) obtain xs where bs: "bs = x # xs" by (cases bs) auto
    from Cons RdData bs have "os_read (Suc 0) w = (Some [x], w\<lparr>rd_in := rest_in xs es\<rparr>)"
      by (simp add: os_read_data)
    moreover from Cons RdData bs assms(2) have "stream_of (rest_in xs es) = s" by simp
    moreover from Cons assms(1) have "RdData [] \<notin> set (rest_in xs es)"
      by (auto simp: rest_in_def)
    moreover from Cons have "RdErr \<notin> set (rd_in w) \<longrightarrow> RdErr \<notin> set (rest_in xs es)"
      by (auto simp: rest_in_def)
    ultimately show ?thesis by blast
  qed
qed

lemma read_sync_done: "read_sync cap (Suc (Suc 0)) b w = Some (Inr (True, w))"
  by (subst read_sync.simps) simp

lemma read_sync_second:
  assumes "RdData [] \<notin> set (rd_in w)" and "stream_of (rd_in w) = 0x7B # rest" and "0 < cap"
  shows "\<exists>es'. read_sync cap (Suc 0) b w = Some (Inr (True, w\<lparr>rd_in := es'\<rparr>))
           \<and> stream_of es' = rest \<and> RdData [] \<notin> set es'
           \<and> (RdErr \<notin> set (rd_in w) \<longrightarrow> RdErr \<notin> set es')"
proof -
  from os_read_byte [OF assms(1,2)] obtain es' where
    o: "os_read (Suc 0) w = (Some [0x7B], w\<lparr>rd_in := es'\<rparr>)"
    and r: "stream_of es' = rest" "RdData [] \<notin> set es'"
       "RdErr \<notin> set (rd_in w) \<longrightarrow> RdErr \<notin> set es'"
    by blast
  from o assms(3) have "read_sync cap (Suc 0) b w = Some (Inr (True, w\<lparr>rd_in := es'\<rparr>))"
    by (subst read_sync.simps) (simp add: read_sync_done)
  with r show ?thesis by blast
qed

lemma unmarked_tl: "unmarked (x # xs) \<Longrightarrow> unmarked xs"
  by (cases xs) auto

lemma unmarked_brace:
  "unmarked (0x7B # xs) \<Longrightarrow> xs \<noteq> [] \<and> hd xs \<noteq> 0x7B"
  by (cases xs) auto

lemma read_sync_stream:
  assumes "RdData [] \<notin> set (rd_in w)"
    and "stream_of (rd_in w) = noise @ 0x7B # 0x7B # rest"
    and "0 < cap" and "unmarked noise"
    and "t = 0 \<or> (t = Suc 0 \<and> noise \<noteq> [] \<and> hd noise \<noteq> 0x7B)"
  shows "\<exists>es'. read_sync cap t b w = Some (Inr (True, w\<lparr>rd_in := es'\<rparr>))
           \<and> stream_of es' = rest \<and> RdData [] \<notin> set es'
           \<and> (RdErr \<notin> set (rd_in w) \<longrightarrow> RdErr \<notin> set es')"
  using assms
proof (induction noise arbitrary: t b w)
  case Nil
  then have t: "t = 0" by simp
  from os_read_byte [OF Nil.prems(1)] Nil.prems(2) obtain es1 where
    o: "os_read (Suc 0) w = (Some [0x7B], w\<lparr>rd_in := es1\<rparr>)"
    and r: "stream_of es1 = 0x7B # rest" "RdData [] \<notin> set es1"
       "RdErr \<notin> set (rd_in w) \<longrightarrow> RdErr \<notin> set es1"
    by auto
  let ?w1 = "w\<lparr>rd_in := es1\<rparr>"
  from read_sync_second [of ?w1 rest cap "0x7B"] r Nil.prems(3) obtain es' where
    s: "read_sync cap (Suc 0) 0x7B ?w1 = Some (Inr (True, ?w1\<lparr>rd_in := es'\<rparr>))"
    and r': "stream_of es' = rest" "RdData [] \<notin> set es'" "RdErr \<notin> set es1 \<longrightarrow> RdErr \<notin> set es'"
    by auto
  from o s t Nil.prems(3) have "read_sync cap t b w = Some (Inr (True, w\<lparr>rd_in := es'\<rparr>))"
    by (subst read_sync.simps) simp
  with r r' show ?case by blast
next
  case (Cons x xs)
  from os_read_byte [OF Cons.prems(1)] Cons.prems(2) obtain es1 where
    o: "os_read (Suc 0) w = (Some [x], w\<lparr>rd_in := es1\<rparr>)"
    and r: "stream_of es1 = xs @ 0x7B # 0x7B # rest" "RdData [] \<notin> set es1"
       "RdErr \<notin> set (rd_in w) \<longrightarrow> RdErr \<notin> set es1"
    by auto
  let ?w1 = "w\<lparr>rd_in := es1\<rparr>"
  have t2: "t < 2" using Cons.prems(5) by auto
  have u: "unmarked xs" using Cons.prems(4) by (rule unmarked_tl)
  show ?case
  proof (cases "x = 0x7B")
    case True
    with Cons.prems(5) have t: "t = 0" by auto
    from True Cons.prems(4) have xs: "xs \<noteq> [] \<and> hd xs \<noteq> 0x7B" by (simp add: unmarked_brace)
    from Cons.IH [of ?w1 "Suc 0" x] r Cons.prems(3) u xs obtain es' where
      s: "read_sync cap (Suc 0) x ?w1 = Some (Inr (True, ?w1\<lparr>rd_in := es'\<rparr>))"
      and r': "stream_of es' = rest" "RdData [] \<notin> set es'" "RdErr \<notin> set es1 \<longrightarrow> RdErr \<notin> set es'"
      by auto
    from o s t True Cons.prems(3) have "read_sync cap t b w = Some (Inr (True, w\<lparr>rd_in := es'\<rparr>))"
      by (subst read_sync.simps) simp
    with r r' show ?thesis by blast
  next
    case False
    from Cons.IH [of ?w1 0 x] r Cons.prems(3) u obtain es' where
      s: "read_sync cap 0 x ?w1 = Some (Inr (True, ?w1\<lparr>rd_in := es'\<rparr>))"
      and r': "stream_of es' = rest" "RdData [] \<notin> set es'" "RdErr \<notin> set es1 \<longrightarrow> RdErr \<notin> set es'"
      by auto
    from o s t2 False Cons.prems(3) have "read_sync cap t b w = Some (Inr (True, w\<lparr>rd_in := es'\<rparr>))"
      by (subst read_sync.simps) simp
    with r r' show ?thesis by blast
  qed
qed

lemma read_remaining_stream:
  assumes "rd_in w = es" and "n \<le> length (stream_of es)" and "0 < n" and "length acc + n \<le> cap"
  shows "\<exists>es'. read_remaining c cap n acc w
                 = Some (Inr (0, acc @ take n (stream_of es), w\<lparr>rd_in := es'\<rparr>))
           \<and> stream_of es' = drop n (stream_of es)
           \<and> (RdData [] \<notin> set es \<longrightarrow> RdData [] \<notin> set es')
           \<and> (RdErr \<notin> set es \<longrightarrow> RdErr \<notin> set es')"
  using assms
proof (induction es arbitrary: w n acc)
  case Nil
  then show ?case by simp
next
  case (Cons e es)
  show ?case
  proof (cases e)
    case RdErr
    with Cons.prems show ?thesis by simp
  next
    case (RdData bs)
    let ?w1 = "w\<lparr>rd_in := rest_in (drop n bs) es\<rparr>"
    from Cons.prems(1) RdData have o: "os_read n w = (Some (take n bs), ?w1)"
      by (simp add: os_read_data)
    show ?thesis
    proof (cases "n \<le> length bs")
      case True
      with o Cons.prems(3,4)
      have "read_remaining c cap n acc w = Some (Inr (0, acc @ take n bs, ?w1))"
        by (subst read_remaining.simps) simp
      moreover from True RdData have "take n (stream_of (e # es)) = take n bs"
        and "stream_of (rest_in (drop n bs) es) = drop n (stream_of (e # es))"
        by simp_all
      moreover from RdData have "RdData [] \<notin> set (e # es) \<longrightarrow> RdData [] \<notin> set (rest_in (drop n bs) es)"
        and "RdErr \<notin> set (e # es) \<longrightarrow> RdErr \<notin> set (rest_in (drop n bs) es)"
        by (auto simp: rest_in_def)
      ultimately show ?thesis by auto
    next
      case False
      then have d: "drop n bs = []" "take n bs = bs" by simp_all
      let ?w2 = "w\<lparr>rd_in := es\<rparr>"
      from d have w1: "?w1 = ?w2" by (simp add: rest_in_def)
      from Cons.prems(2) RdData have "n \<le> length bs + length (stream_of es)" by simp
      then have 1: "n - length bs \<le> length (stream_of es)" by arith
      from False have 2: "0 < n - length bs" by arith
      from Cons.prems(4) False have 3: "length (acc @ bs) + (n - length bs) \<le> cap" by simp
      have 0: "rd_in ?w2 = es" by simp
      from Cons.IH [OF 0 1 2 3] obtain es' where
        s: "read_remaining c cap (n - length bs) (acc @ bs) ?w2
              = Some (Inr (0, (acc @ bs) @ take (n - length bs) (stream_of es), ?w2\<lparr>rd_in := es'\<rparr>))"
        and r: "stream_of es' = drop (n - length bs) (stream_of es)"
          "RdData [] \<notin> set es \<longrightarrow> RdData [] \<notin> set es'" "RdErr \<notin> set es \<longrightarrow> RdErr \<notin> set es'"
        by blast
      from o d w1 s False Cons.prems(4)
      have "read_remaining c cap n acc w
              = Some (Inr (0, (acc @ bs) @ take (n - length bs) (stream_of es), w\<lparr>rd_in := es'\<rparr>))"
        by (subst read_remaining.simps) simp
      with r RdData False show ?thesis by auto
    qed
  qed
qed

lemma read_remaining_starved:
  assumes "read_remaining c cap n acc w = Some r"
  shows "\<not> (RdErr \<notin> set (rd_in w) \<and> length (stream_of (rd_in w)) < n \<and> length acc + n \<le> cap)"
proof (rule read_remaining.raw_induct
    [where P = "\<lambda>c cap n acc w r.
       \<not> (RdErr \<notin> set (rd_in w) \<and> length (stream_of (rd_in w)) < n \<and> length acc + n \<le> cap)",
     OF _ assms])
  fix rr c cap n acc and w :: "'a world" and r :: "fault + int \<times> byte list \<times> 'a world"
  assume ih: "\<And>c cap n acc (w :: 'a world) r. rr c cap n acc w = Some r \<Longrightarrow>
       \<not> (RdErr \<notin> set (rd_in w) \<and> length (stream_of (rd_in w)) < n \<and> length acc + n \<le> cap)"
    and step: "(case os_read n w of
        (None, w') \<Rightarrow> Some (Inr (MBEDTLS_ERR_SERIALIZE_RECEIVE c, acc, w'))
      | (Some bs, w') \<Rightarrow>
          (if cap < length acc + length bs then Some (Inl OutOfBounds)
           else if n - length bs > 0
           then rr c cap (n - length bs) (acc @ bs) w'
           else Some (Inr (0, acc @ bs, w')))) = Some r"
  show "\<not> (RdErr \<notin> set (rd_in w) \<and> length (stream_of (rd_in w)) < n \<and> length acc + n \<le> cap)"
  proof
    assume a: "RdErr \<notin> set (rd_in w) \<and> length (stream_of (rd_in w)) < n \<and> length acc + n \<le> cap"
    show False
    proof (cases "rd_in w")
      case Nil
      with step a have "rr c cap n (acc @ []) w = Some r"
        by (simp add: os_read_at_end)
      from ih [OF this] a show False by simp
    next
      case (Cons e es)
      with a obtain bs where e: "e = RdData bs" by (cases e) auto
      let ?w1 = "w\<lparr>rd_in := es\<rparr>"
      from Cons e a have l: "length bs < n" by simp
      then have "drop n bs = []" "take n bs = bs" by simp_all
      with Cons e have "os_read n w = (Some bs, ?w1)"
        by (simp add: os_read_data rest_in_def)
      with step a l have "rr c cap (n - length bs) (acc @ bs) ?w1 = Some r"
        by simp
      moreover from a Cons e have "length bs + length (stream_of es) < n" by simp
      then have "length (stream_of es) < n - length bs" by arith
      moreover from a l have "length (acc @ bs) + (n - length bs) \<le> cap" by simp
      moreover from a Cons have "RdErr \<notin> set (rd_in ?w1)" by simp
      ultimately show False using ih [of c cap "n - length bs" "acc @ bs" ?w1 r]
        by simp
    qed
  qed
qed

lemma read_remaining_fails:
  assumes "rd_in w = es" and "RdErr \<in> set es" and "length (stream_of es) < n"
    and "length acc + n \<le> cap"
  shows "\<exists>acc' es'. read_remaining c cap n acc w
           = Some (Inr (MBEDTLS_ERR_SERIALIZE_RECEIVE c, acc', w\<lparr>rd_in := es'\<rparr>))"
  using assms
proof (induction es arbitrary: w n acc)
  case Nil
  then show ?case by simp
next
  case (Cons e es)
  show ?case
  proof (cases e)
    case RdErr
    with Cons.prems(1) have "read_remaining c cap n acc w
        = Some (Inr (MBEDTLS_ERR_SERIALIZE_RECEIVE c, acc, w\<lparr>rd_in := es\<rparr>))"
      by (subst read_remaining.simps) (simp add: os_read_err)
    then show ?thesis by blast
  next
    case (RdData bs)
    let ?w2 = "w\<lparr>rd_in := es\<rparr>"
    from Cons.prems(3) RdData have l: "length bs < n" by simp
    then have "drop n bs = []" "take n bs = bs" by simp_all
    with Cons.prems(1) RdData have o: "os_read n w = (Some bs, ?w2)"
      by (simp add: os_read_data rest_in_def)
    from Cons.prems(3) RdData have "length bs + length (stream_of es) < n" by simp
    then have 1: "length (stream_of es) < n - length bs" by arith
    from Cons.prems(2) RdData have 2: "RdErr \<in> set es" by simp
    from Cons.prems(4) l have 3: "length (acc @ bs) + (n - length bs) \<le> cap" by simp
    have 0: "rd_in ?w2 = es" by simp
    from Cons.IH [OF 0 2 1 3] obtain acc' es' where
      "read_remaining c cap (n - length bs) (acc @ bs) ?w2
         = Some (Inr (MBEDTLS_ERR_SERIALIZE_RECEIVE c, acc', ?w2\<lparr>rd_in := es'\<rparr>))"
      by blast
    with o l Cons.prems(4) have "read_remaining c cap n acc w
        = Some (Inr (MBEDTLS_ERR_SERIALIZE_RECEIVE c, acc', w\<lparr>rd_in := es'\<rparr>))"
      by (subst read_remaining.simps) simp
    then show ?thesis by blast
  qed
qed

lemma read_remaining_returns_iff:
  assumes "0 < n" and "length acc + n \<le> cap"
  shows "read_remaining c cap n acc w = None
           \<longleftrightarrow> RdErr \<notin> set (rd_in w) \<and> length (stream_of (rd_in w)) < n"
proof
  assume n: "read_remaining c cap n acc w = None"
  show "RdErr \<notin> set (rd_in w) \<and> length (stream_of (rd_in w)) < n"
  proof (rule ccontr)
    assume "\<not> (RdErr \<notin> set (rd_in w) \<and> length (stream_of (rd_in w)) < n)"
    then consider "n \<le> length (stream_of (rd_in w))"
      | "RdErr \<in> set (rd_in w)" "length (stream_of (rd_in w)) < n" by fastforce
    then show False
    proof cases
      case 1
      from read_remaining_stream [OF refl 1 assms, of c] n show False by auto
    next
      case 2
      from read_remaining_fails [OF refl 2 assms(2), of c] n show False by auto
    qed
  qed
next
  assume a: "RdErr \<notin> set (rd_in w) \<and> length (stream_of (rd_in w)) < n"
  show "read_remaining c cap n acc w = None"
  proof (cases "read_remaining c cap n acc w")
    case None
    then show ?thesis .
  next
    case (Some r)
    from read_remaining_starved [OF Some] a assms show ?thesis by simp
  qed
qed

section \<open>Reading at the end of the stream\<close>

lemma read_sync_at_end:
  assumes "read_sync cap t b w = Some r"
  shows "rd_in w = [] \<and> 0 < cap \<longrightarrow> r = Inr (True, w)"
proof (rule read_sync.raw_induct
    [where P = "\<lambda>cap t b w r. rd_in w = [] \<and> 0 < cap \<longrightarrow> r = Inr (True, w)", OF _ assms])
  fix rs and cap t :: nat and b and w :: "'a world" and r :: "fault + bool \<times> 'a world"
  assume ih: "\<And>cap t b (w :: 'a world) r. rs cap t b w = Some r \<Longrightarrow>
                rd_in w = [] \<and> 0 < cap \<longrightarrow> r = Inr (True, w)"
    and step: "(if t < 2 then
        (case os_read 1 w of
           (None, w') \<Rightarrow> Some (Inr (False, w'))
         | (Some bs, w') \<Rightarrow>
             (if cap = 0 then Some (Inl OutOfBounds)
              else
                (let b = (case bs of [] \<Rightarrow> b | x # _ \<Rightarrow> x)
                 in if b = 0x7B then rs cap (t + 1) b w'
                    else rs cap 0 b w')))
      else Some (Inr (True, w))) = Some r"
  show "rd_in w = [] \<and> 0 < cap \<longrightarrow> r = Inr (True, w)"
  proof
    assume a: "rd_in w = [] \<and> 0 < cap"
    show "r = Inr (True, w)"
    proof (cases "t < 2")
      case True
      with step a have "rs cap (t + 1) b w = Some r \<or> rs cap 0 b w = Some r"
        by (simp add: os_read_at_end split: if_splits)
      then show ?thesis using ih a by blast
    next
      case False
      with step show ?thesis by simp
    qed
  qed
qed

lemma mbedtls_serialize_read_at_end:
  assumes "rd_in w = []" and "0 < len" and "len \<le> cap"
  shows "mbedtls_serialize_read c cap b0 len w = None"
proof (cases "read_sync cap 0 b0 w")
  case None
  then show ?thesis by (simp add: mbedtls_serialize_read_def)
next
  case (Some s)
  from read_sync_at_end [OF Some] assms have s: "s = Inr (True, w)" by simp
  from assms have "read_remaining c cap len [] w = None"
    by (simp add: read_remaining_returns_iff)
  with Some s show ?thesis by (simp add: mbedtls_serialize_read_def)
qed


section \<open>The table of files\<close>

text \<open>
  C5.  \<^verbatim>\<open>get_file_from_id\<close> on a table of 100 entries: an identifier from 1 to 100
  gives the pointer stored in its entry when the entry is in use and a null pointer
  when it is not, and an identifier above 100 gives a null pointer, without an access
  to the table.  For an identifier below 1 (0 is one) the test
  \<^verbatim>\<open>file_id < MBEDTLS_SERIALIZE_MAX_FILES\<close> holds after the decrement and the code reads
  \<^verbatim>\<open>files[file_id].inUse\<close> at a negative index, outside the table.
\<close>

theorem get_file_from_id_cases:
  assumes "length (files w) = 100"
  shows "get_file_from_id file_id w =
           (if file_id \<le> 0 then Inl OutOfBounds
            else if 100 < file_id then Inr None
            else if inUse (files w ! nat (file_id - 1)) then Inr (file_ptr (files w ! nat (file_id - 1)))
            else Inr None)"
  using assms by (auto simp: get_file_from_id_def MBEDTLS_SERIALIZE_MAX_FILES_def Let_def)

theorem get_file_from_id_cases_witness:
  "length (files sample_world) = 100 \<and> get_file_from_id 0 sample_world = Inl OutOfBounds"
proof -
  have a: "length (files sample_world) = 100" by (simp add: sample_world_def)
  from get_file_from_id_cases [OF a, of 0] a show ?thesis by simp
qed

section \<open>Writing and the sending loop\<close>

lemma write_all:
  "wr_ev w = [] \<Longrightarrow> mbedtls_serialize_write c buf w = (0, w\<lparr>wr_out := wr_out w @ buf\<rparr>)"
  by (simp add: mbedtls_serialize_write.simps os_write_def)

lemma send_result_ok:
  assumes "wr_ev w = []" and "item_size item \<le> MBEDTLS_SERIALIZE_MAX_STRING_LENGTH c"
  shows "mbedtls_serialize_send_result c (item_buffer item) (item_size item) w
           = (0, w\<lparr>wr_out := wr_out w @ frame c item\<rparr>)"
  using assms by (simp add: mbedtls_serialize_send_result_def write_all frame_def)

lemma status_item_size: "item_size (status_item st) = 4"
  by (simp add: status_item_def)

lemma send_outputs_none: "send_outputs c (None # rest) r ctx w = (r, ctx, w)"
  by (simp add: send_outputs.simps)

lemma send_status_first:
  assumes "wr_ev w = []" and "4 \<le> MBEDTLS_SERIALIZE_MAX_STRING_LENGTH c"
  shows "send_outputs c (Some (status_item st) # rest) r ctx w
           = send_outputs c rest 0 ctx (w\<lparr>wr_out := wr_out w @ frame c (status_item st)\<rparr>)"
  using assms send_result_ok [of w "status_item st" c]
  by (simp add: status_item_size send_outputs.simps)

lemma send_status_only:
  assumes "wr_ev w = []" and "4 \<le> MBEDTLS_SERIALIZE_MAX_STRING_LENGTH c"
  shows "send_outputs c (Some (status_item st) # None # rest) r ctx w
           = (0, ctx, w\<lparr>wr_out := wr_out w @ frame c (status_item st)\<rparr>)"
  using assms by (simp add: send_status_first send_outputs_none)

lemma replicate_16: "replicate 16 x = x # replicate 15 x"
  by (simp add: eval_nat_numeral)

lemma send_outputs_stack:
  "send_outputs c outs r ctx w = (r', ctx', w') \<Longrightarrow> stack ctx' = stack ctx"
  by (induction c outs r ctx w rule: send_outputs.induct)
     (auto simp: send_outputs.simps split: prod.splits if_splits)

lemma discard_items_empty [simp]: "discard_items xs = []"
  by (induction xs) auto

lemma perform_stack:
  "mbedtls_serialize_perform c p ctx f outs w = Inr (st, outs', ctx', w') \<Longrightarrow> stack ctx' = []"
  by (auto simp: mbedtls_serialize_perform_def mbedtls_serialize_discard_stack_def Let_def
           split: sum.splits prod.splits)

section \<open>Reading after a marker\<close>

lemma mbedtls_serialize_read_stream:
  assumes "RdData [] \<notin> set (rd_in w)"
    and "stream_of (rd_in w) = noise @ 0x7B # 0x7B # data @ rest"
    and "unmarked noise" and "data \<noteq> []" and "length data \<le> cap"
  shows "\<exists>es'. mbedtls_serialize_read c cap b0 (length data) w
                 = Some (Inr (0, data, w\<lparr>rd_in := es'\<rparr>))
           \<and> stream_of es' = rest \<and> RdData [] \<notin> set es'
           \<and> (RdErr \<notin> set (rd_in w) \<longrightarrow> RdErr \<notin> set es')"
proof -
  from assms(4,5) have cap: "0 < cap" by (cases data) auto
  from read_sync_stream [OF assms(1,2) cap assms(3), of 0 b0] obtain es1 where
    s: "read_sync cap 0 b0 w = Some (Inr (True, w\<lparr>rd_in := es1\<rparr>))"
    and r: "stream_of es1 = data @ rest" "RdData [] \<notin> set es1"
       "RdErr \<notin> set (rd_in w) \<longrightarrow> RdErr \<notin> set es1"
    by auto
  let ?w1 = "w\<lparr>rd_in := es1\<rparr>"
  have 0: "rd_in ?w1 = es1" by simp
  from r(1) have 1: "length data \<le> length (stream_of es1)" by simp
  from assms(4) have 2: "0 < length data" by simp
  from assms(5) have 3: "length ([] :: byte list) + length data \<le> cap" by simp
  from read_remaining_stream [OF 0 1 2 3, of c] r obtain es' where
    "read_remaining c cap (length data) [] ?w1 = Some (Inr (0, data, ?w1\<lparr>rd_in := es'\<rparr>))"
    and r': "stream_of es' = rest" "RdData [] \<notin> set es'" "RdErr \<notin> set es1 \<longrightarrow> RdErr \<notin> set es'"
    by auto
  with s have "mbedtls_serialize_read c cap b0 (length data) w
                 = Some (Inr (0, data, w\<lparr>rd_in := es'\<rparr>))"
    by (simp add: mbedtls_serialize_read_def)
  with r r' show ?thesis by blast
qed

lemma mbedtls_serialize_read_starved:
  assumes "RdData [] \<notin> set (rd_in w)" and "RdErr \<notin> set (rd_in w)"
    and "stream_of (rd_in w) = noise @ 0x7B # 0x7B # data"
    and "unmarked noise" and "length data < len" and "len \<le> cap"
  shows "mbedtls_serialize_read c cap b0 len w = None"
proof -
  from assms(5,6) have cap: "0 < cap" by simp
  from read_sync_stream [OF assms(1,3) cap assms(4), of 0 b0] assms(2) obtain es1 where
    s: "read_sync cap 0 b0 w = Some (Inr (True, w\<lparr>rd_in := es1\<rparr>))"
    and r: "stream_of es1 = data" "RdErr \<notin> set es1"
    by auto
  from assms(5,6) r have "read_remaining c cap len [] (w\<lparr>rd_in := es1\<rparr>) = None"
    by (simp add: read_remaining_returns_iff)
  with s show ?thesis by (simp add: mbedtls_serialize_read_def)
qed

lemma unat_header_value: "unat (header_value h) < 2 ^ 32"
  using unsigned_less [of "header_value h", where ?'a = nat] by simp

lemma alloc_item_succeeds:
  assumes "allocs w = [] \<or> (\<exists>as. allocs w = True # as)" and "sizeof_item + len \<le> SIZE_MAX"
  shows "alloc_item len w
           = Inr (Some \<lparr>item_size = len, item_buffer = replicate len 0\<rparr>,
                  w\<lparr>allocs := tl (allocs w)\<rparr>)"
  using assms by (auto simp: alloc_item_def mbedtls_calloc_def)


lemma store_all: "length d = length buf \<Longrightarrow> store d buf = d"
  by (simp add: store_def)




text \<open>The equations that evaluate \<^verbatim>\<open>mbedtls_serialize_pull\<close> on a given input.\<close>

lemmas evaluate_pull =
  mbedtls_serialize_pull_def mbedtls_serialize_read_def read_sync.simps read_remaining.simps
  os_read_def pull_push_def pull_drain.simps alloc_item_def mbedtls_calloc_def SIZE_MAX_def
  sizeof_item_def sample_h_def sample_world_def
  sample_ctx_def header_value_def store_def Let_def


text \<open>
  Two inputs on which the code leaves its objects.  A \<^verbatim>\<open>PUSH\<close> of length 0 has a buffer
  of no byte, and the first loop of \<^verbatim>\<open>mbedtls_serialize_read\<close> uses \<^verbatim>\<open>buffer[0]\<close>.  A
  length of \<^verbatim>\<open>SIZE_MAX\<close> makes the size that \<^verbatim>\<open>alloc_item\<close> asks for wrap to 15 bytes,
  less than the structure.
\<close>

lemma push_of_no_byte:
  "mbedtls_serialize_pull sample_h sample_platform 0 sample_ctx
     (sample_world\<lparr>rd_in := [RdData [0x7B, 0x7B, 0x70, 0, 0, 0, 0x7B, 0x7B]]\<rparr>)
   = Some (Inl OutOfBounds)"
  by (simp add: evaluate_pull)

lemma alloc_item_wraps: "alloc_item SIZE_MAX sample_world = Inl OutOfBounds"
  by (simp add: alloc_item_def mbedtls_calloc_def SIZE_MAX_def sizeof_item_def sample_world_def)







section \<open>When the read loops return\<close>

lemma pull_header_starved:
  assumes "RdData [] \<notin> set (rd_in w)" and "RdErr \<notin> set (rd_in w)"
    and "stream_of (rd_in w) = noise @ 0x7B # 0x7B # data"
    and "unmarked noise" and "length data < 4"
    and "status ctx \<noteq> MBEDTLS_SERIALIZE_STATUS_DEAD"
  shows "mbedtls_serialize_pull c p h0 ctx w = None"
  using mbedtls_serialize_read_starved [OF assms(1-5), of 4 c h0] assms(6)
  by (simp add: mbedtls_serialize_pull_def)

lemma pull_push_starved:
  assumes "RdData [] \<notin> set (rd_in w)" and "RdErr \<notin> set (rd_in w)"
    and "stream_of (rd_in w)
           = noise1 @ 0x7B # 0x7B # [MBEDTLS_SERIALIZE_TYPE_PUSH c, l2, l1, l0]
             @ noise2 @ 0x7B # 0x7B # data"
    and "unmarked noise1" and "unmarked noise2"
    and "length data < unat (header_value [MBEDTLS_SERIALIZE_TYPE_PUSH c, l2, l1, l0])"
    and "allocs w = [] \<or> (\<exists>as. allocs w = True # as)"
    and "status ctx \<noteq> MBEDTLS_SERIALIZE_STATUS_DEAD"
  shows "mbedtls_serialize_pull c p h0 ctx w = None"
proof -
  let ?hd = "[MBEDTLS_SERIALIZE_TYPE_PUSH c, l2, l1, l0]"
  let ?len = "unat (header_value ?hd)"
  from assms(3) have 2: "stream_of (rd_in w)
      = noise1 @ 0x7B # 0x7B # ?hd @ (noise2 @ 0x7B # 0x7B # data)" by simp
  have l4: "length ?hd = 4" and ne: "?hd \<noteq> []" and le: "length ?hd \<le> 4" by simp_all
  from mbedtls_serialize_read_stream [OF assms(1) 2 assms(4) ne le, of c h0, unfolded l4] assms(2)
  obtain es1 where
    h: "mbedtls_serialize_read c 4 h0 4 w = Some (Inr (0, ?hd, w\<lparr>rd_in := es1\<rparr>))"
    and r: "stream_of es1 = noise2 @ 0x7B # 0x7B # data" "RdData [] \<notin> set es1" "RdErr \<notin> set es1"
    by blast
  let ?w1 = "w\<lparr>rd_in := es1\<rparr>"
  let ?w2 = "?w1\<lparr>allocs := tl (allocs w)\<rparr>"
  from unat_header_value [of ?hd]
  have "sizeof_item + ?len \<le> SIZE_MAX"
    by (simp add: sizeof_item_def SIZE_MAX_def)
  with assms(7) have a: "alloc_item ?len ?w1
      = Inr (Some \<lparr>item_size = ?len, item_buffer = replicate ?len 0\<rparr>, ?w2)"
    using alloc_item_succeeds [of ?w1 ?len] by simp
  from r have 1: "RdData [] \<notin> set (rd_in ?w2)" and 3: "RdErr \<notin> set (rd_in ?w2)"
    and 4: "stream_of (rd_in ?w2) = noise2 @ 0x7B # 0x7B # data" by simp_all
  from mbedtls_serialize_read_starved [OF 1 3 4 assms(5,6) order_refl, of c 0]
  have "mbedtls_serialize_read c ?len 0 ?len ?w2 = None" .
  with a have "pull_push c ?hd ctx ?w1 = None"
    by (simp add: pull_push_def Let_def)
  with h assms(8) show ?thesis
    by (simp add: mbedtls_serialize_pull_def)
qed

lemma pull_at_end:
  assumes "rd_in w = []" and "status ctx \<noteq> MBEDTLS_SERIALIZE_STATUS_DEAD"
  shows "mbedtls_serialize_pull c p h0 ctx w = None"
  using mbedtls_serialize_read_at_end [OF assms(1), of 4 4 c h0] assms(2)
  by (simp add: mbedtls_serialize_pull_def)


text \<open>
  C10, as the code has it.  The loops of \<^verbatim>\<open>mbedtls_serialize_read\<close> treat only a negative
  result of \<^verbatim>\<open>read\<close> as an error; a \<^verbatim>\<open>read\<close> that returns 0 is tried again.  The loop
  that reads the \<open>n\<close> bytes that remain does not return exactly when no \<^verbatim>\<open>read\<close> fails
  and the stream ends before it has delivered \<open>n\<close> bytes: it returns as soon as the
  bytes have come or a \<^verbatim>\<open>read\<close> has failed, whatever reads of no byte came before.
  When the stream ends after the marker with bytes still to read (no \<^verbatim>\<open>read\<close> fails,
  and each \<^verbatim>\<open>read\<close> before the end returns at least one byte),
  \<^verbatim>\<open>mbedtls_serialize_read\<close> never returns, and neither does a
  \<^verbatim>\<open>mbedtls_serialize_pull\<close> that waits for the rest of a header or for the rest of the
  parameter of a \<^verbatim>\<open>PUSH\<close>: the status is never set to \<^verbatim>\<open>DEAD\<close>.  The same holds when the
  stream is at its end at the call.
\<close>

theorem read_never_returns_at_end_of_stream:
  "(0 < n \<and> length acc + n \<le> cap
    \<longrightarrow> (read_remaining c cap n acc w = None
           \<longleftrightarrow> RdErr \<notin> set (rd_in w) \<and> length (stream_of (rd_in w)) < n))
   \<and> (RdData [] \<notin> set (rd_in w1) \<and> RdErr \<notin> set (rd_in w1) \<and> unmarked noise
      \<and> stream_of (rd_in w1) = noise @ 0x7B # 0x7B # data
      \<and> length data < len \<and> len \<le> cap1
    \<longrightarrow> mbedtls_serialize_read c cap1 b0 len w1 = None)
   \<and> (RdData [] \<notin> set (rd_in w2) \<and> RdErr \<notin> set (rd_in w2) \<and> unmarked noise2
      \<and> stream_of (rd_in w2) = noise2 @ 0x7B # 0x7B # data2
      \<and> length data2 < 4 \<and> status ctx2 \<noteq> MBEDTLS_SERIALIZE_STATUS_DEAD
    \<longrightarrow> mbedtls_serialize_pull c p h0 ctx2 w2 = None)
   \<and> (RdData [] \<notin> set (rd_in w3) \<and> RdErr \<notin> set (rd_in w3) \<and> unmarked noise3 \<and> unmarked noise4
      \<and> stream_of (rd_in w3)
           = noise3 @ 0x7B # 0x7B # [MBEDTLS_SERIALIZE_TYPE_PUSH c, l2, l1, l0]
             @ noise4 @ 0x7B # 0x7B # data3
      \<and> length data3 < unat (header_value [MBEDTLS_SERIALIZE_TYPE_PUSH c, l2, l1, l0])
      \<and> (allocs w3 = [] \<or> (\<exists>as. allocs w3 = True # as))
      \<and> status ctx3 \<noteq> MBEDTLS_SERIALIZE_STATUS_DEAD
    \<longrightarrow> mbedtls_serialize_pull c p h0 ctx3 w3 = None)
   \<and> (rd_in w4 = [] \<and> 0 < len4 \<and> len4 \<le> cap4 \<and> status ctx4 \<noteq> MBEDTLS_SERIALIZE_STATUS_DEAD
    \<longrightarrow> mbedtls_serialize_read c cap4 b0 len4 w4 = None
        \<and> mbedtls_serialize_pull c p h0 ctx4 w4 = None)"
proof (intro conjI impI)
  assume "0 < n \<and> length acc + n \<le> cap"
  then show "read_remaining c cap n acc w = None
           \<longleftrightarrow> RdErr \<notin> set (rd_in w) \<and> length (stream_of (rd_in w)) < n"
    by (intro read_remaining_returns_iff) simp_all
next
  assume "RdData [] \<notin> set (rd_in w1) \<and> RdErr \<notin> set (rd_in w1) \<and> unmarked noise
      \<and> stream_of (rd_in w1) = noise @ 0x7B # 0x7B # data
      \<and> length data < len \<and> len \<le> cap1"
  then show "mbedtls_serialize_read c cap1 b0 len w1 = None"
    by (intro mbedtls_serialize_read_starved [where noise = noise and data = data]) simp_all
next
  assume "RdData [] \<notin> set (rd_in w2) \<and> RdErr \<notin> set (rd_in w2) \<and> unmarked noise2
      \<and> stream_of (rd_in w2) = noise2 @ 0x7B # 0x7B # data2
      \<and> length data2 < 4 \<and> status ctx2 \<noteq> MBEDTLS_SERIALIZE_STATUS_DEAD"
  then show "mbedtls_serialize_pull c p h0 ctx2 w2 = None"
    by (intro pull_header_starved [where noise = noise2 and data = data2]) simp_all
next
  assume "RdData [] \<notin> set (rd_in w3) \<and> RdErr \<notin> set (rd_in w3) \<and> unmarked noise3 \<and> unmarked noise4
      \<and> stream_of (rd_in w3)
           = noise3 @ 0x7B # 0x7B # [MBEDTLS_SERIALIZE_TYPE_PUSH c, l2, l1, l0]
             @ noise4 @ 0x7B # 0x7B # data3
      \<and> length data3 < unat (header_value [MBEDTLS_SERIALIZE_TYPE_PUSH c, l2, l1, l0])
      \<and> (allocs w3 = [] \<or> (\<exists>as. allocs w3 = True # as))
      \<and> status ctx3 \<noteq> MBEDTLS_SERIALIZE_STATUS_DEAD"
  then show "mbedtls_serialize_pull c p h0 ctx3 w3 = None"
    by (intro pull_push_starved [where ?noise1.0 = noise3 and ?noise2.0 = noise4 and data = data3
          and ?l2.0 = l2 and ?l1.0 = l1 and ?l0.0 = l0]) simp_all
next
  assume a: "rd_in w4 = [] \<and> 0 < len4 \<and> len4 \<le> cap4 \<and> status ctx4 \<noteq> MBEDTLS_SERIALIZE_STATUS_DEAD"
  then show "mbedtls_serialize_read c cap4 b0 len4 w4 = None"
    by (intro mbedtls_serialize_read_at_end) simp_all
  from a show "mbedtls_serialize_pull c p h0 ctx4 w4 = None"
    by (intro pull_at_end) simp_all
qed

theorem read_never_returns_at_end_of_stream_witness:
  "read_remaining sample_h 4 4 [] (sample_world\<lparr>rd_in := [RdData [1, 2]]\<rparr>) = None
   \<and> mbedtls_serialize_read sample_h 4 0 4 (sample_world\<lparr>rd_in := [RdData [0x7B, 0x7B, 1, 2]]\<rparr>) = None
   \<and> mbedtls_serialize_pull sample_h sample_platform 0 sample_ctx
       (sample_world\<lparr>rd_in := [RdData [0x0A, 0x7B], RdData [0x7B, 0x65, 0]]\<rparr>) = None
   \<and> mbedtls_serialize_pull sample_h sample_platform 0 sample_ctx
       (sample_world\<lparr>rd_in := [RdData [0x7B, 0x7B, 0x70, 0, 0, 2, 0x7B, 0x7B, 0x48]]\<rparr>) = None
   \<and> mbedtls_serialize_read sample_h 4 0 4 sample_world = None
   \<and> mbedtls_serialize_pull sample_h sample_platform 0 sample_ctx sample_world = None"
proof -
  let ?w = "sample_world\<lparr>rd_in := [RdData [1, 2]]\<rparr>"
  let ?w1 = "sample_world\<lparr>rd_in := [RdData [0x7B, 0x7B, 1, 2]]\<rparr>"
  let ?w2 = "sample_world\<lparr>rd_in := [RdData [0x0A, 0x7B], RdData [0x7B, 0x65, 0]]\<rparr>"
  let ?w3 = "sample_world\<lparr>rd_in := [RdData [0x7B, 0x7B, 0x70, 0, 0, 2, 0x7B, 0x7B, 0x48]]\<rparr>"
  note t = read_never_returns_at_end_of_stream
    [where c = sample_h and p = sample_platform and ?h0.0 = 0 and ?b0.0 = 0
       and w = ?w and n = 4 and acc = "[]" and cap = 4
       and ?w1.0 = ?w1 and noise = "[]" and data = "[1, 2]" and len = 4 and ?cap1.0 = 4
       and ?w2.0 = ?w2 and ?noise2.0 = "[0x0A]" and ?data2.0 = "[0x65, 0]" and ?ctx2.0 = sample_ctx
       and ?w3.0 = ?w3 and ?noise3.0 = "[]" and ?noise4.0 = "[]" and ?data3.0 = "[0x48]"
       and ?l2.0 = 0 and ?l1.0 = 0 and ?l0.0 = 2 and ?ctx3.0 = sample_ctx
       and ?w4.0 = sample_world and ?len4.0 = 4 and ?cap4.0 = 4 and ?ctx4.0 = sample_ctx]
  have 1: "(0::nat) < 4 \<and> length ([] :: byte list) + 4 \<le> 4" by simp
  have 6: "RdErr \<notin> set (rd_in ?w) \<and> length (stream_of (rd_in ?w)) < 4" by simp
  have 2: "RdData [] \<notin> set (rd_in ?w1) \<and> RdErr \<notin> set (rd_in ?w1) \<and> unmarked []
      \<and> stream_of (rd_in ?w1) = [] @ 0x7B # 0x7B # [1, 2]
      \<and> length [1, 2 :: byte] < 4 \<and> (4::nat) \<le> 4" by simp
  have 3: "RdData [] \<notin> set (rd_in ?w2) \<and> RdErr \<notin> set (rd_in ?w2) \<and> unmarked [0x0A]
      \<and> stream_of (rd_in ?w2) = [0x0A] @ 0x7B # 0x7B # [0x65, 0]
      \<and> length [0x65, 0 :: byte] < 4 \<and> status sample_ctx \<noteq> MBEDTLS_SERIALIZE_STATUS_DEAD"
    by (simp add: sample_ctx_def)
  have 4: "RdData [] \<notin> set (rd_in ?w3) \<and> RdErr \<notin> set (rd_in ?w3) \<and> unmarked [] \<and> unmarked []
      \<and> stream_of (rd_in ?w3)
           = [] @ 0x7B # 0x7B # [MBEDTLS_SERIALIZE_TYPE_PUSH sample_h, 0, 0, 2]
             @ [] @ 0x7B # 0x7B # [0x48]
      \<and> length [0x48 :: byte] < unat (header_value [MBEDTLS_SERIALIZE_TYPE_PUSH sample_h, 0, 0, 2])
      \<and> (allocs ?w3 = [] \<or> (\<exists>as. allocs ?w3 = True # as))
      \<and> status sample_ctx \<noteq> MBEDTLS_SERIALIZE_STATUS_DEAD"
    by (simp add: sample_h_def sample_world_def sample_ctx_def header_value_def)
  have 5: "rd_in sample_world = [] \<and> (0::nat) < 4 \<and> (4::nat) \<le> 4
      \<and> status sample_ctx \<noteq> MBEDTLS_SERIALIZE_STATUS_DEAD"
    by (simp add: sample_world_def sample_ctx_def)
  from t 1 6 2 3 4 5 show ?thesis by blast
qed


text \<open>
  C10, as the claim has it, fails in its first part: the loop returns although a
  \<^verbatim>\<open>read\<close> has returned 0, when the bytes come afterwards.
\<close>

theorem read_returns_after_an_empty_read_counterexample:
  "os_read 4 (sample_world\<lparr>rd_in := [RdData [], RdData [1, 2, 3, 4]]\<rparr>)
     = (Some [], sample_world\<lparr>rd_in := [RdData [1, 2, 3, 4]]\<rparr>)
   \<and> read_remaining sample_h 4 4 [] (sample_world\<lparr>rd_in := [RdData [], RdData [1, 2, 3, 4]]\<rparr>)
     = Some (Inr (0, [1, 2, 3, 4], sample_world\<lparr>rd_in := []\<rparr>))
   \<and> mbedtls_serialize_read sample_h 4 0 4
       (sample_world\<lparr>rd_in := [RdData [0x7B, 0x7B], RdData [], RdData [1, 2, 3, 4]]\<rparr>)
     = Some (Inr (0, [1, 2, 3, 4], sample_world\<lparr>rd_in := []\<rparr>))"
  by (simp add: evaluate_pull)

section \<open>\<^verbatim>\<open>EXECUTE\<close> when out of memory\<close>

lemma pull_execute_out_of_memory:
  assumes "status ctx = MBEDTLS_SERIALIZE_STATUS_OUT_OF_MEMORY"
    and "mbedtls_serialize_read c 4 h0 4 w = Some (Inr (0, header, w1))"
    and "header ! 0 = MBEDTLS_SERIALIZE_TYPE_EXECUTE c"
    and "MBEDTLS_SERIALIZE_TYPE_PUSH c \<noteq> MBEDTLS_SERIALIZE_TYPE_EXECUTE c"
    and "wr_ev w1 = []"
    and "4 \<le> MBEDTLS_SERIALIZE_MAX_STRING_LENGTH c"
  shows "mbedtls_serialize_pull c p h0 ctx w
           = Some (Inr (0, ctx,
               w1\<lparr>wr_out := wr_out w1
                    @ frame c (status_item (word_of_int (MBEDTLS_ERR_SERIALIZE_ALLOC_FAILED c)))\<rparr>))"
  using assms
  by (simp add: mbedtls_serialize_pull_def pull_execute_def replicate_16 send_status_only)

lemma read_sample_execute:
  "mbedtls_serialize_read sample_h 4 0 4
     (w\<lparr>rd_in := [RdData [0x7B, 0x7B, 0x65, b2, b1, b0]]\<rparr>)
   = Some (Inr (0, [0x65, b2, b1, b0], w\<lparr>rd_in := []\<rparr>))"
  by (simp add: mbedtls_serialize_read_def read_sync.simps read_remaining.simps os_read_def)

lemma send_outputs_status:
  "send_outputs c outs r ctx w = (r', ctx', w') \<Longrightarrow>
   status ctx' = status ctx \<or> status ctx' = MBEDTLS_SERIALIZE_STATUS_DEAD"
  by (induction c outs r ctx w rule: send_outputs.induct)
     (auto simp: send_outputs.simps split: prod.splits if_splits)

text \<open>
  C1.  With the status \<^verbatim>\<open>OUT_OF_MEMORY\<close>, \<^verbatim>\<open>mbedtls_serialize_pull\<close> returns from an
  \<^verbatim>\<open>EXECUTE\<close> message with a status that is not \<^verbatim>\<open>OK\<close>.  When the reply can be written
  it is one frame, the status item with \<^verbatim>\<open>ALLOC_FAILED\<close>, and the context afterwards is
  the context before: the status is still \<^verbatim>\<open>OUT_OF_MEMORY\<close>.  The comment of the function
  says that the status is set back to \<^verbatim>\<open>OK\<close>; no statement of the function does it.
\<close>

theorem execute_when_out_of_memory_keeps_status:
  assumes "status ctx = MBEDTLS_SERIALIZE_STATUS_OUT_OF_MEMORY"
    and "mbedtls_serialize_read c 4 h0 4 w = Some (Inr (0, header, w1))"
    and "header ! 0 = MBEDTLS_SERIALIZE_TYPE_EXECUTE c"
    and "MBEDTLS_SERIALIZE_TYPE_PUSH c \<noteq> MBEDTLS_SERIALIZE_TYPE_EXECUTE c"
  shows "\<exists>ret ctx' w'.
           mbedtls_serialize_pull c p h0 ctx w = Some (Inr (ret, ctx', w'))
           \<and> status ctx' \<noteq> MBEDTLS_SERIALIZE_STATUS_OK
           \<and> (wr_ev w1 = [] \<longrightarrow> 4 \<le> MBEDTLS_SERIALIZE_MAX_STRING_LENGTH c \<longrightarrow>
                ret = 0 \<and> ctx' = ctx
                \<and> w' = w1\<lparr>wr_out := wr_out w1
                     @ frame c (status_item (word_of_int (MBEDTLS_ERR_SERIALIZE_ALLOC_FAILED c)))\<rparr>)"
proof -
  let ?st = "word_of_int (MBEDTLS_ERR_SERIALIZE_ALLOC_FAILED c) :: 32 word"
  obtain ret ctx' w' where
    s: "send_outputs c (Some (status_item ?st) # replicate 16 None) 0 ctx w1 = (ret, ctx', w')"
    by (cases "send_outputs c (Some (status_item ?st) # replicate 16 None) 0 ctx w1") auto
  with assms have p: "mbedtls_serialize_pull c p h0 ctx w = Some (Inr (ret, ctx', w'))"
    by (simp add: mbedtls_serialize_pull_def pull_execute_def)
  from send_outputs_status [OF s] assms(1)
  have "status ctx' \<noteq> MBEDTLS_SERIALIZE_STATUS_OK" by auto
  moreover have "ret = 0 \<and> ctx' = ctx \<and> w' = w1\<lparr>wr_out := wr_out w1 @ frame c (status_item ?st)\<rparr>"
    if "wr_ev w1 = []" "4 \<le> MBEDTLS_SERIALIZE_MAX_STRING_LENGTH c"
    using s that by (simp add: replicate_16 send_status_only)
  ultimately show ?thesis using p by blast
qed

theorem execute_when_out_of_memory_keeps_status_witness:
  "mbedtls_serialize_pull sample_h sample_platform 0
     \<lparr>stack = [], status = MBEDTLS_SERIALIZE_STATUS_OUT_OF_MEMORY\<rparr>
     (sample_world\<lparr>rd_in := [RdData [0x7B, 0x7B, 0x65, 0, 1, 0x11]]\<rparr>)
   = Some (Inr (0, \<lparr>stack = [], status = MBEDTLS_SERIALIZE_STATUS_OUT_OF_MEMORY\<rparr>,
                sample_world\<lparr>rd_in := [], wr_out := [0x72, 0, 0, 4, 0xff, 0xff, 0xff, 0xbd]\<rparr>))"
proof -
  let ?ctx = "\<lparr>stack = [], status = MBEDTLS_SERIALIZE_STATUS_OUT_OF_MEMORY\<rparr>"
  have 1: "status ?ctx = MBEDTLS_SERIALIZE_STATUS_OUT_OF_MEMORY" by simp
  note 2 = read_sample_execute [where w = sample_world and ?b2.0 = 0 and ?b1.0 = 1 and ?b0.0 = "0x11"]
  have 3: "[0x65, 0, 1, 0x11] ! 0 = MBEDTLS_SERIALIZE_TYPE_EXECUTE sample_h"
    by (simp add: sample_h_def)
  have 4: "MBEDTLS_SERIALIZE_TYPE_PUSH sample_h \<noteq> MBEDTLS_SERIALIZE_TYPE_EXECUTE sample_h"
    by (simp add: sample_h_def)
  have 5: "wr_ev (sample_world\<lparr>rd_in := []\<rparr>) = []"
    and 6: "4 \<le> MBEDTLS_SERIALIZE_MAX_STRING_LENGTH sample_h"
    by (simp_all add: sample_world_def sample_h_def)
  have 7: "wr_out (sample_world\<lparr>rd_in := []\<rparr>)
             @ frame sample_h (status_item (word_of_int (MBEDTLS_ERR_SERIALIZE_ALLOC_FAILED sample_h)))
           = [0x72, 0, 0, 4, 0xff, 0xff, 0xff, 0xbd]"
    by (simp add: sample_world_def sample_h_def frame_def status_item_def)
  from execute_when_out_of_memory_keeps_status [OF 1 2 3 4, of sample_platform] 5 6
  obtain w' where
    "mbedtls_serialize_pull sample_h sample_platform 0 ?ctx
       (sample_world\<lparr>rd_in := [RdData [0x7B, 0x7B, 0x65, 0, 1, 0x11]]\<rparr>)
     = Some (Inr (0, ?ctx, w'))"
    and "w' = (sample_world\<lparr>rd_in := []\<rparr>)\<lparr>wr_out := wr_out (sample_world\<lparr>rd_in := []\<rparr>)
             @ frame sample_h (status_item (word_of_int (MBEDTLS_ERR_SERIALIZE_ALLOC_FAILED sample_h)))\<rparr>"
    by blast
  with 7 show ?thesis by simp
qed

text \<open>
  C4.  After an \<^verbatim>\<open>EXECUTE\<close> message that \<^verbatim>\<open>mbedtls_serialize_pull\<close> has processed, the
  stack is empty when the status was not \<^verbatim>\<open>OUT_OF_MEMORY\<close>: \<^verbatim>\<open>mbedtls_serialize_perform\<close>
  ends with \<^verbatim>\<open>mbedtls_serialize_discard_stack\<close>.  With the status \<^verbatim>\<open>OUT_OF_MEMORY\<close> the
  function is not called, and the stack is left as it was.
\<close>

theorem stack_after_execute:
  assumes "mbedtls_serialize_read c 4 h0 4 w = Some (Inr (0, header, w1))"
    and "header ! 0 = MBEDTLS_SERIALIZE_TYPE_EXECUTE c"
    and "MBEDTLS_SERIALIZE_TYPE_PUSH c \<noteq> MBEDTLS_SERIALIZE_TYPE_EXECUTE c"
    and "status ctx \<noteq> MBEDTLS_SERIALIZE_STATUS_DEAD"
    and "mbedtls_serialize_pull c p h0 ctx w = Some (Inr (ret, ctx', w'))"
  shows "stack ctx' = (if status ctx = MBEDTLS_SERIALIZE_STATUS_OUT_OF_MEMORY then stack ctx else [])"
proof -
  from assms have e: "pull_execute c p (header_value header) ctx w1 = Inr (ret, ctx', w')"
    by (simp add: mbedtls_serialize_pull_def)
  show ?thesis
  proof (cases "status ctx = MBEDTLS_SERIALIZE_STATUS_OUT_OF_MEMORY")
    case True
    with e show ?thesis by (auto simp: pull_execute_def dest: send_outputs_stack)
  next
    case False
    show ?thesis
    proof (cases "mbedtls_serialize_perform c p ctx (header_value header) (replicate 16 None) w1")
      case (Inl f)
      with e False show ?thesis by (simp add: pull_execute_def)
    next
      case (Inr r)
      obtain st outs ctx1 w2 where r: "r = (st, outs, ctx1, w2)" by (cases r) auto
      from Inr r have s1: "stack ctx1 = []" by (auto dest: perform_stack)
      show ?thesis
      proof (cases "st = status_value MBEDTLS_SERIALIZE_STATUS_EXITED")
        case True
        with e False Inr r s1 show ?thesis by (simp add: pull_execute_def)
      next
        case ne: False
        with e False Inr r
        have "send_outputs c (Some (status_item st) # outs) 0 ctx1 w2 = (ret, ctx', w')"
          by (simp add: pull_execute_def)
        from send_outputs_stack [OF this] s1 False show ?thesis by simp
      qed
    qed
  qed
qed

text \<open>
  A run that reaches the state of C4 from the start: a \<^verbatim>\<open>PUSH\<close> of the byte \<open>0x41\<close> whose
  item is allocated, a \<^verbatim>\<open>PUSH\<close> of the byte \<open>0x42\<close> whose allocation fails, and an
  \<^verbatim>\<open>EXECUTE\<close> of \<^verbatim>\<open>ECHO\<close>.
\<close>

lemma out_of_memory_run_1:
  "mbedtls_serialize_pull sample_h sample_platform 0 sample_ctx
     (sample_world\<lparr>rd_in := [RdData [0x7B, 0x7B, 0x70, 0, 0, 1, 0x7B, 0x7B, 0x41,
                                       0x7B, 0x7B, 0x70, 0, 0, 1, 0x7B, 0x7B, 0x42,
                                       0x7B, 0x7B, 0x65, 0, 1, 0x11]],
                    allocs := [True, False]\<rparr>)
   = Some (Inr (0, \<lparr>stack = [\<lparr>item_size = 1, item_buffer = [0x41]\<rparr>],
                    status = MBEDTLS_SERIALIZE_STATUS_OK\<rparr>,
       sample_world\<lparr>rd_in := [RdData [0x7B, 0x7B, 0x70, 0, 0, 1, 0x7B, 0x7B, 0x42,
                                         0x7B, 0x7B, 0x65, 0, 1, 0x11]],
                    allocs := [False]\<rparr>))"
  by (simp add: evaluate_pull)

lemma out_of_memory_run_2:
  "mbedtls_serialize_pull sample_h sample_platform 0
     \<lparr>stack = [\<lparr>item_size = 1, item_buffer = [0x41]\<rparr>], status = MBEDTLS_SERIALIZE_STATUS_OK\<rparr>
     (sample_world\<lparr>rd_in := [RdData [0x7B, 0x7B, 0x70, 0, 0, 1, 0x7B, 0x7B, 0x42,
                                       0x7B, 0x7B, 0x65, 0, 1, 0x11]],
                    allocs := [False]\<rparr>)
   = Some (Inr (- 0x43, \<lparr>stack = [\<lparr>item_size = 1, item_buffer = [0x41]\<rparr>],
                         status = MBEDTLS_SERIALIZE_STATUS_OUT_OF_MEMORY\<rparr>,
       sample_world\<lparr>rd_in := [RdData [0x7B, 0x7B, 0x65, 0, 1, 0x11]]\<rparr>))"
  by (simp add: evaluate_pull)

lemma out_of_memory_run_3:
  "mbedtls_serialize_pull sample_h sample_platform 0
     \<lparr>stack = [\<lparr>item_size = 1, item_buffer = [0x41]\<rparr>],
      status = MBEDTLS_SERIALIZE_STATUS_OUT_OF_MEMORY\<rparr>
     (sample_world\<lparr>rd_in := [RdData [0x7B, 0x7B, 0x65, 0, 1, 0x11]]\<rparr>)
   = Some (Inr (0, \<lparr>stack = [\<lparr>item_size = 1, item_buffer = [0x41]\<rparr>],
                    status = MBEDTLS_SERIALIZE_STATUS_OUT_OF_MEMORY\<rparr>,
       sample_world\<lparr>rd_in := [], wr_out := [0x72, 0, 0, 4, 0xff, 0xff, 0xff, 0xbd]\<rparr>))"
  using pull_execute_out_of_memory
    [where ctx = "\<lparr>stack = [\<lparr>item_size = 1, item_buffer = [0x41]\<rparr>],
                   status = MBEDTLS_SERIALIZE_STATUS_OUT_OF_MEMORY\<rparr>"
       and p = sample_platform,
     OF _ read_sample_execute [where w = sample_world and ?b2.0 = 0 and ?b1.0 = 1 and ?b0.0 = "0x11"]]
  by (simp add: sample_h_def sample_world_def frame_def status_item_def)

theorem stack_after_execute_witness:
  "mbedtls_serialize_pull sample_h sample_platform 0 sample_ctx
     (sample_world\<lparr>rd_in := [RdData [0x7B, 0x7B, 0x70, 0, 0, 1, 0x7B, 0x7B, 0x41,
                                       0x7B, 0x7B, 0x70, 0, 0, 1, 0x7B, 0x7B, 0x42,
                                       0x7B, 0x7B, 0x65, 0, 1, 0x11]],
                    allocs := [True, False]\<rparr>)
   = Some (Inr (0, \<lparr>stack = [\<lparr>item_size = 1, item_buffer = [0x41]\<rparr>],
                    status = MBEDTLS_SERIALIZE_STATUS_OK\<rparr>,
       sample_world\<lparr>rd_in := [RdData [0x7B, 0x7B, 0x70, 0, 0, 1, 0x7B, 0x7B, 0x42,
                                         0x7B, 0x7B, 0x65, 0, 1, 0x11]],
                    allocs := [False]\<rparr>))
   \<and> mbedtls_serialize_pull sample_h sample_platform 0
     \<lparr>stack = [\<lparr>item_size = 1, item_buffer = [0x41]\<rparr>], status = MBEDTLS_SERIALIZE_STATUS_OK\<rparr>
     (sample_world\<lparr>rd_in := [RdData [0x7B, 0x7B, 0x70, 0, 0, 1, 0x7B, 0x7B, 0x42,
                                       0x7B, 0x7B, 0x65, 0, 1, 0x11]],
                    allocs := [False]\<rparr>)
   = Some (Inr (- 0x43, \<lparr>stack = [\<lparr>item_size = 1, item_buffer = [0x41]\<rparr>],
                         status = MBEDTLS_SERIALIZE_STATUS_OUT_OF_MEMORY\<rparr>,
       sample_world\<lparr>rd_in := [RdData [0x7B, 0x7B, 0x65, 0, 1, 0x11]]\<rparr>))
   \<and> mbedtls_serialize_pull sample_h sample_platform 0
     \<lparr>stack = [\<lparr>item_size = 1, item_buffer = [0x41]\<rparr>],
      status = MBEDTLS_SERIALIZE_STATUS_OUT_OF_MEMORY\<rparr>
     (sample_world\<lparr>rd_in := [RdData [0x7B, 0x7B, 0x65, 0, 1, 0x11]]\<rparr>)
   = Some (Inr (0, \<lparr>stack = [\<lparr>item_size = 1, item_buffer = [0x41]\<rparr>],
                    status = MBEDTLS_SERIALIZE_STATUS_OUT_OF_MEMORY\<rparr>,
       sample_world\<lparr>rd_in := [], wr_out := [0x72, 0, 0, 4, 0xff, 0xff, 0xff, 0xbd]\<rparr>))
   \<and> stack \<lparr>stack = [\<lparr>item_size = 1, item_buffer = [0x41]\<rparr>],
             status = MBEDTLS_SERIALIZE_STATUS_OUT_OF_MEMORY\<rparr>
       = [\<lparr>item_size = 1, item_buffer = [0x41]\<rparr>]"
  using stack_after_execute
      [OF read_sample_execute [where w = sample_world and ?b2.0 = 0 and ?b1.0 = 1 and ?b0.0 = "0x11"]
          _ _ _ out_of_memory_run_3]
    out_of_memory_run_1 out_of_memory_run_2 out_of_memory_run_3
  by (simp add: sample_h_def)

section \<open>\<^verbatim>\<open>EXIT\<close> and \<^verbatim>\<open>ECHO\<close>\<close>

lemma take_arity:
  "1 \<le> n \<Longrightarrow> take n (item # rest) = item # take (n - 1) rest"
  by (cases n) auto

lemma perform_exit:
  assumes "1 \<le> unat (drop_bit 4 (MBEDTLS_SERIALIZE_FUNCTION_EXIT c AND 0x0000f0))"
    and "stack ctx = item # rest"
    and "item_size item = 4"
    and "item_buffer item = [b0, b1, b2, b3]"
  shows "mbedtls_serialize_perform c p ctx (MBEDTLS_SERIALIZE_FUNCTION_EXIT c) outputs w
           = Inr (0, outputs, ctx\<lparr>stack := [], status := MBEDTLS_SERIALIZE_STATUS_EXITED\<rparr>,
                  w\<lparr>exitcode := sint (push_bit 24 (ucast b0) OR push_bit 16 (ucast b1)
                                        OR push_bit 8 (ucast b2) OR (ucast b3 :: 32 word))\<rparr>)"
  using assms
  by (simp add: mbedtls_serialize_perform_def perform_switch_def op_exit_def CHECK_ARITY_def
      CHECK_LENGTH_def fbind_def item_uint32_def take_arity mbedtls_serialize_discard_stack_def)

text \<open>
  C2.  An \<^verbatim>\<open>EXECUTE\<close> of \<^verbatim>\<open>EXIT\<close> with an argument of four bytes on top of the stack
  records the exit code and sets the status to \<^verbatim>\<open>EXITED\<close>, and then sends a reply: one
  frame, the status item with the value 0.  \<^verbatim>\<open>mbedtls_serialize_pull\<close> returns without
  a reply when the value returned by \<^verbatim>\<open>mbedtls_serialize_perform\<close> equals
  \<^verbatim>\<open>MBEDTLS_SERIALIZE_STATUS_EXITED\<close>, which is 3; for \<^verbatim>\<open>EXIT\<close> the value returned is 0.
\<close>

theorem exit_sends_a_status_reply:
  assumes "status ctx = MBEDTLS_SERIALIZE_STATUS_OK"
    and "mbedtls_serialize_read c 4 h0 4 w = Some (Inr (0, header, w1))"
    and "header ! 0 = MBEDTLS_SERIALIZE_TYPE_EXECUTE c"
    and "MBEDTLS_SERIALIZE_TYPE_PUSH c \<noteq> MBEDTLS_SERIALIZE_TYPE_EXECUTE c"
    and "header_value header = MBEDTLS_SERIALIZE_FUNCTION_EXIT c"
    and "1 \<le> unat (drop_bit 4 (MBEDTLS_SERIALIZE_FUNCTION_EXIT c AND 0x0000f0))"
    and "stack ctx = item # rest"
    and "item_size item = 4"
    and "item_buffer item = [b0, b1, b2, b3]"
    and "wr_ev w1 = []"
    and "4 \<le> MBEDTLS_SERIALIZE_MAX_STRING_LENGTH c"
  shows "mbedtls_serialize_pull c p h0 ctx w
           = Some (Inr (0, ctx\<lparr>stack := [], status := MBEDTLS_SERIALIZE_STATUS_EXITED\<rparr>,
                        w1\<lparr>exitcode := sint (push_bit 24 (ucast b0) OR push_bit 16 (ucast b1)
                                        OR push_bit 8 (ucast b2) OR (ucast b3 :: 32 word)),
                           wr_out := wr_out w1 @ frame c (status_item 0)\<rparr>))"
proof -
  have "pull_execute c p (MBEDTLS_SERIALIZE_FUNCTION_EXIT c) ctx w1
          = Inr (0, ctx\<lparr>stack := [], status := MBEDTLS_SERIALIZE_STATUS_EXITED\<rparr>,
                        w1\<lparr>exitcode := sint (push_bit 24 (ucast b0) OR push_bit 16 (ucast b1)
                                        OR push_bit 8 (ucast b2) OR (ucast b3 :: 32 word)),
                           wr_out := wr_out w1 @ frame c (status_item 0)\<rparr>)"
    using assms(1,10,11)
    by (simp add: pull_execute_def perform_exit [OF assms(6-9)] replicate_16
        send_status_first send_outputs_none)
  with assms(1-5) show ?thesis
    by (simp add: mbedtls_serialize_pull_def)
qed

theorem exit_sends_a_status_reply_witness:
  "mbedtls_serialize_pull sample_h sample_platform 0
     \<lparr>stack = [\<lparr>item_size = 4, item_buffer = [0, 0, 0, 0x2A]\<rparr>],
      status = MBEDTLS_SERIALIZE_STATUS_OK\<rparr>
     (sample_world\<lparr>rd_in := [RdData [0x7B, 0x7B, 0x65, 0, 0, 0x10]]\<rparr>)
   = Some (Inr (0, \<lparr>stack = [], status = MBEDTLS_SERIALIZE_STATUS_EXITED\<rparr>,
                sample_world\<lparr>rd_in := [], exitcode := 42,
                               wr_out := [0x72, 0, 0, 4, 0, 0, 0, 0]\<rparr>))"
  using exit_sends_a_status_reply
    [where ctx = "\<lparr>stack = [\<lparr>item_size = 4, item_buffer = [0, 0, 0, 0x2A]\<rparr>],
                   status = MBEDTLS_SERIALIZE_STATUS_OK\<rparr>"
       and item = "\<lparr>item_size = 4, item_buffer = [0, 0, 0, 0x2A]\<rparr>" and rest = "[]"
       and ?b0.0 = 0 and ?b1.0 = 0 and ?b2.0 = 0 and ?b3.0 = "0x2A" and p = sample_platform,
     OF _ read_sample_execute [where w = sample_world and ?b2.0 = 0 and ?b1.0 = 0 and ?b0.0 = "0x10"]]
  by (simp add: sample_h_def sample_world_def frame_def status_item_def header_value_def)

lemma perform_echo:
  assumes "1 \<le> unat (drop_bit 4 (MBEDTLS_SERIALIZE_FUNCTION_ECHO c AND 0x0000f0))"
    and "MBEDTLS_SERIALIZE_FUNCTION_ECHO c \<noteq> MBEDTLS_SERIALIZE_FUNCTION_EXIT c"
    and "stack ctx = \<lparr>item_size = length b, item_buffer = b\<rparr> # rest"
    and "alloc_item (length b) w = Inr (Some out, w')"
  shows "mbedtls_serialize_perform c p ctx (MBEDTLS_SERIALIZE_FUNCTION_ECHO c) outputs w
           = Inr (0, outputs[0 := Some \<lparr>item_size = length b, item_buffer = b\<rparr>],
                  ctx\<lparr>stack := []\<rparr>, w')"
proof -
  from assms(4) have out: "out = \<lparr>item_size = length b, item_buffer = replicate (length b) 0\<rparr>"
    by (auto simp: alloc_item_def split: prod.splits bool.splits if_splits)
  show ?thesis
    using assms
    by (simp add: mbedtls_serialize_perform_def perform_switch_def op_echo_def CHECK_ARITY_def
        ALLOC_OUTPUT_def take_arity mbedtls_serialize_discard_stack_def out store_all)
qed

lemma one_output:
  "output_items ((replicate 16 None)[0 := Some item]) = [item]"
  by (simp add: output_items_def eval_nat_numeral)

lemma pull_execute_echo:
  assumes "1 \<le> unat (drop_bit 4 (MBEDTLS_SERIALIZE_FUNCTION_ECHO c AND 0x0000f0))"
    and "MBEDTLS_SERIALIZE_FUNCTION_ECHO c \<noteq> MBEDTLS_SERIALIZE_FUNCTION_EXIT c"
    and "stack ctx = \<lparr>item_size = length b, item_buffer = b\<rparr> # rest"
    and "length b \<le> MBEDTLS_SERIALIZE_MAX_STRING_LENGTH c"
    and "alloc_item (length b) w = Inr (Some out, w')"
    and "status ctx = MBEDTLS_SERIALIZE_STATUS_OK"
    and "4 \<le> MBEDTLS_SERIALIZE_MAX_STRING_LENGTH c"
    and "wr_ev w' = []"
  shows "pull_execute c p (MBEDTLS_SERIALIZE_FUNCTION_ECHO c) ctx w
           = Inr (0, ctx\<lparr>stack := []\<rparr>,
                  w'\<lparr>wr_out := wr_out w' @ frame c (status_item 0)
                                 @ frame c \<lparr>item_size = length b, item_buffer = b\<rparr>\<rparr>)"
proof -
  let ?it = "\<lparr>item_size = length b, item_buffer = b\<rparr>"
  let ?w1 = "w'\<lparr>wr_out := wr_out w' @ frame c (status_item 0)\<rparr>"
  note p = perform_echo [OF assms(1-3,5)]
  have "send_outputs c (Some ?it # replicate 15 None) 0 (ctx\<lparr>stack := []\<rparr>) ?w1
          = (0, ctx\<lparr>stack := []\<rparr>, ?w1\<lparr>wr_out := wr_out ?w1 @ frame c ?it\<rparr>)"
    using assms(4,8) send_result_ok [of ?w1 ?it c]
    by (simp add: send_outputs.simps eval_nat_numeral)
  then show ?thesis
    using assms(6,7,8)
    by (simp add: pull_execute_def p replicate_16 send_status_first)
qed

text \<open>
  C9.  \<^verbatim>\<open>ECHO\<close> with the bytes \<open>b\<close> on top of the stack, when the output can be
  allocated: the function returns 0, the only output has the size and the bytes of
  \<open>b\<close>, and the reply on the wire is the status item with the value 0 followed by one
  frame that carries \<open>b\<close>.
\<close>

theorem echo_returns_its_argument:
  assumes "1 \<le> unat (drop_bit 4 (MBEDTLS_SERIALIZE_FUNCTION_ECHO c AND 0x0000f0))"
    and "MBEDTLS_SERIALIZE_FUNCTION_ECHO c \<noteq> MBEDTLS_SERIALIZE_FUNCTION_EXIT c"
    and "stack ctx = \<lparr>item_size = length b, item_buffer = b\<rparr> # rest"
    and "length b \<le> MBEDTLS_SERIALIZE_MAX_STRING_LENGTH c"
    and "alloc_item (length b) w = Inr (Some out, w')"
    and "status ctx = MBEDTLS_SERIALIZE_STATUS_OK"
    and "4 \<le> MBEDTLS_SERIALIZE_MAX_STRING_LENGTH c"
    and "wr_ev w' = []"
  shows "mbedtls_serialize_perform c p ctx (MBEDTLS_SERIALIZE_FUNCTION_ECHO c) (replicate 16 None) w
           = Inr (0, (replicate 16 None)[0 := Some \<lparr>item_size = length b, item_buffer = b\<rparr>],
                  ctx\<lparr>stack := []\<rparr>, w')
         \<and> output_items ((replicate 16 None)[0 := Some \<lparr>item_size = length b, item_buffer = b\<rparr>])
           = [\<lparr>item_size = length b, item_buffer = b\<rparr>]
         \<and> pull_execute c p (MBEDTLS_SERIALIZE_FUNCTION_ECHO c) ctx w
           = Inr (0, ctx\<lparr>stack := []\<rparr>,
                  w'\<lparr>wr_out := wr_out w' @ frame c (status_item 0)
                                 @ frame c \<lparr>item_size = length b, item_buffer = b\<rparr>\<rparr>)"
  using perform_echo [OF assms(1-3,5)] one_output pull_execute_echo [OF assms]
  by simp

theorem echo_returns_its_argument_witness:
  "mbedtls_serialize_perform sample_h sample_platform
     \<lparr>stack = [\<lparr>item_size = 5, item_buffer = [0x48, 0x65, 0x6C, 0x6C, 0x6F]\<rparr>],
      status = MBEDTLS_SERIALIZE_STATUS_OK\<rparr>
     (MBEDTLS_SERIALIZE_FUNCTION_ECHO sample_h) (replicate 16 None) sample_world
   = Inr (0, (replicate 16 None)[0 := Some \<lparr>item_size = 5, item_buffer = [0x48, 0x65, 0x6C, 0x6C, 0x6F]\<rparr>],
          \<lparr>stack = [], status = MBEDTLS_SERIALIZE_STATUS_OK\<rparr>, sample_world)
   \<and> pull_execute sample_h sample_platform (MBEDTLS_SERIALIZE_FUNCTION_ECHO sample_h)
     \<lparr>stack = [\<lparr>item_size = 5, item_buffer = [0x48, 0x65, 0x6C, 0x6C, 0x6F]\<rparr>],
      status = MBEDTLS_SERIALIZE_STATUS_OK\<rparr> sample_world
   = Inr (0, \<lparr>stack = [], status = MBEDTLS_SERIALIZE_STATUS_OK\<rparr>,
          sample_world\<lparr>wr_out := [0x72, 0, 0, 4, 0, 0, 0, 0, 0x72, 0, 0, 5, 0x48, 0x65, 0x6C, 0x6C, 0x6F]\<rparr>)"
proof -
  let ?b = "[0x48, 0x65, 0x6C, 0x6C, 0x6F] :: byte list"
  let ?ctx = "\<lparr>stack = [\<lparr>item_size = 5, item_buffer = ?b\<rparr>], status = MBEDTLS_SERIALIZE_STATUS_OK\<rparr>"
  have 1: "1 \<le> unat (drop_bit 4 (MBEDTLS_SERIALIZE_FUNCTION_ECHO sample_h AND 0x0000f0))"
    by (simp add: sample_h_def)
  have 2: "MBEDTLS_SERIALIZE_FUNCTION_ECHO sample_h \<noteq> MBEDTLS_SERIALIZE_FUNCTION_EXIT sample_h"
    by (simp add: sample_h_def)
  have 3: "stack ?ctx = \<lparr>item_size = length ?b, item_buffer = ?b\<rparr> # []" by simp
  have 4: "length ?b \<le> MBEDTLS_SERIALIZE_MAX_STRING_LENGTH sample_h" by (simp add: sample_h_def)
  have 5: "alloc_item (length ?b) sample_world
      = Inr (Some \<lparr>item_size = 5, item_buffer = [0, 0, 0, 0, 0]\<rparr>, sample_world)"
    by (simp add: alloc_item_def mbedtls_calloc_def SIZE_MAX_def sizeof_item_def sample_world_def)
  have 6: "status ?ctx = MBEDTLS_SERIALIZE_STATUS_OK" by simp
  have 7: "4 \<le> MBEDTLS_SERIALIZE_MAX_STRING_LENGTH sample_h" by (simp add: sample_h_def)
  have 8: "wr_ev sample_world = []" by (simp add: sample_world_def)
  have l: "length ?b = 5" by simp
  have f: "frame sample_h (status_item 0) @ frame sample_h \<lparr>item_size = 5, item_buffer = ?b\<rparr>
            = [0x72, 0, 0, 4, 0, 0, 0, 0, 0x72, 0, 0, 5, 0x48, 0x65, 0x6C, 0x6C, 0x6F]"
    by (simp add: frame_def status_item_def sample_h_def)
  have o: "wr_out sample_world = []" by (simp add: sample_world_def)
  from echo_returns_its_argument [OF 1 2 3 4 5 6 7 8, of sample_platform, unfolded l] f o
  show ?thesis by simp
qed


section \<open>The cases of the dispatcher\<close>

lemma distinct_before:
  assumes "distinct xs" and "i < length xs"
  shows "xs ! i \<notin> set (take i xs)"
proof
  assume "xs ! i \<in> set (take i xs)"
  then obtain j where j: "j < length (take i xs)" "take i xs ! j = xs ! i"
    by (auto simp: in_set_conv_nth)
  then have "j < i" "xs ! j = xs ! i" by auto
  with assms show False by (auto simp: distinct_conv_nth)
qed

lemma switch_exit:
  "perform_switch c p (MBEDTLS_SERIALIZE_FUNCTION_EXIT c) = op_exit c"
  by (simp add: perform_switch_def fun_eq_iff)

lemma switch_echo:
  assumes "distinct (function_codes c)"
  shows "perform_switch c p (MBEDTLS_SERIALIZE_FUNCTION_ECHO c) = op_echo c"
proof -
  have "function_codes c ! 1 \<notin> set (take 1 (function_codes c))"
    by (rule distinct_before [OF assms]) (simp add: function_codes_def)
  then show ?thesis
    by (simp add: function_codes_def perform_switch_def fun_eq_iff)
qed

lemma switch_usleep:
  assumes "distinct (function_codes c)"
  shows "perform_switch c p (MBEDTLS_SERIALIZE_FUNCTION_USLEEP c) = op_usleep c p"
proof -
  have "function_codes c ! 2 \<notin> set (take 2 (function_codes c))"
    by (rule distinct_before [OF assms]) (simp add: function_codes_def)
  then show ?thesis
    by (simp add: function_codes_def perform_switch_def fun_eq_iff)
qed

lemma switch_socket:
  assumes "distinct (function_codes c)"
  shows "perform_switch c p (MBEDTLS_SERIALIZE_FUNCTION_SOCKET c) = op_socket c p"
proof -
  have "function_codes c ! 3 \<notin> set (take 3 (function_codes c))"
    by (rule distinct_before [OF assms]) (simp add: function_codes_def)
  then show ?thesis
    by (simp add: function_codes_def perform_switch_def fun_eq_iff)
qed

lemma switch_accept:
  assumes "distinct (function_codes c)"
  shows "perform_switch c p (MBEDTLS_SERIALIZE_FUNCTION_ACCEPT c) = op_accept c p"
proof -
  have "function_codes c ! 4 \<notin> set (take 4 (function_codes c))"
    by (rule distinct_before [OF assms]) (simp add: function_codes_def)
  then show ?thesis
    by (simp add: function_codes_def perform_switch_def fun_eq_iff)
qed

lemma switch_set_block:
  assumes "distinct (function_codes c)"
  shows "perform_switch c p (MBEDTLS_SERIALIZE_FUNCTION_SET_BLOCK c) = op_set_block c p"
proof -
  have "function_codes c ! 5 \<notin> set (take 5 (function_codes c))"
    by (rule distinct_before [OF assms]) (simp add: function_codes_def)
  then show ?thesis
    by (simp add: function_codes_def perform_switch_def fun_eq_iff)
qed

lemma switch_recv:
  assumes "distinct (function_codes c)"
  shows "perform_switch c p (MBEDTLS_SERIALIZE_FUNCTION_RECV c) = op_recv c p"
proof -
  have "function_codes c ! 6 \<notin> set (take 6 (function_codes c))"
    by (rule distinct_before [OF assms]) (simp add: function_codes_def)
  then show ?thesis
    by (simp add: function_codes_def perform_switch_def fun_eq_iff)
qed

lemma switch_send:
  assumes "distinct (function_codes c)"
  shows "perform_switch c p (MBEDTLS_SERIALIZE_FUNCTION_SEND c) = op_send c p"
proof -
  have "function_codes c ! 7 \<notin> set (take 7 (function_codes c))"
    by (rule distinct_before [OF assms]) (simp add: function_codes_def)
  then show ?thesis
    by (simp add: function_codes_def perform_switch_def fun_eq_iff)
qed

lemma switch_shutdown:
  assumes "distinct (function_codes c)"
  shows "perform_switch c p (MBEDTLS_SERIALIZE_FUNCTION_SHUTDOWN c) = op_shutdown c p"
proof -
  have "function_codes c ! 8 \<notin> set (take 8 (function_codes c))"
    by (rule distinct_before [OF assms]) (simp add: function_codes_def)
  then show ?thesis
    by (simp add: function_codes_def perform_switch_def fun_eq_iff)
qed

lemma switch_fopen:
  assumes "distinct (function_codes c)"
  shows "perform_switch c p (MBEDTLS_SERIALIZE_FUNCTION_FOPEN c) = op_fopen c p"
proof -
  have "function_codes c ! 9 \<notin> set (take 9 (function_codes c))"
    by (rule distinct_before [OF assms]) (simp add: function_codes_def)
  then show ?thesis
    by (simp add: function_codes_def perform_switch_def fun_eq_iff)
qed

lemma switch_fread:
  assumes "distinct (function_codes c)"
  shows "perform_switch c p (MBEDTLS_SERIALIZE_FUNCTION_FREAD c) = op_fread c p"
proof -
  have "function_codes c ! 10 \<notin> set (take 10 (function_codes c))"
    by (rule distinct_before [OF assms]) (simp add: function_codes_def)
  then show ?thesis
    by (simp add: function_codes_def perform_switch_def fun_eq_iff)
qed

lemma switch_fgets:
  assumes "distinct (function_codes c)"
  shows "perform_switch c p (MBEDTLS_SERIALIZE_FUNCTION_FGETS c) = op_fgets c p"
proof -
  have "function_codes c ! 11 \<notin> set (take 11 (function_codes c))"
    by (rule distinct_before [OF assms]) (simp add: function_codes_def)
  then show ?thesis
    by (simp add: function_codes_def perform_switch_def fun_eq_iff)
qed

lemma switch_fwrite:
  assumes "distinct (function_codes c)"
  shows "perform_switch c p (MBEDTLS_SERIALIZE_FUNCTION_FWRITE c) = op_fwrite c p"
proof -
  have "function_codes c ! 12 \<notin> set (take 12 (function_codes c))"
    by (rule distinct_before [OF assms]) (simp add: function_codes_def)
  then show ?thesis
    by (simp add: function_codes_def perform_switch_def fun_eq_iff)
qed

lemma switch_fclose:
  assumes "distinct (function_codes c)"
  shows "perform_switch c p (MBEDTLS_SERIALIZE_FUNCTION_FCLOSE c) = op_fclose c p"
proof -
  have "function_codes c ! 13 \<notin> set (take 13 (function_codes c))"
    by (rule distinct_before [OF assms]) (simp add: function_codes_def)
  then show ?thesis
    by (simp add: function_codes_def perform_switch_def fun_eq_iff)
qed

lemma switch_fseek:
  assumes "distinct (function_codes c)"
  shows "perform_switch c p (MBEDTLS_SERIALIZE_FUNCTION_FSEEK c) = op_fseek c p"
proof -
  have "function_codes c ! 14 \<notin> set (take 14 (function_codes c))"
    by (rule distinct_before [OF assms]) (simp add: function_codes_def)
  then show ?thesis
    by (simp add: function_codes_def perform_switch_def fun_eq_iff)
qed

lemma switch_ftell:
  assumes "distinct (function_codes c)"
  shows "perform_switch c p (MBEDTLS_SERIALIZE_FUNCTION_FTELL c) = op_ftell c p"
proof -
  have "function_codes c ! 15 \<notin> set (take 15 (function_codes c))"
    by (rule distinct_before [OF assms]) (simp add: function_codes_def)
  then show ?thesis
    by (simp add: function_codes_def perform_switch_def fun_eq_iff)
qed

lemma switch_ferror:
  assumes "distinct (function_codes c)"
  shows "perform_switch c p (MBEDTLS_SERIALIZE_FUNCTION_FERROR c) = op_ferror c p"
proof -
  have "function_codes c ! 16 \<notin> set (take 16 (function_codes c))"
    by (rule distinct_before [OF assms]) (simp add: function_codes_def)
  then show ?thesis
    by (simp add: function_codes_def perform_switch_def fun_eq_iff)
qed

lemma switch_dopen:
  assumes "distinct (function_codes c)"
  shows "perform_switch c p (MBEDTLS_SERIALIZE_FUNCTION_DOPEN c) = op_dopen c p"
proof -
  have "function_codes c ! 17 \<notin> set (take 17 (function_codes c))"
    by (rule distinct_before [OF assms]) (simp add: function_codes_def)
  then show ?thesis
    by (simp add: function_codes_def perform_switch_def fun_eq_iff)
qed

lemma switch_dread:
  assumes "distinct (function_codes c)"
  shows "perform_switch c p (MBEDTLS_SERIALIZE_FUNCTION_DREAD c) = op_dread c p"
proof -
  have "function_codes c ! 18 \<notin> set (take 18 (function_codes c))"
    by (rule distinct_before [OF assms]) (simp add: function_codes_def)
  then show ?thesis
    by (simp add: function_codes_def perform_switch_def fun_eq_iff)
qed

lemma switch_dclose:
  assumes "distinct (function_codes c)"
  shows "perform_switch c p (MBEDTLS_SERIALIZE_FUNCTION_DCLOSE c) = op_dclose c p"
proof -
  have "function_codes c ! 19 \<notin> set (take 19 (function_codes c))"
    by (rule distinct_before [OF assms]) (simp add: function_codes_def)
  then show ?thesis
    by (simp add: function_codes_def perform_switch_def fun_eq_iff)
qed

lemma switch_stat:
  assumes "distinct (function_codes c)"
  shows "perform_switch c p (MBEDTLS_SERIALIZE_FUNCTION_STAT c) = op_stat c p"
proof -
  have "function_codes c ! 20 \<notin> set (take 20 (function_codes c))"
    by (rule distinct_before [OF assms]) (simp add: function_codes_def)
  then show ?thesis
    by (simp add: function_codes_def perform_switch_def fun_eq_iff)
qed


lemma replicate_16_None: "replicate 16 None = no_outputs"
  by (simp add: no_outputs_def eval_nat_numeral)

lemma alloc_item_wr:
  "alloc_item len w = Inr (r, w') \<Longrightarrow> wr_out w' = wr_out w \<and> wr_ev w' = wr_ev w"
  by (auto simp: alloc_item_def mbedtls_calloc_def split: list.splits bool.splits if_splits)

lemma alloc_item_ok:
  "allocs w = [] \<Longrightarrow> sizeof_item + len \<le> SIZE_MAX \<Longrightarrow>
   alloc_item len w = Inr (Some \<lparr>item_size = len, item_buffer = replicate len 0\<rparr>, w)"
  by (simp add: alloc_item_def mbedtls_calloc_def)

lemma alloc_file_context_wr:
  "alloc_file_context w = (r, w') \<Longrightarrow> wr_out w' = wr_out w \<and> wr_ev w' = wr_ev w"
  by (auto simp: alloc_file_context_def split: option.splits)

lemma free_file_context_wr:
  "free_file_context i w = Inr (r, w') \<Longrightarrow> wr_out w' = wr_out w \<and> wr_ev w' = wr_ev w"
  by (auto simp: free_file_context_def Let_def split: if_splits)

lemmas op_ok_simps = op_ok_def CHECK_ARITY_def CHECK_LENGTH_def ALLOC_OUTPUT_def
  fbind_def no_outputs_def contiguous_def eval_nat_numeral Let_def

lemma op_exit_ok: "op_ok w (op_exit c inputs no_outputs ctx w)"
  by (auto simp: op_exit_def op_ok_simps
      dest!: alloc_item_wr alloc_file_context_wr free_file_context_wr
      split: sum.splits prod.splits option.splits if_splits)

lemma op_echo_ok: "op_ok w (op_echo c inputs no_outputs ctx w)"
  by (auto simp: op_echo_def op_ok_simps
      dest!: alloc_item_wr alloc_file_context_wr free_file_context_wr
      split: sum.splits prod.splits option.splits if_splits)

lemma op_usleep_ok: "op_ok w (op_usleep c p inputs no_outputs ctx w)"
  by (auto simp: op_usleep_def op_ok_simps
      dest!: alloc_item_wr alloc_file_context_wr free_file_context_wr
      split: sum.splits prod.splits option.splits if_splits)

lemma op_socket_ok: "op_ok w (op_socket c p inputs no_outputs ctx w)"
  by (auto simp: op_socket_def op_ok_simps
      dest!: alloc_item_wr alloc_file_context_wr free_file_context_wr
      split: sum.splits prod.splits option.splits if_splits)

lemma op_accept_ok: "op_ok w (op_accept c p inputs no_outputs ctx w)"
  by (auto simp: op_accept_def op_ok_simps
      dest!: alloc_item_wr alloc_file_context_wr free_file_context_wr
      split: sum.splits prod.splits option.splits if_splits)

lemma op_set_block_ok: "op_ok w (op_set_block c p inputs no_outputs ctx w)"
  by (auto simp: op_set_block_def op_ok_simps
      dest!: alloc_item_wr alloc_file_context_wr free_file_context_wr
      split: sum.splits prod.splits option.splits if_splits)

lemma op_recv_ok: "op_ok w (op_recv c p inputs no_outputs ctx w)"
  by (auto simp: op_recv_def op_ok_simps
      dest!: alloc_item_wr alloc_file_context_wr free_file_context_wr
      split: sum.splits prod.splits option.splits if_splits)

lemma op_send_ok: "op_ok w (op_send c p inputs no_outputs ctx w)"
  by (auto simp: op_send_def op_ok_simps
      dest!: alloc_item_wr alloc_file_context_wr free_file_context_wr
      split: sum.splits prod.splits option.splits if_splits)

lemma op_shutdown_ok: "op_ok w (op_shutdown c p inputs no_outputs ctx w)"
  by (auto simp: op_shutdown_def op_ok_simps
      dest!: alloc_item_wr alloc_file_context_wr free_file_context_wr
      split: sum.splits prod.splits option.splits if_splits)

lemma op_fopen_ok: "op_ok w (op_fopen c p inputs no_outputs ctx w)"
  by (auto simp: op_fopen_def op_ok_simps
      dest!: alloc_item_wr alloc_file_context_wr free_file_context_wr
      split: sum.splits prod.splits option.splits if_splits)

lemma op_fread_ok: "op_ok w (op_fread c p inputs no_outputs ctx w)"
  by (auto simp: op_fread_def op_ok_simps
      dest!: alloc_item_wr alloc_file_context_wr free_file_context_wr
      split: sum.splits prod.splits option.splits if_splits)

lemma op_fgets_ok: "op_ok w (op_fgets c p inputs no_outputs ctx w)"
  by (auto simp: op_fgets_def op_ok_simps
      dest!: alloc_item_wr alloc_file_context_wr free_file_context_wr
      split: sum.splits prod.splits option.splits if_splits)

lemma op_fwrite_ok: "op_ok w (op_fwrite c p inputs no_outputs ctx w)"
  by (auto simp: op_fwrite_def op_ok_simps
      dest!: alloc_item_wr alloc_file_context_wr free_file_context_wr
      split: sum.splits prod.splits option.splits if_splits)

lemma op_fclose_ok: "op_ok w (op_fclose c p inputs no_outputs ctx w)"
  by (auto simp: op_fclose_def op_ok_simps
      dest!: alloc_item_wr alloc_file_context_wr free_file_context_wr
      split: sum.splits prod.splits option.splits if_splits)

lemma op_fseek_ok: "op_ok w (op_fseek c p inputs no_outputs ctx w)"
  by (auto simp: op_fseek_def op_ok_simps
      dest!: alloc_item_wr alloc_file_context_wr free_file_context_wr
      split: sum.splits prod.splits option.splits if_splits)

lemma op_ftell_ok: "op_ok w (op_ftell c p inputs no_outputs ctx w)"
  by (auto simp: op_ftell_def op_ok_simps
      dest!: alloc_item_wr alloc_file_context_wr free_file_context_wr
      split: sum.splits prod.splits option.splits if_splits)

lemma op_ferror_ok: "op_ok w (op_ferror c p inputs no_outputs ctx w)"
  by (auto simp: op_ferror_def op_ok_simps
      dest!: alloc_item_wr alloc_file_context_wr free_file_context_wr
      split: sum.splits prod.splits option.splits if_splits)

lemma op_dopen_ok: "op_ok w (op_dopen c p inputs no_outputs ctx w)"
  by (auto simp: op_dopen_def op_ok_simps
      dest!: alloc_item_wr alloc_file_context_wr free_file_context_wr
      split: sum.splits prod.splits option.splits if_splits)

lemma op_dread_ok: "op_ok w (op_dread c p inputs no_outputs ctx w)"
  by (auto simp: op_dread_def op_ok_simps
      dest!: alloc_item_wr alloc_file_context_wr free_file_context_wr
      split: sum.splits prod.splits option.splits if_splits)

lemma op_dclose_ok: "op_ok w (op_dclose c p inputs no_outputs ctx w)"
  by (auto simp: op_dclose_def op_ok_simps
      dest!: alloc_item_wr alloc_file_context_wr free_file_context_wr
      split: sum.splits prod.splits option.splits if_splits)

lemma op_stat_ok: "op_ok w (op_stat c p inputs no_outputs ctx w)"
  by (auto simp: op_stat_def op_ok_simps
      dest!: alloc_item_wr alloc_file_context_wr free_file_context_wr
      split: sum.splits prod.splits option.splits if_splits)


lemma contiguous_no_outputs: "contiguous no_outputs"
  by (simp add: contiguous_def no_outputs_def)

lemma switch_ok: "op_ok w (perform_switch c p f inputs no_outputs ctx w)"
  by (simp add: perform_switch_def op_exit_ok op_echo_ok op_usleep_ok op_socket_ok op_accept_ok op_set_block_ok op_recv_ok op_send_ok op_shutdown_ok op_fopen_ok op_fread_ok op_fgets_ok op_fwrite_ok op_fclose_ok op_fseek_ok op_ftell_ok op_ferror_ok op_dopen_ok op_dread_ok op_dclose_ok op_stat_ok)
     (simp add: op_ok_def contiguous_no_outputs)

lemma free_outputs_all_none:
  "contiguous outs \<Longrightarrow> list_all (\<lambda>out. out = None) (free_outputs outs)"
  by (induction outs rule: free_outputs.induct) (auto simp: contiguous_def)

lemma all_none_items:
  "list_all (\<lambda>out. out = None) outs \<Longrightarrow> output_items outs = [] \<and> contiguous outs"
  by (cases outs) (auto simp: output_items_def contiguous_def)

lemma perform_ok:
  assumes "mbedtls_serialize_perform c p ctx f (replicate 16 None) w = Inr (st, outs, ctx1, w1)"
  shows "contiguous outs \<and> wr_out w1 = wr_out w \<and> wr_ev w1 = wr_ev w
         \<and> (st \<noteq> 0 \<longrightarrow> output_items outs = [])"
proof -
  let ?inputs = "take (unat (drop_bit 4 (f AND 0x0000f0))) (stack ctx)"
  from assms obtain ret outs0 ctx0 where
    sw: "perform_switch c p f ?inputs no_outputs ctx w = Inr (ret, outs0, ctx0, w1)"
    and st: "st = word_of_int ret"
    and outs: "outs = (if ret \<noteq> 0 then free_outputs outs0 else outs0)"
    by (auto simp: mbedtls_serialize_perform_def replicate_16_None Let_def
        split: sum.splits prod.splits)
  from switch_ok [of w c p f ?inputs ctx] sw
  have ok: "contiguous outs0" "wr_out w1 = wr_out w" "wr_ev w1 = wr_ev w"
    by (simp_all add: op_ok_def)
  show ?thesis
  proof (cases "ret = 0")
    case True
    with st outs ok show ?thesis by simp
  next
    case False
    with outs have "outs = free_outputs outs0" by simp
    with ok(1) have "list_all (\<lambda>out. out = None) outs" by (simp add: free_outputs_all_none)
    from all_none_items [OF this] ok show ?thesis by simp
  qed
qed

lemma os_write_appends:
  assumes "os_write buf w = (Some n, w')"
  shows "n \<le> length buf \<and> wr_out w' = wr_out w @ take n buf"
  using assms by (auto simp: os_write_def min_def split: list.splits wr_event.splits)

lemma write_zero:
  assumes "mbedtls_serialize_write c buf w = (0, w')" and "MBEDTLS_ERR_SERIALIZE_SEND c \<noteq> 0"
  shows "wr_out w' = wr_out w @ buf"
  using assms
proof (induction c buf w rule: mbedtls_serialize_write.induct)
  case (1 c buf w)
  obtain r w1 where o: "os_write buf w = (r, w1)" by (cases "os_write buf w") auto
  show ?case
  proof (cases r)
    case None
    with o "1.prems" show ?thesis by (simp add: mbedtls_serialize_write.simps)
  next
    case (Some n)
    from os_write_appends [OF o [unfolded Some]]
    have n: "n \<le> length buf" "wr_out w1 = wr_out w @ take n buf" by auto
    show ?thesis
    proof (cases "length buf - n > 0")
      case True
      with o Some "1.prems"(1) have "mbedtls_serialize_write c (drop n buf) w1 = (0, w')"
        by (simp add: mbedtls_serialize_write.simps [of c buf w])
      from "1.IH" [OF o [symmetric] Some True this "1.prems"(2)] n
      show ?thesis by simp
    next
      case False
      with o Some "1.prems"(1) have "w' = w1"
        by (simp add: mbedtls_serialize_write.simps [of c buf w])
      with n False show ?thesis by simp
    qed
  qed
qed

lemma send_result_zero:
  assumes "mbedtls_serialize_send_result c (item_buffer item) (item_size item) w = (0, w')"
    and "MBEDTLS_ERR_SERIALIZE_UNSUPPORTED_OUTPUT c \<noteq> 0"
    and "MBEDTLS_ERR_SERIALIZE_SEND c \<noteq> 0"
  shows "wr_out w' = wr_out w @ frame c item"
proof -
  let ?hd = "[MBEDTLS_SERIALIZE_TYPE_RESULT c,
      of_nat (drop_bit 16 (item_size item) AND 0xff),
      of_nat (drop_bit 8 (item_size item) AND 0xff),
      of_nat (item_size item AND 0xff)] :: byte list"
  from assms(1,2) have le: "\<not> item_size item > MBEDTLS_SERIALIZE_MAX_STRING_LENGTH c"
    by (auto simp: mbedtls_serialize_send_result_def)
  obtain r1 w1 where h: "mbedtls_serialize_write c ?hd w = (r1, w1)"
    by (cases "mbedtls_serialize_write c ?hd w") auto
  with assms(1) le have r1: "r1 = 0"
    and b: "mbedtls_serialize_write c (take (item_size item) (item_buffer item)) w1 = (0, w')"
    by (auto simp: mbedtls_serialize_send_result_def Let_def split: if_splits)
  from write_zero [OF h [unfolded r1] assms(3)] write_zero [OF b assms(3)]
  show ?thesis by (simp add: frame_def)
qed

lemma send_outputs_zero:
  assumes "send_outputs c outs r ctx w = (0, ctx', w')"
    and "MBEDTLS_ERR_SERIALIZE_UNSUPPORTED_OUTPUT c \<noteq> 0"
    and "MBEDTLS_ERR_SERIALIZE_SEND c \<noteq> 0"
  shows "ctx' = ctx \<and> wr_out w' = wr_out w @ concat (map (frame c) (output_items outs))"
  using assms
proof (induction c outs r ctx w rule: send_outputs.induct)
  case (1 c ret ctx w)
  then show ?case by (simp add: send_outputs.simps output_items_def)
next
  case (2 c rest ret ctx w)
  then show ?case by (simp add: send_outputs.simps output_items_def)
next
  case (3 c item rest ret ctx w)
  obtain r1 w1 where s: "mbedtls_serialize_send_result c (item_buffer item) (item_size item) w = (r1, w1)"
    by (cases "mbedtls_serialize_send_result c (item_buffer item) (item_size item) w") auto
  with "3.prems"(1) have r1: "r1 = 0" and rest: "send_outputs c rest r1 ctx w1 = (0, ctx', w')"
    by (auto simp: send_outputs.simps split: if_splits)
  from send_result_zero [OF s [unfolded r1] "3.prems"(2,3)]
  have w1: "wr_out w1 = wr_out w @ frame c item" .
  from "3.IH" [OF s [symmetric] _ rest "3.prems"(2,3)] r1
  have "ctx' = ctx \<and> wr_out w' = wr_out w1 @ concat (map (frame c) (output_items rest))" by simp
  with w1 show ?case by (simp add: output_items_def)
qed

lemma write_failed:
  assumes "mbedtls_serialize_write c buf w = (ret, w')" and "ret \<noteq> 0"
  shows "ret = MBEDTLS_ERR_SERIALIZE_SEND c
         \<and> (\<exists>part more. buf = part @ more \<and> wr_out w' = wr_out w @ part)"
  using assms
proof (induction c buf w rule: mbedtls_serialize_write.induct)
  case (1 c buf w)
  obtain r w1 where o: "os_write buf w = (r, w1)" by (cases "os_write buf w") auto
  show ?case
  proof (cases r)
    case None
    with o "1.prems" have "ret = MBEDTLS_ERR_SERIALIZE_SEND c" "w' = w1"
      by (simp_all add: mbedtls_serialize_write.simps [of c buf w])
    moreover from o None have "wr_out w1 = wr_out w"
      by (auto simp: os_write_def split: list.splits wr_event.splits)
    ultimately show ?thesis by (intro conjI exI [of _ "[]"] exI [of _ buf]) simp_all
  next
    case (Some n)
    from os_write_appends [OF o [unfolded Some]]
    have n: "n \<le> length buf" "wr_out w1 = wr_out w @ take n buf" by auto
    show ?thesis
    proof (cases "length buf - n > 0")
      case True
      with o Some "1.prems"(1) have "mbedtls_serialize_write c (drop n buf) w1 = (ret, w')"
        by (simp add: mbedtls_serialize_write.simps [of c buf w])
      from "1.IH" [OF o [symmetric] Some True this "1.prems"(2)] obtain part more where
        r: "ret = MBEDTLS_ERR_SERIALIZE_SEND c" and d: "drop n buf = part @ more"
        and w: "wr_out w' = wr_out w1 @ part" by blast
      have "take n buf @ drop n buf = buf" by simp
      with d have "buf = (take n buf @ part) @ more" by simp
      moreover from w n have "wr_out w' = wr_out w @ (take n buf @ part)" by simp
      ultimately have "\<exists>part more. buf = part @ more \<and> wr_out w' = wr_out w @ part"
        by (intro exI [of _ "take n buf @ part"] exI [of _ more] conjI)
      with r show ?thesis by (rule conjI)
    next
      case False
      with o Some "1.prems" show ?thesis
        by (simp add: mbedtls_serialize_write.simps [of c buf w])
    qed
  qed
qed

lemma send_result_failed:
  assumes "mbedtls_serialize_send_result c (item_buffer item) (item_size item) w = (ret, w')"
    and "ret \<noteq> 0" and "MBEDTLS_ERR_SERIALIZE_SEND c \<noteq> 0"
  shows "\<exists>part. wr_out w' = wr_out w @ part
           \<and> (if MBEDTLS_SERIALIZE_MAX_STRING_LENGTH c < item_size item
              then part = [] \<and> ret = MBEDTLS_ERR_SERIALIZE_UNSUPPORTED_OUTPUT c
              else (\<exists>more. frame c item = part @ more) \<and> ret = MBEDTLS_ERR_SERIALIZE_SEND c)"
proof (cases "MBEDTLS_SERIALIZE_MAX_STRING_LENGTH c < item_size item")
  case True
  with assms(1) show ?thesis by (simp add: mbedtls_serialize_send_result_def)
next
  case False
  let ?hd = "[MBEDTLS_SERIALIZE_TYPE_RESULT c,
      of_nat (drop_bit 16 (item_size item) AND 0xff),
      of_nat (drop_bit 8 (item_size item) AND 0xff),
      of_nat (item_size item AND 0xff)] :: byte list"
  let ?pl = "take (item_size item) (item_buffer item)"
  have f: "frame c item = ?hd @ ?pl" by (simp add: frame_def)
  obtain r1 w1 where h: "mbedtls_serialize_write c ?hd w = (r1, w1)"
    by (cases "mbedtls_serialize_write c ?hd w") auto
  show ?thesis
  proof (cases "r1 = 0")
    case r1: False
    with assms(1) False h have "ret = r1" "w' = w1"
      by (simp_all add: mbedtls_serialize_send_result_def Let_def)
    with write_failed [OF h r1] obtain part more where
      k: "ret = MBEDTLS_ERR_SERIALIZE_SEND c" "?hd = part @ more" "wr_out w' = wr_out w @ part"
      by blast
    from k(2) f have "frame c item = part @ (more @ ?pl)" by simp
    then have "\<exists>more. frame c item = part @ more" by (rule exI)
    with k(1,3) False show ?thesis by (intro exI [of _ part]) simp
  next
    case True
    with assms(1) False h have b: "mbedtls_serialize_write c ?pl w1 = (ret, w')"
      by (simp add: mbedtls_serialize_send_result_def Let_def)
    from write_zero [OF h [unfolded True] assms(3)] have w1: "wr_out w1 = wr_out w @ ?hd" .
    from write_failed [OF b assms(2)] obtain part more where
      r: "ret = MBEDTLS_ERR_SERIALIZE_SEND c" and p: "?pl = part @ more"
      and w: "wr_out w' = wr_out w1 @ part" by blast
    from f p have "frame c item = (?hd @ part) @ more" by simp
    then have "\<exists>more. frame c item = (?hd @ part) @ more" by (rule exI)
    moreover from w w1 have "wr_out w' = wr_out w @ (?hd @ part)" by simp
    ultimately show ?thesis using r False by (intro exI [of _ "?hd @ part"]) simp
  qed
qed

lemma output_items_Some: "output_items (Some item # rest) = item # output_items rest"
  by (simp add: output_items_def)

lemma send_outputs_failed:
  assumes "send_outputs c outs r ctx w = (ret, ctx', w')" and "ret \<noteq> 0" and "r = 0"
    and "MBEDTLS_ERR_SERIALIZE_UNSUPPORTED_OUTPUT c \<noteq> 0"
    and "MBEDTLS_ERR_SERIALIZE_SEND c \<noteq> 0"
  shows "status ctx' = MBEDTLS_SERIALIZE_STATUS_DEAD
         \<and> (\<exists>sent item unsent part.
               output_items outs = sent @ item # unsent
               \<and> wr_out w' = wr_out w @ concat (map (frame c) sent) @ part
               \<and> (if MBEDTLS_SERIALIZE_MAX_STRING_LENGTH c < item_size item
                  then part = [] \<and> ret = MBEDTLS_ERR_SERIALIZE_UNSUPPORTED_OUTPUT c
                  else (\<exists>more. frame c item = part @ more)
                       \<and> ret = MBEDTLS_ERR_SERIALIZE_SEND c))"
  using assms
proof (induction c outs r ctx w rule: send_outputs.induct)
  case (1 c ret0 ctx w)
  then show ?case by (simp add: send_outputs.simps)
next
  case (2 c rest ret0 ctx w)
  then show ?case by (simp add: send_outputs.simps)
next
  case (3 c item rest ret0 ctx w)
  obtain r1 w1 where s: "mbedtls_serialize_send_result c (item_buffer item) (item_size item) w = (r1, w1)"
    by (cases "mbedtls_serialize_send_result c (item_buffer item) (item_size item) w") auto
  show ?case
  proof (cases "r1 = 0")
    case False
    with s "3.prems"(1) have e: "ret = r1" "ctx' = ctx\<lparr>status := MBEDTLS_SERIALIZE_STATUS_DEAD\<rparr>" "w' = w1"
      by (simp_all add: send_outputs.simps)
    from send_result_failed [OF s False "3.prems"(5)] obtain part where
      "wr_out w1 = wr_out w @ part"
      "if MBEDTLS_SERIALIZE_MAX_STRING_LENGTH c < item_size item
       then part = [] \<and> r1 = MBEDTLS_ERR_SERIALIZE_UNSUPPORTED_OUTPUT c
       else (\<exists>more. frame c item = part @ more) \<and> r1 = MBEDTLS_ERR_SERIALIZE_SEND c"
      by blast
    with e have "output_items (Some item # rest) = [] @ item # output_items rest
        \<and> wr_out w' = wr_out w @ concat (map (frame c) []) @ part
        \<and> (if MBEDTLS_SERIALIZE_MAX_STRING_LENGTH c < item_size item
           then part = [] \<and> ret = MBEDTLS_ERR_SERIALIZE_UNSUPPORTED_OUTPUT c
           else (\<exists>more. frame c item = part @ more) \<and> ret = MBEDTLS_ERR_SERIALIZE_SEND c)"
      by (simp add: output_items_Some)
    then have "\<exists>sent it unsent part.
        output_items (Some item # rest) = sent @ it # unsent
        \<and> wr_out w' = wr_out w @ concat (map (frame c) sent) @ part
        \<and> (if MBEDTLS_SERIALIZE_MAX_STRING_LENGTH c < item_size it
           then part = [] \<and> ret = MBEDTLS_ERR_SERIALIZE_UNSUPPORTED_OUTPUT c
           else (\<exists>more. frame c it = part @ more) \<and> ret = MBEDTLS_ERR_SERIALIZE_SEND c)"
      by (intro exI [of _ "[]"] exI [of _ item] exI [of _ "output_items rest"] exI [of _ part])
    moreover from e(2) have "status ctx' = MBEDTLS_SERIALIZE_STATUS_DEAD" by simp
    ultimately show ?thesis by (rule conjI [rotated])
  next
    case True
    with s "3.prems"(1) have rest: "send_outputs c rest r1 ctx w1 = (ret, ctx', w')"
      by (simp add: send_outputs.simps)
    from send_result_zero [OF s [unfolded True] "3.prems"(4,5)]
    have w1: "wr_out w1 = wr_out w @ frame c item" .
    have nz: "\<not> r1 \<noteq> 0" using True by simp
    from "3.IH" [OF s [symmetric] nz rest "3.prems"(2) True "3.prems"(4,5)]
    obtain sent it unsent part where d: "status ctx' = MBEDTLS_SERIALIZE_STATUS_DEAD"
      and o: "output_items rest = sent @ it # unsent"
      and w: "wr_out w' = wr_out w1 @ concat (map (frame c) sent) @ part"
      and k: "if MBEDTLS_SERIALIZE_MAX_STRING_LENGTH c < item_size it
              then part = [] \<and> ret = MBEDTLS_ERR_SERIALIZE_UNSUPPORTED_OUTPUT c
              else (\<exists>more. frame c it = part @ more) \<and> ret = MBEDTLS_ERR_SERIALIZE_SEND c"
      by blast
    from o have "output_items (Some item # rest) = (item # sent) @ it # unsent"
      by (simp add: output_items_Some)
    moreover from w w1 have "wr_out w' = wr_out w @ concat (map (frame c) (item # sent)) @ part"
      by simp
    ultimately have "\<exists>sent it unsent part.
        output_items (Some item # rest) = sent @ it # unsent
        \<and> wr_out w' = wr_out w @ concat (map (frame c) sent) @ part
        \<and> (if MBEDTLS_SERIALIZE_MAX_STRING_LENGTH c < item_size it
           then part = [] \<and> ret = MBEDTLS_ERR_SERIALIZE_UNSUPPORTED_OUTPUT c
           else (\<exists>more. frame c it = part @ more) \<and> ret = MBEDTLS_ERR_SERIALIZE_SEND c)"
      using k by (intro exI [of _ "item # sent"] exI [of _ it] exI [of _ unsent] exI [of _ part] conjI)
    with d show ?thesis by (rule conjI)
  qed
qed


text \<open>
  C7, as the code has it.  The case \<^verbatim>\<open>EXECUTE\<close> of \<^verbatim>\<open>mbedtls_serialize_pull\<close> ends in one
  of three ways.  When the status is not \<^verbatim>\<open>OUT_OF_MEMORY\<close> and
  \<^verbatim>\<open>mbedtls_serialize_perform\<close> returns the value of \<^verbatim>\<open>MBEDTLS_SERIALIZE_STATUS_EXITED\<close>,
  nothing is written: there is no reply.  Otherwise the items of the reply are the
  status item followed by the outputs of \<^verbatim>\<open>mbedtls_serialize_perform\<close> in the order of
  the array, \<open>1 + N\<close> items for \<open>N\<close> outputs.  When the case returns 0 the bytes written
  are the frames of all of them, and nothing else.  When it does not, the sending loop
  has stopped at the first item that \<^verbatim>\<open>mbedtls_serialize_send_result\<close> could not send:
  the frames of the items before it have been written, then nothing of an item longer
  than \<^verbatim>\<open>MBEDTLS_SERIALIZE_MAX_STRING_LENGTH\<close> (the value returned is
  \<^verbatim>\<open>UNSUPPORTED_OUTPUT\<close>) or the start of a frame that \<^verbatim>\<open>write\<close> has refused to take
  (the value returned is \<^verbatim>\<open>SEND\<close>), no item after it, and the channel is \<^verbatim>\<open>DEAD\<close>.
  In every case the outputs are contiguous in the array, and there is none when the
  status is not 0.  With the status \<^verbatim>\<open>OUT_OF_MEMORY\<close> the dispatcher is not called: the
  status sent is \<^verbatim>\<open>ALLOC_FAILED\<close> and there is no output.  (The error codes are not 0.)
\<close>

theorem execute_reply_frames:
  assumes "pull_execute c p f ctx w = Inr (ret, ctx2, w2)"
    and "MBEDTLS_ERR_SERIALIZE_UNSUPPORTED_OUTPUT c \<noteq> 0"
    and "MBEDTLS_ERR_SERIALIZE_SEND c \<noteq> 0"
  shows "\<exists>st outs.
           (if status ctx = MBEDTLS_SERIALIZE_STATUS_OUT_OF_MEMORY
            then st = word_of_int (MBEDTLS_ERR_SERIALIZE_ALLOC_FAILED c) \<and> outs = replicate 16 None
            else \<exists>ctx1 w1. mbedtls_serialize_perform c p ctx f (replicate 16 None) w
                             = Inr (st, outs, ctx1, w1))
         \<and> contiguous outs
         \<and> (st \<noteq> 0 \<longrightarrow> output_items outs = [])
         \<and> (if status ctx \<noteq> MBEDTLS_SERIALIZE_STATUS_OUT_OF_MEMORY
                \<and> st = status_value MBEDTLS_SERIALIZE_STATUS_EXITED
             then wr_out w2 = wr_out w
             else if ret = 0
             then wr_out w2
                    = wr_out w @ concat (map (frame c) (status_item st # output_items outs))
             else status ctx2 = MBEDTLS_SERIALIZE_STATUS_DEAD
                \<and> (\<exists>sent item unsent part.
                      status_item st # output_items outs = sent @ item # unsent
                      \<and> wr_out w2 = wr_out w @ concat (map (frame c) sent) @ part
                      \<and> (if MBEDTLS_SERIALIZE_MAX_STRING_LENGTH c < item_size item
                         then part = [] \<and> ret = MBEDTLS_ERR_SERIALIZE_UNSUPPORTED_OUTPUT c
                         else (\<exists>more. frame c item = part @ more)
                              \<and> ret = MBEDTLS_ERR_SERIALIZE_SEND c)))"
proof -
  have sent: "if ret = 0
        then wr_out w2 = wr_out w @ concat (map (frame c) (status_item st # output_items outs))
        else status ctx2 = MBEDTLS_SERIALIZE_STATUS_DEAD
           \<and> (\<exists>sent item unsent part.
                 status_item st # output_items outs = sent @ item # unsent
                 \<and> wr_out w2 = wr_out w @ concat (map (frame c) sent) @ part
                 \<and> (if MBEDTLS_SERIALIZE_MAX_STRING_LENGTH c < item_size item
                    then part = [] \<and> ret = MBEDTLS_ERR_SERIALIZE_UNSUPPORTED_OUTPUT c
                    else (\<exists>more. frame c item = part @ more)
                         \<and> ret = MBEDTLS_ERR_SERIALIZE_SEND c))"
    if so: "send_outputs c (Some (status_item st) # outs) 0 ctx1 w1 = (ret, ctx2, w2)"
      and w1: "wr_out w1 = wr_out w"
    for st outs ctx1 and w1 :: "'a world"
  proof (cases "ret = 0")
    case True
    from send_outputs_zero [OF so [unfolded True] assms(2,3)] True w1
    show ?thesis by (simp add: output_items_Some)
  next
    case False
    from send_outputs_failed [OF so False refl assms(2,3), unfolded output_items_Some w1]
    show ?thesis unfolding if_not_P [OF False] .
  qed
  show ?thesis
  proof (cases "status ctx = MBEDTLS_SERIALIZE_STATUS_OUT_OF_MEMORY")
    case True
    let ?st = "word_of_int (MBEDTLS_ERR_SERIALIZE_ALLOC_FAILED c) :: 32 word"
    from assms(1) True
    have so: "send_outputs c (Some (status_item ?st) # replicate 16 None) 0 ctx w = (ret, ctx2, w2)"
      by (simp add: pull_execute_def)
    have n: "contiguous (replicate 16 None)" "output_items (replicate 16 None) = []"
      by (simp_all add: replicate_16_None contiguous_def output_items_def no_outputs_def)
    have c: "\<not> (status ctx \<noteq> MBEDTLS_SERIALIZE_STATUS_OUT_OF_MEMORY
                \<and> ?st = status_value MBEDTLS_SERIALIZE_STATUS_EXITED)"
      using True by simp
    show ?thesis
    proof (intro exI [of _ ?st] exI [of _ "replicate 16 None"] conjI)
      show "if status ctx = MBEDTLS_SERIALIZE_STATUS_OUT_OF_MEMORY
            then ?st = word_of_int (MBEDTLS_ERR_SERIALIZE_ALLOC_FAILED c)
                 \<and> replicate 16 None = replicate 16 None
            else \<exists>ctx1 w1. mbedtls_serialize_perform c p ctx f (replicate 16 None) w
                             = Inr (?st, replicate 16 None, ctx1, w1)"
        using True by simp
      show "contiguous (replicate 16 None)" by (rule n)
      show "?st \<noteq> 0 \<longrightarrow> output_items (replicate 16 None) = []" using n by simp
      show "if status ctx \<noteq> MBEDTLS_SERIALIZE_STATUS_OUT_OF_MEMORY
                \<and> ?st = status_value MBEDTLS_SERIALIZE_STATUS_EXITED
             then wr_out w2 = wr_out w
             else if ret = 0
             then wr_out w2
                    = wr_out w @ concat (map (frame c) (status_item ?st # output_items (replicate 16 None)))
             else status ctx2 = MBEDTLS_SERIALIZE_STATUS_DEAD
                \<and> (\<exists>sent item unsent part.
                      status_item ?st # output_items (replicate 16 None) = sent @ item # unsent
                      \<and> wr_out w2 = wr_out w @ concat (map (frame c) sent) @ part
                      \<and> (if MBEDTLS_SERIALIZE_MAX_STRING_LENGTH c < item_size item
                         then part = [] \<and> ret = MBEDTLS_ERR_SERIALIZE_UNSUPPORTED_OUTPUT c
                         else (\<exists>more. frame c item = part @ more)
                              \<and> ret = MBEDTLS_ERR_SERIALIZE_SEND c))"
        unfolding if_not_P [OF c] by (rule sent [OF so refl])
    qed
  next
    case False
    from assms(1) False obtain st outs ctx1 w1 where
      pf: "mbedtls_serialize_perform c p ctx f (replicate 16 None) w = Inr (st, outs, ctx1, w1)"
      by (auto simp: pull_execute_def split: sum.splits prod.splits)
    from perform_ok [OF pf]
    have ok: "contiguous outs" "wr_out w1 = wr_out w" "st \<noteq> 0 \<longrightarrow> output_items outs = []"
      by auto
    have first: "if status ctx = MBEDTLS_SERIALIZE_STATUS_OUT_OF_MEMORY
            then st = word_of_int (MBEDTLS_ERR_SERIALIZE_ALLOC_FAILED c) \<and> outs = replicate 16 None
            else \<exists>ctx1 w1. mbedtls_serialize_perform c p ctx f (replicate 16 None) w
                             = Inr (st, outs, ctx1, w1)"
      unfolding if_not_P [OF False] using pf by (intro exI)
    show ?thesis
    proof (cases "st = status_value MBEDTLS_SERIALIZE_STATUS_EXITED")
      case True
      with assms(1) False pf ok(2) have w2: "wr_out w2 = wr_out w" by (simp add: pull_execute_def)
      have c: "status ctx \<noteq> MBEDTLS_SERIALIZE_STATUS_OUT_OF_MEMORY
                \<and> st = status_value MBEDTLS_SERIALIZE_STATUS_EXITED"
        using True False by simp
      show ?thesis
        by (intro exI [of _ st] exI [of _ outs] conjI first ok(1,3), unfold if_P [OF c], rule w2)
    next
      case ne: False
      with assms(1) False pf
      have so: "send_outputs c (Some (status_item st) # outs) 0 ctx1 w1 = (ret, ctx2, w2)"
        by (simp add: pull_execute_def)
      have c: "\<not> (status ctx \<noteq> MBEDTLS_SERIALIZE_STATUS_OUT_OF_MEMORY
                \<and> st = status_value MBEDTLS_SERIALIZE_STATUS_EXITED)"
        using ne by simp
      show ?thesis
        by (intro exI [of _ st] exI [of _ outs] conjI first ok(1,3), unfold if_not_P [OF c],
            rule sent [OF so ok(2)])
    qed
  qed
qed

theorem execute_reply_frames_witness:
  "pull_execute sample_h sample_platform (MBEDTLS_SERIALIZE_FUNCTION_ECHO sample_h)
     \<lparr>stack = [\<lparr>item_size = 2, item_buffer = [0x41, 0x42]\<rparr>], status = MBEDTLS_SERIALIZE_STATUS_OK\<rparr>
     sample_world
   = Inr (0, \<lparr>stack = [], status = MBEDTLS_SERIALIZE_STATUS_OK\<rparr>,
          sample_world\<lparr>wr_out := [0x72, 0, 0, 4, 0, 0, 0, 0, 0x72, 0, 0, 2, 0x41, 0x42]\<rparr>)
   \<and> (\<exists>st outs.
           (if status \<lparr>stack = [\<lparr>item_size = 2, item_buffer = [0x41, 0x42]\<rparr>],
                       status = MBEDTLS_SERIALIZE_STATUS_OK\<rparr>
                = MBEDTLS_SERIALIZE_STATUS_OUT_OF_MEMORY
            then st = word_of_int (MBEDTLS_ERR_SERIALIZE_ALLOC_FAILED sample_h) \<and> outs = replicate 16 None
            else \<exists>ctx1 w1. mbedtls_serialize_perform sample_h sample_platform
                               \<lparr>stack = [\<lparr>item_size = 2, item_buffer = [0x41, 0x42]\<rparr>],
                                status = MBEDTLS_SERIALIZE_STATUS_OK\<rparr>
                               (MBEDTLS_SERIALIZE_FUNCTION_ECHO sample_h) (replicate 16 None) sample_world
                             = Inr (st, outs, ctx1, w1))
         \<and> contiguous outs
         \<and> (st \<noteq> 0 \<longrightarrow> output_items outs = [])
         \<and> (if status \<lparr>stack = [\<lparr>item_size = 2, item_buffer = [0x41, 0x42]\<rparr>],
                         status = MBEDTLS_SERIALIZE_STATUS_OK\<rparr>
                  \<noteq> MBEDTLS_SERIALIZE_STATUS_OUT_OF_MEMORY
                \<and> st = status_value MBEDTLS_SERIALIZE_STATUS_EXITED
             then wr_out (sample_world\<lparr>wr_out := [0x72, 0, 0, 4, 0, 0, 0, 0, 0x72, 0, 0, 2, 0x41, 0x42]\<rparr>)
                  = wr_out sample_world
             else if (0::int) = 0
             then wr_out (sample_world\<lparr>wr_out := [0x72, 0, 0, 4, 0, 0, 0, 0, 0x72, 0, 0, 2, 0x41, 0x42]\<rparr>)
                  = wr_out sample_world
                    @ concat (map (frame sample_h) (status_item st # output_items outs))
             else status \<lparr>stack = [], status = MBEDTLS_SERIALIZE_STATUS_OK\<rparr>
                  = MBEDTLS_SERIALIZE_STATUS_DEAD
                \<and> (\<exists>sent item unsent part.
                      status_item st # output_items outs = sent @ item # unsent
                      \<and> wr_out (sample_world\<lparr>wr_out := [0x72, 0, 0, 4, 0, 0, 0, 0, 0x72, 0, 0, 2, 0x41, 0x42]\<rparr>)
                        = wr_out sample_world @ concat (map (frame sample_h) sent) @ part
                      \<and> (if MBEDTLS_SERIALIZE_MAX_STRING_LENGTH sample_h < item_size item
                         then part = [] \<and> 0 = MBEDTLS_ERR_SERIALIZE_UNSUPPORTED_OUTPUT sample_h
                         else (\<exists>more. frame sample_h item = part @ more)
                              \<and> 0 = MBEDTLS_ERR_SERIALIZE_SEND sample_h))))"
proof -
  let ?b = "[0x41, 0x42] :: byte list"
  let ?ctx = "\<lparr>stack = [\<lparr>item_size = 2, item_buffer = ?b\<rparr>], status = MBEDTLS_SERIALIZE_STATUS_OK\<rparr>"
  have 1: "1 \<le> unat (drop_bit 4 (MBEDTLS_SERIALIZE_FUNCTION_ECHO sample_h AND 0x0000f0))"
    by (simp add: sample_h_def)
  have 2: "MBEDTLS_SERIALIZE_FUNCTION_ECHO sample_h \<noteq> MBEDTLS_SERIALIZE_FUNCTION_EXIT sample_h"
    by (simp add: sample_h_def)
  have 3: "stack ?ctx = \<lparr>item_size = length ?b, item_buffer = ?b\<rparr> # []" by simp
  have 4: "length ?b \<le> MBEDTLS_SERIALIZE_MAX_STRING_LENGTH sample_h" by (simp add: sample_h_def)
  have 5: "alloc_item (length ?b) sample_world
      = Inr (Some \<lparr>item_size = 2, item_buffer = [0, 0]\<rparr>, sample_world)"
    by (simp add: alloc_item_def mbedtls_calloc_def SIZE_MAX_def sizeof_item_def sample_world_def)
  have 6: "status ?ctx = MBEDTLS_SERIALIZE_STATUS_OK" by simp
  have 7: "4 \<le> MBEDTLS_SERIALIZE_MAX_STRING_LENGTH sample_h" by (simp add: sample_h_def)
  have 8: "wr_ev sample_world = []" by (simp add: sample_world_def)
  have l: "length ?b = 2" by simp
  have f: "frame sample_h (status_item 0) @ frame sample_h \<lparr>item_size = 2, item_buffer = ?b\<rparr>
            = [0x72, 0, 0, 4, 0, 0, 0, 0, 0x72, 0, 0, 2, 0x41, 0x42]"
    by (simp add: frame_def status_item_def sample_h_def)
  have o: "wr_out sample_world = []" by (simp add: sample_world_def)
  from pull_execute_echo [OF 1 2 3 4 5 6 7 8, of sample_platform, unfolded l] f o
  have h: "pull_execute sample_h sample_platform (MBEDTLS_SERIALIZE_FUNCTION_ECHO sample_h) ?ctx
     sample_world
   = Inr (0, \<lparr>stack = [], status = MBEDTLS_SERIALIZE_STATUS_OK\<rparr>,
          sample_world\<lparr>wr_out := [0x72, 0, 0, 4, 0, 0, 0, 0, 0x72, 0, 0, 2, 0x41, 0x42]\<rparr>)"
    by simp
  have u: "MBEDTLS_ERR_SERIALIZE_UNSUPPORTED_OUTPUT sample_h \<noteq> 0"
    and s: "MBEDTLS_ERR_SERIALIZE_SEND sample_h \<noteq> 0"
    by (simp_all add: sample_h_def)
  from h execute_reply_frames [OF h u s] show ?thesis by (rule conjI)
qed


lemma switch_checked:
  assumes "distinct (function_codes c)" and "(f, k) \<in> set (checked_arity c)"
    and "length inputs < k"
  shows "perform_switch c p f inputs outs ctx w
           = Inr (MBEDTLS_ERR_SERIALIZE_BAD_INPUT c, outs, ctx, w)"
proof -
  from assms(2) consider
    "f = MBEDTLS_SERIALIZE_FUNCTION_EXIT c" "k = 1"
    | "f = MBEDTLS_SERIALIZE_FUNCTION_ECHO c" "k = 1"
    | "f = MBEDTLS_SERIALIZE_FUNCTION_USLEEP c" "k = 1"
    | "f = MBEDTLS_SERIALIZE_FUNCTION_SOCKET c" "k = 3"
    | "f = MBEDTLS_SERIALIZE_FUNCTION_ACCEPT c" "k = 2"
    | "f = MBEDTLS_SERIALIZE_FUNCTION_SET_BLOCK c" "k = 2"
    | "f = MBEDTLS_SERIALIZE_FUNCTION_RECV c" "k = 3"
    | "f = MBEDTLS_SERIALIZE_FUNCTION_SEND c" "k = 2"
    | "f = MBEDTLS_SERIALIZE_FUNCTION_SHUTDOWN c" "k = 1"
    by (auto simp: checked_arity_def)
  then show ?thesis
  proof cases
    case 1
    with assms(3) show ?thesis
      by (simp add: switch_exit op_exit_def CHECK_ARITY_def)
  next
    case 2
    with assms(3) show ?thesis
      by (simp add: switch_echo [OF assms(1)] op_echo_def CHECK_ARITY_def)
  next
    case 3
    with assms(3) show ?thesis
      by (simp add: switch_usleep [OF assms(1)] op_usleep_def CHECK_ARITY_def)
  next
    case 4
    with assms(3) show ?thesis
      by (simp add: switch_socket [OF assms(1)] op_socket_def CHECK_ARITY_def)
  next
    case 5
    with assms(3) show ?thesis
      by (simp add: switch_accept [OF assms(1)] op_accept_def CHECK_ARITY_def)
  next
    case 6
    with assms(3) show ?thesis
      by (simp add: switch_set_block [OF assms(1)] op_set_block_def CHECK_ARITY_def)
  next
    case 7
    with assms(3) show ?thesis
      by (simp add: switch_recv [OF assms(1)] op_recv_def CHECK_ARITY_def)
  next
    case 8
    with assms(3) show ?thesis
      by (simp add: switch_send [OF assms(1)] op_send_def CHECK_ARITY_def)
  next
    case 9
    with assms(3) show ?thesis
      by (simp add: switch_shutdown [OF assms(1)] op_shutdown_def CHECK_ARITY_def)
  qed
qed

lemma input_at_empty: "input_at [] i = Inl NullDereference"
  by (simp add: input_at_def)

lemma switch_file_empty:
  assumes "distinct (function_codes c)" and "f \<in> set (file_functions c)"
    and "allocs w = []"
  shows "perform_switch c p f [] outs ctx w = Inl NullDereference"
proof -
  from assms(2) consider
    "f = MBEDTLS_SERIALIZE_FUNCTION_FOPEN c"
    | "f = MBEDTLS_SERIALIZE_FUNCTION_FREAD c"
    | "f = MBEDTLS_SERIALIZE_FUNCTION_FGETS c"
    | "f = MBEDTLS_SERIALIZE_FUNCTION_FWRITE c"
    | "f = MBEDTLS_SERIALIZE_FUNCTION_FCLOSE c"
    | "f = MBEDTLS_SERIALIZE_FUNCTION_FSEEK c"
    | "f = MBEDTLS_SERIALIZE_FUNCTION_FTELL c"
    | "f = MBEDTLS_SERIALIZE_FUNCTION_FERROR c"
    | "f = MBEDTLS_SERIALIZE_FUNCTION_DOPEN c"
    | "f = MBEDTLS_SERIALIZE_FUNCTION_DREAD c"
    | "f = MBEDTLS_SERIALIZE_FUNCTION_DCLOSE c"
    | "f = MBEDTLS_SERIALIZE_FUNCTION_STAT c"
    by (auto simp: file_functions_def)
  then show ?thesis
  proof cases
    case 1
    with assms(3) show ?thesis
      by (simp add: switch_fopen [OF assms(1)] op_fopen_def ALLOC_OUTPUT_def alloc_item_ok
          sizeof_item_def SIZE_MAX_def input_at_empty input_uint32_def fbind_def)
  next
    case 2
    with assms(3) show ?thesis
      by (simp add: switch_fread [OF assms(1)] op_fread_def ALLOC_OUTPUT_def alloc_item_ok
          sizeof_item_def SIZE_MAX_def input_at_empty input_uint32_def fbind_def)
  next
    case 3
    with assms(3) show ?thesis
      by (simp add: switch_fgets [OF assms(1)] op_fgets_def ALLOC_OUTPUT_def alloc_item_ok
          sizeof_item_def SIZE_MAX_def input_at_empty input_uint32_def fbind_def)
  next
    case 4
    with assms(3) show ?thesis
      by (simp add: switch_fwrite [OF assms(1)] op_fwrite_def ALLOC_OUTPUT_def alloc_item_ok
          sizeof_item_def SIZE_MAX_def input_at_empty input_uint32_def fbind_def)
  next
    case 5
    with assms(3) show ?thesis
      by (simp add: switch_fclose [OF assms(1)] op_fclose_def ALLOC_OUTPUT_def alloc_item_ok
          sizeof_item_def SIZE_MAX_def input_at_empty input_uint32_def fbind_def)
  next
    case 6
    with assms(3) show ?thesis
      by (simp add: switch_fseek [OF assms(1)] op_fseek_def ALLOC_OUTPUT_def alloc_item_ok
          sizeof_item_def SIZE_MAX_def input_at_empty input_uint32_def fbind_def)
  next
    case 7
    with assms(3) show ?thesis
      by (simp add: switch_ftell [OF assms(1)] op_ftell_def ALLOC_OUTPUT_def alloc_item_ok
          sizeof_item_def SIZE_MAX_def input_at_empty input_uint32_def fbind_def)
  next
    case 8
    with assms(3) show ?thesis
      by (simp add: switch_ferror [OF assms(1)] op_ferror_def ALLOC_OUTPUT_def alloc_item_ok
          sizeof_item_def SIZE_MAX_def input_at_empty input_uint32_def fbind_def)
  next
    case 9
    with assms(3) show ?thesis
      by (simp add: switch_dopen [OF assms(1)] op_dopen_def ALLOC_OUTPUT_def alloc_item_ok
          sizeof_item_def SIZE_MAX_def input_at_empty input_uint32_def fbind_def)
  next
    case 10
    with assms(3) show ?thesis
      by (simp add: switch_dread [OF assms(1)] op_dread_def ALLOC_OUTPUT_def alloc_item_ok
          sizeof_item_def SIZE_MAX_def input_at_empty input_uint32_def fbind_def)
  next
    case 11
    with assms(3) show ?thesis
      by (simp add: switch_dclose [OF assms(1)] op_dclose_def ALLOC_OUTPUT_def alloc_item_ok
          sizeof_item_def SIZE_MAX_def input_at_empty input_uint32_def fbind_def)
  next
    case 12
    with assms(3) show ?thesis
      by (simp add: switch_stat [OF assms(1)] op_stat_def ALLOC_OUTPUT_def alloc_item_ok
          sizeof_item_def SIZE_MAX_def input_at_empty input_uint32_def fbind_def)
  qed
qed


text \<open>
  C3.  The cases \<^verbatim>\<open>EXIT\<close>, \<^verbatim>\<open>ECHO\<close>, \<^verbatim>\<open>USLEEP\<close>, \<^verbatim>\<open>SOCKET\<close>, \<^verbatim>\<open>ACCEPT\<close>,
  \<^verbatim>\<open>SET_BLOCK\<close>, \<^verbatim>\<open>RECV\<close>, \<^verbatim>\<open>SEND\<close> and \<^verbatim>\<open>SHUTDOWN\<close> start with \<^verbatim>\<open>CHECK_ARITY\<close>: with
  fewer items on the stack than the case needs, the function returns \<^verbatim>\<open>BAD_INPUT\<close>,
  allocates no output and leaves the state as it is.  The twelve cases for files and
  directories have no such check: with an empty stack (and an output that can be
  allocated) they dereference the null pointer \<^verbatim>\<open>inputs[0]\<close> or \<^verbatim>\<open>inputs[1]\<close>, and the
  function does not return \<^verbatim>\<open>BAD_INPUT\<close>.
\<close>

theorem arity_check_of_the_dispatcher:
  assumes "distinct (function_codes c)"
  shows "((f, k) \<in> set (checked_arity c) \<longrightarrow> length (stack ctx) < k \<longrightarrow>
            mbedtls_serialize_perform c p ctx f (replicate 16 None) w
              = Inr (word_of_int (MBEDTLS_ERR_SERIALIZE_BAD_INPUT c), replicate 16 None,
                     ctx\<lparr>stack := []\<rparr>, w))
       \<and> (f \<in> set (file_functions c) \<longrightarrow> stack ctx = [] \<longrightarrow> allocs w = [] \<longrightarrow>
            mbedtls_serialize_perform c p ctx f (replicate 16 None) w = Inl NullDereference)"
proof (intro conjI impI)
  assume a: "(f, k) \<in> set (checked_arity c)" "length (stack ctx) < k"
  have sw: "\<And>inputs. length inputs < k \<Longrightarrow>
      perform_switch c p f inputs (replicate 16 None) ctx w
        = Inr (MBEDTLS_ERR_SERIALIZE_BAD_INPUT c, replicate 16 None, ctx, w)"
    by (rule switch_checked [OF assms a(1)])
  have fr: "free_outputs (replicate 16 None) = replicate 16 None"
    by (simp add: replicate_16)
  from a(2)
  show "mbedtls_serialize_perform c p ctx f (replicate 16 None) w
          = Inr (word_of_int (MBEDTLS_ERR_SERIALIZE_BAD_INPUT c), replicate 16 None,
                 ctx\<lparr>stack := []\<rparr>, w)"
    by (simp add: mbedtls_serialize_perform_def mbedtls_serialize_discard_stack_def sw fr)
next
  assume a: "f \<in> set (file_functions c)" "stack ctx = []" "allocs w = []"
  from switch_file_empty [OF assms a(1,3)] a(2)
  show "mbedtls_serialize_perform c p ctx f (replicate 16 None) w = Inl NullDereference"
    by (simp add: mbedtls_serialize_perform_def)
qed

lemma distinct_sample: "distinct (function_codes sample_h)"
  by (simp add: function_codes_def sample_h_def)

theorem arity_check_of_the_dispatcher_witness:
  "distinct (function_codes sample_h)
   \<and> mbedtls_serialize_perform sample_h sample_platform sample_ctx
        (MBEDTLS_SERIALIZE_FUNCTION_ECHO sample_h) (replicate 16 None) sample_world
      = Inr (word_of_int (MBEDTLS_ERR_SERIALIZE_BAD_INPUT sample_h), replicate 16 None,
             sample_ctx, sample_world)
   \<and> mbedtls_serialize_perform sample_h sample_platform sample_ctx
        (MBEDTLS_SERIALIZE_FUNCTION_FOPEN sample_h) (replicate 16 None) sample_world
      = Inl NullDereference"
proof -
  have 1: "(MBEDTLS_SERIALIZE_FUNCTION_ECHO sample_h, 1) \<in> set (checked_arity sample_h)"
    by (simp add: checked_arity_def)
  have 2: "length (stack sample_ctx) < 1" by (simp add: sample_ctx_def)
  have 3: "MBEDTLS_SERIALIZE_FUNCTION_FOPEN sample_h \<in> set (file_functions sample_h)"
    by (simp add: file_functions_def)
  have 4: "stack sample_ctx = []" by (simp add: sample_ctx_def)
  have 5: "allocs sample_world = []" by (simp add: sample_world_def)
  have 6: "sample_ctx\<lparr>stack := []\<rparr> = sample_ctx" by (simp add: sample_ctx_def)
  from arity_check_of_the_dispatcher [OF distinct_sample, of "MBEDTLS_SERIALIZE_FUNCTION_ECHO sample_h" 1 sample_ctx sample_platform sample_world]
       arity_check_of_the_dispatcher [OF distinct_sample, of "MBEDTLS_SERIALIZE_FUNCTION_FOPEN sample_h" 1 sample_ctx sample_platform sample_world]
       1 2 3 4 5 6 distinct_sample
  show ?thesis by simp
qed


section \<open>Outputs that are too long\<close>

lemma send_result_oversize:
  assumes "item_size item > MBEDTLS_SERIALIZE_MAX_STRING_LENGTH c"
  shows "mbedtls_serialize_send_result c (item_buffer item) (item_size item) w
           = (MBEDTLS_ERR_SERIALIZE_UNSUPPORTED_OUTPUT c, w)"
  using assms by (simp add: mbedtls_serialize_send_result_def)

lemma send_outputs_oversize:
  assumes "wr_ev w = []"
    and "\<forall>item \<in> set pre. item_size item \<le> MBEDTLS_SERIALIZE_MAX_STRING_LENGTH c"
    and "item_size big > MBEDTLS_SERIALIZE_MAX_STRING_LENGTH c"
    and "MBEDTLS_ERR_SERIALIZE_UNSUPPORTED_OUTPUT c \<noteq> 0"
  shows "send_outputs c (map Some pre @ Some big # rest) r ctx w
           = (MBEDTLS_ERR_SERIALIZE_UNSUPPORTED_OUTPUT c,
              ctx\<lparr>status := MBEDTLS_SERIALIZE_STATUS_DEAD\<rparr>,
              w\<lparr>wr_out := wr_out w @ concat (map (frame c) pre)\<rparr>)"
  using assms(1,2)
proof (induction pre arbitrary: r w)
  case Nil
  then show ?case
    using assms(3,4) by (simp add: send_outputs.simps send_result_oversize)
next
  case (Cons item pre)
  let ?w1 = "w\<lparr>wr_out := wr_out w @ frame c item\<rparr>"
  from Cons.prems have s: "mbedtls_serialize_send_result c (item_buffer item) (item_size item) w
      = (0, ?w1)"
    by (simp add: send_result_ok)
  have "send_outputs c (map Some pre @ Some big # rest) 0 ctx ?w1
          = (MBEDTLS_ERR_SERIALIZE_UNSUPPORTED_OUTPUT c,
              ctx\<lparr>status := MBEDTLS_SERIALIZE_STATUS_DEAD\<rparr>,
              ?w1\<lparr>wr_out := wr_out ?w1 @ concat (map (frame c) pre)\<rparr>)"
    using Cons.prems by (intro Cons.IH) auto
  with s show ?case by (simp add: send_outputs.simps)
qed

lemma pull_execute_oversize:
  assumes "status ctx \<noteq> MBEDTLS_SERIALIZE_STATUS_OUT_OF_MEMORY"
    and "mbedtls_serialize_perform c p ctx f (replicate 16 None) w = Inr (st, outs, ctx1, w1)"
    and "st \<noteq> status_value MBEDTLS_SERIALIZE_STATUS_EXITED"
    and "outs = map Some pre @ Some big # rest"
    and "\<forall>item \<in> set pre. item_size item \<le> MBEDTLS_SERIALIZE_MAX_STRING_LENGTH c"
    and "item_size big > MBEDTLS_SERIALIZE_MAX_STRING_LENGTH c"
    and "wr_ev w1 = []"
    and "4 \<le> MBEDTLS_SERIALIZE_MAX_STRING_LENGTH c"
    and "MBEDTLS_ERR_SERIALIZE_UNSUPPORTED_OUTPUT c \<noteq> 0"
  shows "pull_execute c p f ctx w
           = Inr (MBEDTLS_ERR_SERIALIZE_UNSUPPORTED_OUTPUT c,
                  ctx1\<lparr>status := MBEDTLS_SERIALIZE_STATUS_DEAD\<rparr>,
                  w1\<lparr>wr_out := wr_out w1 @ frame c (status_item st)
                                 @ concat (map (frame c) pre)\<rparr>)"
proof -
  let ?w2 = "w1\<lparr>wr_out := wr_out w1 @ frame c (status_item st)\<rparr>"
  have "send_outputs c (map Some pre @ Some big # rest) 0 ctx1 ?w2
          = (MBEDTLS_ERR_SERIALIZE_UNSUPPORTED_OUTPUT c,
              ctx1\<lparr>status := MBEDTLS_SERIALIZE_STATUS_DEAD\<rparr>,
              ?w2\<lparr>wr_out := wr_out ?w2 @ concat (map (frame c) pre)\<rparr>)"
    using assms(5-7,9) by (intro send_outputs_oversize) auto
  with assms(1-4,7,8) show ?thesis
    by (simp add: pull_execute_def send_status_first)
qed

lemma perform_fread_sample:
  assumes "n = 1 \<or> n = 2"
  shows "mbedtls_serialize_perform sample_h sample_platform
     \<lparr>stack = [\<lparr>item_size = 4, item_buffer = [n, 0, 0, 0]\<rparr>,
               \<lparr>item_size = 4, item_buffer = [0, 0, 0, 1]\<rparr>],
      status = MBEDTLS_SERIALIZE_STATUS_OK\<rparr>
     (MBEDTLS_SERIALIZE_FUNCTION_FREAD sample_h) (replicate 16 None)
     (sample_world\<lparr>files := (files sample_world)[0 := \<lparr>file_ptr = Some 1, inUse = True\<rparr>]\<rparr>)
   = Inr (0, map Some [] @ Some \<lparr>item_size = 16777216 * unat n, item_buffer = replicate (16777216 * unat n) 0\<rparr>
                # replicate 15 None,
          \<lparr>stack = [], status = MBEDTLS_SERIALIZE_STATUS_OK\<rparr>,
          sample_world\<lparr>files := (files sample_world)[0 := \<lparr>file_ptr = Some 1, inUse = True\<rparr>]\<rparr>)"
  using assms
  by (auto simp add: mbedtls_serialize_perform_def perform_switch_def sample_h_def op_fread_def
      input_uint32_def input_at_def fbind_def item_uint32_def get_file_from_id_def
      MBEDTLS_SERIALIZE_MAX_FILES_def sample_world_def ALLOC_OUTPUT_def alloc_item_def
      mbedtls_calloc_def SIZE_MAX_def sizeof_item_def
      size_t_of_int32_def sample_platform_def store_def mbedtls_serialize_discard_stack_def Let_def
      replicate_16)


text \<open>
  C8, as the code has it.  \<^verbatim>\<open>mbedtls_serialize_send_result\<close> refuses an output longer
  than \<^verbatim>\<open>MBEDTLS_SERIALIZE_MAX_STRING_LENGTH\<close> with \<^verbatim>\<open>UNSUPPORTED_OUTPUT\<close> before it writes
  a byte of its frame.  The status item and the outputs before it have been sent by
  then, the status item with the status of the function; the sending loop stops, the
  status of the channel becomes \<^verbatim>\<open>DEAD\<close>, and \<^verbatim>\<open>UNSUPPORTED_OUTPUT\<close> is the value that
  \<^verbatim>\<open>mbedtls_serialize_pull\<close> returns to its caller.
\<close>

theorem oversize_output_kills_the_channel:
  assumes "status ctx \<noteq> MBEDTLS_SERIALIZE_STATUS_OUT_OF_MEMORY"
    and "mbedtls_serialize_perform c p ctx f (replicate 16 None) w = Inr (st, outs, ctx1, w1)"
    and "st \<noteq> status_value MBEDTLS_SERIALIZE_STATUS_EXITED"
    and "outs = map Some pre @ Some big # rest"
    and "\<forall>item \<in> set pre. item_size item \<le> MBEDTLS_SERIALIZE_MAX_STRING_LENGTH c"
    and "item_size big > MBEDTLS_SERIALIZE_MAX_STRING_LENGTH c"
    and "wr_ev w1 = []"
    and "4 \<le> MBEDTLS_SERIALIZE_MAX_STRING_LENGTH c"
    and "MBEDTLS_ERR_SERIALIZE_UNSUPPORTED_OUTPUT c \<noteq> 0"
  shows "pull_execute c p f ctx w
           = Inr (MBEDTLS_ERR_SERIALIZE_UNSUPPORTED_OUTPUT c,
                  ctx1\<lparr>status := MBEDTLS_SERIALIZE_STATUS_DEAD\<rparr>,
                  w1\<lparr>wr_out := wr_out w1 @ frame c (status_item st)
                                 @ concat (map (frame c) pre)\<rparr>)"
  using assms by (rule pull_execute_oversize)

theorem oversize_output_kills_the_channel_witness:
  "pull_execute sample_h sample_platform (MBEDTLS_SERIALIZE_FUNCTION_FREAD sample_h)
     \<lparr>stack = [\<lparr>item_size = 4, item_buffer = [2, 0, 0, 0]\<rparr>,
               \<lparr>item_size = 4, item_buffer = [0, 0, 0, 1]\<rparr>],
      status = MBEDTLS_SERIALIZE_STATUS_OK\<rparr>
     (sample_world\<lparr>files := (files sample_world)[0 := \<lparr>file_ptr = Some 1, inUse = True\<rparr>]\<rparr>)
   = Inr (- 0x44, \<lparr>stack = [], status = MBEDTLS_SERIALIZE_STATUS_DEAD\<rparr>,
          sample_world\<lparr>files := (files sample_world)[0 := \<lparr>file_ptr = Some 1, inUse = True\<rparr>],
                         wr_out := [0x72, 0, 0, 4, 0, 0, 0, 0]\<rparr>)"
  using oversize_output_kills_the_channel
    [OF _ perform_fread_sample [of 2], where pre = "[]" and rest = "replicate 15 None"]
  by (simp add: sample_h_def sample_world_def frame_def status_item_def)

text \<open>
  C8, as the claim has it, fails: \<^verbatim>\<open>FREAD\<close> of \<open>0x01000000\<close> bytes from a file that has
  them gives an output of 16777216 bytes, one more than the limit.  The status item
  has been sent with the value 0 when the output is refused, so the error is not
  reported in it, and the status of the channel afterwards is \<^verbatim>\<open>DEAD\<close>.
\<close>

theorem oversize_output_reported_counterexample:
  "pull_execute sample_h sample_platform (MBEDTLS_SERIALIZE_FUNCTION_FREAD sample_h)
     \<lparr>stack = [\<lparr>item_size = 4, item_buffer = [1, 0, 0, 0]\<rparr>,
               \<lparr>item_size = 4, item_buffer = [0, 0, 0, 1]\<rparr>],
      status = MBEDTLS_SERIALIZE_STATUS_OK\<rparr>
     (sample_world\<lparr>files := (files sample_world)[0 := \<lparr>file_ptr = Some 1, inUse = True\<rparr>]\<rparr>)
   = Inr (MBEDTLS_ERR_SERIALIZE_UNSUPPORTED_OUTPUT sample_h,
          \<lparr>stack = [], status = MBEDTLS_SERIALIZE_STATUS_DEAD\<rparr>,
          sample_world\<lparr>files := (files sample_world)[0 := \<lparr>file_ptr = Some 1, inUse = True\<rparr>],
                         wr_out := [0x72, 0, 0, 4, 0, 0, 0, 0]\<rparr>)"
  using pull_execute_oversize
    [OF _ perform_fread_sample [of 1], where pre = "[]" and rest = "replicate 15 None"]
  by (simp add: sample_h_def sample_world_def frame_def status_item_def)

section \<open>A reply that is cut short\<close>

lemma replicate_15: "replicate 15 x = x # replicate 14 x"
  by (simp add: eval_nat_numeral)

lemma output_items_None: "output_items (None # rest) = []"
  by (simp add: output_items_def)


text \<open>
  C7, as the claim has it, fails: \<^verbatim>\<open>FREAD\<close> of \<open>0x02000000\<close> bytes from a file that has
  them returns the status 0 and one output, and every \<^verbatim>\<open>write\<close> succeeds, yet the
  bytes written are the frame of the status item alone: one frame for \<open>N = 1\<close>.  The
  output is longer than the limit and is not sent.
\<close>

theorem oversize_output_cuts_the_reply_counterexample:
  "mbedtls_serialize_perform sample_h sample_platform
     \<lparr>stack = [\<lparr>item_size = 4, item_buffer = [2, 0, 0, 0]\<rparr>,
               \<lparr>item_size = 4, item_buffer = [0, 0, 0, 1]\<rparr>],
      status = MBEDTLS_SERIALIZE_STATUS_OK\<rparr>
     (MBEDTLS_SERIALIZE_FUNCTION_FREAD sample_h) (replicate 16 None)
     (sample_world\<lparr>files := (files sample_world)[0 := \<lparr>file_ptr = Some 1, inUse = True\<rparr>]\<rparr>)
   = Inr (0, Some \<lparr>item_size = 33554432, item_buffer = replicate 33554432 0\<rparr> # replicate 15 None,
          \<lparr>stack = [], status = MBEDTLS_SERIALIZE_STATUS_OK\<rparr>,
          sample_world\<lparr>files := (files sample_world)[0 := \<lparr>file_ptr = Some 1, inUse = True\<rparr>]\<rparr>)
   \<and> length (output_items
        (Some \<lparr>item_size = 33554432, item_buffer = replicate 33554432 0\<rparr> # replicate 15 None)) = 1
   \<and> pull_execute sample_h sample_platform (MBEDTLS_SERIALIZE_FUNCTION_FREAD sample_h)
     \<lparr>stack = [\<lparr>item_size = 4, item_buffer = [2, 0, 0, 0]\<rparr>,
               \<lparr>item_size = 4, item_buffer = [0, 0, 0, 1]\<rparr>],
      status = MBEDTLS_SERIALIZE_STATUS_OK\<rparr>
     (sample_world\<lparr>files := (files sample_world)[0 := \<lparr>file_ptr = Some 1, inUse = True\<rparr>]\<rparr>)
   = Inr (MBEDTLS_ERR_SERIALIZE_UNSUPPORTED_OUTPUT sample_h,
          \<lparr>stack = [], status = MBEDTLS_SERIALIZE_STATUS_DEAD\<rparr>,
          sample_world\<lparr>files := (files sample_world)[0 := \<lparr>file_ptr = Some 1, inUse = True\<rparr>],
                         wr_out := [0x72, 0, 0, 4, 0, 0, 0, 0]\<rparr>)
   \<and> frame sample_h (status_item 0) = [0x72, 0, 0, 4, 0, 0, 0, 0]"
proof -
  have f: "frame sample_h (status_item 0) = [0x72, 0, 0, 4, 0, 0, 0, 0]"
    by (simp add: frame_def status_item_def sample_h_def)
  have n: "length (output_items
        (Some \<lparr>item_size = 33554432, item_buffer = replicate 33554432 0\<rparr> # replicate 15 None)) = 1"
    by (simp add: output_items_Some replicate_15 output_items_None)
  from perform_fread_sample [of 2]
  have p: "mbedtls_serialize_perform sample_h sample_platform
     \<lparr>stack = [\<lparr>item_size = 4, item_buffer = [2, 0, 0, 0]\<rparr>,
               \<lparr>item_size = 4, item_buffer = [0, 0, 0, 1]\<rparr>],
      status = MBEDTLS_SERIALIZE_STATUS_OK\<rparr>
     (MBEDTLS_SERIALIZE_FUNCTION_FREAD sample_h) (replicate 16 None)
     (sample_world\<lparr>files := (files sample_world)[0 := \<lparr>file_ptr = Some 1, inUse = True\<rparr>]\<rparr>)
   = Inr (0, Some \<lparr>item_size = 33554432, item_buffer = replicate 33554432 0\<rparr> # replicate 15 None,
          \<lparr>stack = [], status = MBEDTLS_SERIALIZE_STATUS_OK\<rparr>,
          sample_world\<lparr>files := (files sample_world)[0 := \<lparr>file_ptr = Some 1, inUse = True\<rparr>]\<rparr>)"
    by simp
  from pull_execute_oversize
    [OF _ perform_fread_sample [of 2], where pre = "[]" and rest = "replicate 15 None"]
  have e: "pull_execute sample_h sample_platform (MBEDTLS_SERIALIZE_FUNCTION_FREAD sample_h)
     \<lparr>stack = [\<lparr>item_size = 4, item_buffer = [2, 0, 0, 0]\<rparr>,
               \<lparr>item_size = 4, item_buffer = [0, 0, 0, 1]\<rparr>],
      status = MBEDTLS_SERIALIZE_STATUS_OK\<rparr>
     (sample_world\<lparr>files := (files sample_world)[0 := \<lparr>file_ptr = Some 1, inUse = True\<rparr>]\<rparr>)
   = Inr (MBEDTLS_ERR_SERIALIZE_UNSUPPORTED_OUTPUT sample_h,
          \<lparr>stack = [], status = MBEDTLS_SERIALIZE_STATUS_DEAD\<rparr>,
          sample_world\<lparr>files := (files sample_world)[0 := \<lparr>file_ptr = Some 1, inUse = True\<rparr>],
                         wr_out := [0x72, 0, 0, 4, 0, 0, 0, 0]\<rparr>)"
    by (simp add: sample_h_def sample_world_def frame_def status_item_def)
  from p n e f show ?thesis by (intro conjI)
qed


end
